theory Spec2Isabelle
  imports Complex_Main "HOL-Library.Word"
begin

section \<open>GrabCut with slim graph construction (modules/imgproc/src/grabcut.cpp)\<close>

text \<open>
  A shallow embedding of \<^verbatim>\<open>grabcut.cpp\<close>.  Conventions:
  \<^item> \<^verbatim>\<open>double\<close> values are modelled by exact reals; the model describes runs in which
    every double is finite (\<^verbatim>\<open>-log(0)\<close>, which is \<^verbatim>\<open>+inf\<close> in C++, is outside of it) and
    ignores rounding;
  \<^item> \<^verbatim>\<open>int\<close> values are modelled by unbounded integers (no arithmetic of the file can
    overflow on an image that fits in memory); the \<^verbatim>\<open>size_t\<close> loop counters of the
    chain traversals are 64-bit words, because their wrap-around is reachable;
  \<^item> \<^verbatim>\<open>CV_Error\<close> and \<^verbatim>\<open>CV_Assert\<close> become error values; an out-of-range
    \<^verbatim>\<open>std::vector\<close> subscript (undefined behaviour in C++) becomes an error value too,
    and so does a loop that never exits;
  \<^item> \<^verbatim>\<open>printf\<close> and \<^verbatim>\<open>clock\<close> calls are dropped.
\<close>

subsection \<open>Errors, points, matrices, loops\<close>

datatype error =
    StsBadArg string
  | StsAssert string
  | VectorOutOfRange
  | NonTermination

datatype Point = Point (px: int) (py: int)

datatype MatType = CV_8UC1 | CV_8UC3 | CV_32SC1 | CV_32FC1 | CV_64FC1

text \<open>
  \<^verbatim>\<open>cv::Mat\<close>: its size, its element type tag and its elements, addressed
  \<^verbatim>\<open>at(y, x)\<close>.  The elements are a total function; every \<^verbatim>\<open>at\<close> of the source is
  guarded by the border tests that the model keeps.
\<close>

record 'a Mat =
  rows :: int
  cols :: int
  mtype :: MatType
  elems :: "int \<Rightarrow> int \<Rightarrow> 'a"

definition empty_Mat :: "'a Mat \<Rightarrow> bool" where
  "empty_Mat m = (rows m \<le> 0 \<or> cols m \<le> 0)"

definition Mat_at :: "'a Mat \<Rightarrow> int \<Rightarrow> int \<Rightarrow> 'a" where
  "Mat_at m y x = elems m y x"

definition Mat_atP :: "'a Mat \<Rightarrow> Point \<Rightarrow> 'a" where
  "Mat_atP m p = elems m (py p) (px p)"

definition setAt :: "'a Mat \<Rightarrow> int \<Rightarrow> int \<Rightarrow> 'a \<Rightarrow> 'a Mat" where
  "setAt m y x v = m\<lparr>elems := (elems m)(y := (elems m y)(x := v))\<rparr>"

definition setAtP :: "'a Mat \<Rightarrow> Point \<Rightarrow> 'a \<Rightarrow> 'a Mat" where
  "setAtP m p v = setAt m (py p) (px p) v"

definition create :: "int \<Rightarrow> int \<Rightarrow> MatType \<Rightarrow> 'a \<Rightarrow> 'a Mat" where
  "create r c t v = \<lparr>rows = r, cols = c, mtype = t, elems = (\<lambda>_ _. v)\<rparr>"

text \<open>\<^verbatim>\<open>for (i = i0; i < n; i++) body\<close>, on a state; the second form stops at the first error.\<close>

function forLoop :: "int \<Rightarrow> int \<Rightarrow> (int \<Rightarrow> 's \<Rightarrow> 's) \<Rightarrow> 's \<Rightarrow> 's" where
  "forLoop i n body s = (if i < n then forLoop (i + 1) n body (body i s) else s)"
  by pat_completeness auto
termination
  by (relation "measure (\<lambda>(i, n, body, s). nat (n - i))") auto

function forLoopE :: "int \<Rightarrow> int \<Rightarrow> (int \<Rightarrow> 's \<Rightarrow> error + 's) \<Rightarrow> 's \<Rightarrow> error + 's" where
  "forLoopE i n body s =
     (if i < n then
        (case body i s of Inl e \<Rightarrow> Inl e | Inr s' \<Rightarrow> forLoopE (i + 1) n body s')
      else Inr s)"
  by pat_completeness auto
termination
  by (relation "measure (\<lambda>(i, n, body, s). nat (n - i))") auto

declare forLoop.simps [simp del]
declare forLoopE.simps [simp del]

subsection \<open>Constants of the interface\<close>

text \<open>
  Modelled from the spec: the mask labels (section 6: BG=0, FG=1, PR_BG=2, PR_FG=3) and the
  terminal sentinels (JOINED_BG = -1, JOINED_FG = -2) are declared in headers that are not
  part of the source file; so are the three modes, numbered in the order in which the spec
  lists them.
\<close>

type_synonym uchar = "8 word"

definition GC_BGD :: uchar where "GC_BGD = 0"
definition GC_FGD :: uchar where "GC_FGD = 1"
definition GC_PR_BGD :: uchar where "GC_PR_BGD = 2"
definition GC_PR_FGD :: uchar where "GC_PR_FGD = 3"

definition GC_INIT_WITH_RECT :: int where "GC_INIT_WITH_RECT = 0"
definition GC_INIT_WITH_MASK :: int where "GC_INIT_WITH_MASK = 1"
definition GC_EVAL :: int where "GC_EVAL = 2"

definition GC_JNT_BGD :: int where "GC_JNT_BGD = -1"
definition GC_JNT_FGD :: int where "GC_JNT_FGD = -2"

text \<open>
  Modelled from the spec: the helper predicates \<^verbatim>\<open>jfg\<close> and \<^verbatim>\<open>jbg\<close>
  ("joined-to-foreground?", "joined-to-background?") classify the sentinels.
\<close>

definition jfg :: "int \<Rightarrow> bool" where "jfg v = (v = GC_JNT_FGD)"
definition jbg :: "int \<Rightarrow> bool" where "jbg v = (v = GC_JNT_BGD)"

definition BV_NO_VTX_FOUND :: int where "BV_NO_VTX_FOUND = -10"

text \<open>\<^verbatim>\<open>std::numeric_limits<double>::epsilon()\<close>\<close>

definition DBL_EPSILON :: real where "DBL_EPSILON = 1 / 2 ^ 52"

type_synonym Vec3b = "uchar \<times> uchar \<times> uchar"
type_synonym Vec3d = "real \<times> real \<times> real"

definition toVec3d :: "Vec3b \<Rightarrow> Vec3d" where
  "toVec3d c = (case c of (b, g, r) \<Rightarrow> (real (unat b), real (unat g), real (unat r)))"

definition dot3 :: "Vec3d \<Rightarrow> Vec3d \<Rightarrow> real" where
  "dot3 a b = (case a of (a0, a1, a2) \<Rightarrow> case b of (b0, b1, b2) \<Rightarrow> a0 * b0 + a1 * b1 + a2 * b2)"

definition sub3 :: "Vec3d \<Rightarrow> Vec3d \<Rightarrow> Vec3d" where
  "sub3 a b = (case a of (a0, a1, a2) \<Rightarrow> case b of (b0, b1, b2) \<Rightarrow> (a0 - b0, a1 - b1, a2 - b2))"

subsection \<open>GMM - Gaussian Mixture Model\<close>

definition componentsCount :: int where "componentsCount = 5"

text \<open>
  The object keeps the caller's parameter buffer (\<^verbatim>\<open>model = _model\<close> shares the data) and
  the three pointers \<^verbatim>\<open>coefs\<close>, \<^verbatim>\<open>mean = coefs + 5\<close>, \<^verbatim>\<open>cov = mean + 15\<close> into its row 0.
  The arrays that C++ leaves uninitialised start at 0 here; the source never reads them
  before writing them.
\<close>

record GMM =
  model :: "real Mat"
  inverseCovs :: "int \<Rightarrow> int \<Rightarrow> int \<Rightarrow> real"
  covDeterms :: "int \<Rightarrow> real"
  sums' :: "int \<Rightarrow> int \<Rightarrow> real"
  prods :: "int \<Rightarrow> int \<Rightarrow> int \<Rightarrow> real"
  sampleCounts :: "int \<Rightarrow> int"
  totalSampleCount :: int

definition coefs :: "GMM \<Rightarrow> int \<Rightarrow> real" where
  "coefs g i = elems (model g) 0 i"

definition mean :: "GMM \<Rightarrow> int \<Rightarrow> real" where
  "mean g i = elems (model g) 0 (componentsCount + i)"

definition cov :: "GMM \<Rightarrow> int \<Rightarrow> real" where
  "cov g i = elems (model g) 0 (componentsCount + 3 * componentsCount + i)"

definition set_coefs :: "GMM \<Rightarrow> int \<Rightarrow> real \<Rightarrow> GMM" where
  "set_coefs g i v = g\<lparr>model := setAt (model g) 0 i v\<rparr>"

definition set_mean :: "GMM \<Rightarrow> int \<Rightarrow> real \<Rightarrow> GMM" where
  "set_mean g i v = g\<lparr>model := setAt (model g) 0 (componentsCount + i) v\<rparr>"

definition set_cov :: "GMM \<Rightarrow> int \<Rightarrow> real \<Rightarrow> GMM" where
  "set_cov g i v = g\<lparr>model := setAt (model g) 0 (componentsCount + 3 * componentsCount + i) v\<rparr>"

definition mat3 :: "real \<Rightarrow> real \<Rightarrow> real \<Rightarrow> real \<Rightarrow> real \<Rightarrow> real \<Rightarrow> real \<Rightarrow> real \<Rightarrow> real
    \<Rightarrow> int \<Rightarrow> int \<Rightarrow> real" where
  "mat3 a00 a01 a02 a10 a11 a12 a20 a21 a22 = (\<lambda>i j.
     if i = 0 then (if j = 0 then a00 else if j = 1 then a01 else a02)
     else if i = 1 then (if j = 0 then a10 else if j = 1 then a11 else a12)
     else (if j = 0 then a20 else if j = 1 then a21 else a22))"

definition det9 :: "(int \<Rightarrow> real) \<Rightarrow> real" where
  "det9 c = c 0 * (c 4 * c 8 - c 5 * c 7) - c 1 * (c 3 * c 8 - c 5 * c 6)
            + c 2 * (c 3 * c 7 - c 4 * c 6)"

definition calcInverseCovAndDeterm :: "int \<Rightarrow> GMM \<Rightarrow> error + GMM" where
  "calcInverseCovAndDeterm ci g =
     (if coefs g ci > 0 then
        (let c = (\<lambda>j. cov g (9 * ci + j));
             dtrm = det9 c;
             g1 = g\<lparr>covDeterms := (covDeterms g)(ci := dtrm)\<rparr>
         in if \<not> dtrm > DBL_EPSILON then Inl (StsAssert ''dtrm > std::numeric_limits<double>::epsilon()'')
            else Inr (g1\<lparr>inverseCovs := (inverseCovs g1)(ci :=
              mat3 ((c 4 * c 8 - c 5 * c 7) / dtrm)
                   (- (c 1 * c 8 - c 2 * c 7) / dtrm)
                   ((c 1 * c 5 - c 2 * c 4) / dtrm)
                   (- (c 3 * c 8 - c 5 * c 6) / dtrm)
                   ((c 0 * c 8 - c 2 * c 6) / dtrm)
                   (- (c 0 * c 5 - c 2 * c 3) / dtrm)
                   ((c 3 * c 7 - c 4 * c 6) / dtrm)
                   (- (c 0 * c 7 - c 1 * c 6) / dtrm)
                   ((c 0 * c 4 - c 1 * c 3) / dtrm))\<rparr>))
      else Inr g)"

definition GMM_init :: "real Mat \<Rightarrow> GMM" where
  "GMM_init m = \<lparr>model = m, inverseCovs = (\<lambda>_ _ _. 0), covDeterms = (\<lambda>_. 0),
     sums' = (\<lambda>_ _. 0), prods = (\<lambda>_ _ _. 0), sampleCounts = (\<lambda>_. 0), totalSampleCount = 0\<rparr>"

text \<open>The constructor \<^verbatim>\<open>GMM::GMM(Mat& _model)\<close>; an empty buffer is created and zeroed.\<close>

definition GMM_ctor :: "real Mat \<Rightarrow> error + GMM" where
  "GMM_ctor m0 =
     (let modelSize = 3 + 9 + 1 in
      if empty_Mat m0 then
        forLoopE 0 componentsCount
          (\<lambda>ci g. if coefs g ci > 0 then calcInverseCovAndDeterm ci g else Inr g)
          (GMM_init (create 1 (modelSize * componentsCount) CV_64FC1 0))
      else if mtype m0 \<noteq> CV_64FC1 \<or> rows m0 \<noteq> 1 \<or> cols m0 \<noteq> modelSize * componentsCount then
        Inl (StsBadArg ''_model must have CV_64FC1 type, rows == 1 and cols == 13*componentsCount'')
      else
        forLoopE 0 componentsCount
          (\<lambda>ci g. if coefs g ci > 0 then calcInverseCovAndDeterm ci g else Inr g)
          (GMM_init m0))"

text \<open>\<^verbatim>\<open>double GMM::operator()(int ci, const Vec3d color)\<close>\<close>

definition GMM_operator_ci :: "GMM \<Rightarrow> int \<Rightarrow> Vec3d \<Rightarrow> error + real" where
  "GMM_operator_ci g ci color =
     (if coefs g ci > 0 then
        (if \<not> covDeterms g ci > DBL_EPSILON
         then Inl (StsAssert ''covDeterms[ci] > std::numeric_limits<double>::epsilon()'')
         else
           (case color of (c0, c1, c2) \<Rightarrow>
              let d0 = c0 - mean g (3 * ci + 0);
                  d1 = c1 - mean g (3 * ci + 1);
                  d2 = c2 - mean g (3 * ci + 2);
                  ic = inverseCovs g ci;
                  mult = d0 * (d0 * ic 0 0 + d1 * ic 1 0 + d2 * ic 2 0)
                       + d1 * (d0 * ic 0 1 + d1 * ic 1 1 + d2 * ic 2 1)
                       + d2 * (d0 * ic 0 2 + d1 * ic 1 2 + d2 * ic 2 2)
              in Inr (1 / sqrt (covDeterms g ci) * exp (- (1 / 2) * mult))))
      else Inr 0)"

text \<open>\<^verbatim>\<open>double GMM::operator()(const Vec3d color)\<close>\<close>

definition GMM_operator :: "GMM \<Rightarrow> Vec3d \<Rightarrow> error + real" where
  "GMM_operator g color =
     forLoopE 0 componentsCount
       (\<lambda>ci res. case GMM_operator_ci g ci color of
                    Inl e \<Rightarrow> Inl e
                  | Inr v \<Rightarrow> Inr (res + coefs g ci * v))
       0"

definition whichComponent :: "GMM \<Rightarrow> Vec3d \<Rightarrow> error + int" where
  "whichComponent g color =
     (case forLoopE 0 componentsCount
             (\<lambda>ci (k, mx). case GMM_operator_ci g ci color of
                               Inl e \<Rightarrow> Inl e
                             | Inr p \<Rightarrow> if p > mx then Inr (ci, p) else Inr (k, mx))
             (0, 0)
      of Inl e \<Rightarrow> Inl e | Inr (k, mx) \<Rightarrow> Inr k)"

definition initLearning :: "GMM \<Rightarrow> GMM" where
  "initLearning g =
     (forLoop 0 componentsCount
        (\<lambda>ci g. g\<lparr>sums' := (sums' g)(ci := (\<lambda>_. 0)),
                  prods := (prods g)(ci := (\<lambda>_ _. 0)),
                  sampleCounts := (sampleCounts g)(ci := 0)\<rparr>) g)
     \<lparr>totalSampleCount := 0\<rparr>"

definition addSample :: "int \<Rightarrow> Vec3d \<Rightarrow> GMM \<Rightarrow> GMM" where
  "addSample ci color g =
     (case color of (c0, c1, c2) \<Rightarrow>
        g\<lparr>sums' := (sums' g)(ci := (\<lambda>j. sums' g ci j + (if j = 0 then c0 else if j = 1 then c1 else c2))),
          prods := (prods g)(ci := (\<lambda>i j. prods g ci i j
                     + (if i = 0 then c0 else if i = 1 then c1 else c2)
                       * (if j = 0 then c0 else if j = 1 then c1 else c2))),
          sampleCounts := (sampleCounts g)(ci := sampleCounts g ci + 1),
          totalSampleCount := totalSampleCount g + 1\<rparr>)"

definition endLearning_ci :: "int \<Rightarrow> GMM \<Rightarrow> error + GMM" where
  \<comment> \<open>the body of the loop; \<open>sm\<close> and \<open>pr\<close> are the arrays \<^verbatim>\<open>sums[ci]\<close> and \<^verbatim>\<open>prods[ci]\<close>\<close>
  "endLearning_ci ci g =
     (let variance = 1 / 100; n = sampleCounts g ci in
      if n = 0 then Inr (set_coefs g ci 0)
      else
        (let sm = sums' g ci; pr = prods g ci;
             g = set_coefs g ci (real_of_int n / real_of_int (totalSampleCount g));
             m0 = sm 0 / real_of_int n;
             m1 = sm 1 / real_of_int n;
             m2 = sm 2 / real_of_int n;
             g = set_mean g (3 * ci + 0) m0;
             g = set_mean g (3 * ci + 1) m1;
             g = set_mean g (3 * ci + 2) m2;
             g = set_cov g (9 * ci + 0) (pr 0 0 / real_of_int n - m0 * m0);
             g = set_cov g (9 * ci + 1) (pr 0 1 / real_of_int n - m0 * m1);
             g = set_cov g (9 * ci + 2) (pr 0 2 / real_of_int n - m0 * m2);
             g = set_cov g (9 * ci + 3) (pr 1 0 / real_of_int n - m1 * m0);
             g = set_cov g (9 * ci + 4) (pr 1 1 / real_of_int n - m1 * m1);
             g = set_cov g (9 * ci + 5) (pr 1 2 / real_of_int n - m1 * m2);
             g = set_cov g (9 * ci + 6) (pr 2 0 / real_of_int n - m2 * m0);
             g = set_cov g (9 * ci + 7) (pr 2 1 / real_of_int n - m2 * m1);
             g = set_cov g (9 * ci + 8) (pr 2 2 / real_of_int n - m2 * m2);
             dtrm = det9 (\<lambda>j. cov g (9 * ci + j));
             g = (if dtrm \<le> DBL_EPSILON then
                    set_cov (set_cov (set_cov g
                      (9 * ci + 0) (cov g (9 * ci + 0) + variance))
                      (9 * ci + 4) (cov g (9 * ci + 4) + variance))
                      (9 * ci + 8) (cov g (9 * ci + 8) + variance)
                  else g)
         in calcInverseCovAndDeterm ci g))"

definition endLearning :: "GMM \<Rightarrow> error + GMM" where
  "endLearning g = forLoopE 0 componentsCount endLearning_ci g"

subsection \<open>Scanning the image\<close>

text \<open>\<^verbatim>\<open>for (p.y = 0; p.y < r; p.y++) for (p.x = 0; p.x < c; p.x++) body\<close>\<close>

definition forPixels :: "int \<Rightarrow> int \<Rightarrow> (Point \<Rightarrow> 's \<Rightarrow> 's) \<Rightarrow> 's \<Rightarrow> 's" where
  "forPixels r c body s = forLoop 0 r (\<lambda>y. forLoop 0 c (\<lambda>x. body (Point x y))) s"

definition forPixelsE :: "int \<Rightarrow> int \<Rightarrow> (Point \<Rightarrow> 's \<Rightarrow> error + 's) \<Rightarrow> 's \<Rightarrow> error + 's" where
  "forPixelsE r c body s = forLoopE 0 r (\<lambda>y. forLoopE 0 c (\<lambda>x. body (Point x y))) s"

definition isPR :: "uchar \<Rightarrow> bool" where
  "isPR v = (v = GC_PR_BGD \<or> v = GC_PR_FGD)"

subsection \<open>beta and the smoothness weights\<close>

definition sqrDiff :: "Vec3b Mat \<Rightarrow> int \<Rightarrow> int \<Rightarrow> int \<Rightarrow> int \<Rightarrow> real" where
  "sqrDiff img y x y' x' =
     (let diff = sub3 (toVec3d (Mat_at img y x)) (toVec3d (Mat_at img y' x')) in dot3 diff diff)"

definition calcBeta :: "Vec3b Mat \<Rightarrow> real" where
  "calcBeta img =
     (let beta = forPixels (rows img) (cols img)
            (\<lambda>p beta.
               let x = px p; y = py p;
                   beta = (if x > 0 then beta + sqrDiff img y x y (x - 1) else beta);
                   beta = (if y > 0 \<and> x > 0 then beta + sqrDiff img y x (y - 1) (x - 1) else beta);
                   beta = (if y > 0 then beta + sqrDiff img y x (y - 1) x else beta);
                   beta = (if y > 0 \<and> x < cols img - 1 then beta + sqrDiff img y x (y - 1) (x + 1) else beta)
               in beta) 0
      in if beta \<le> DBL_EPSILON then 0
         else 1 / (2 * beta / real_of_int (4 * cols img * rows img - 3 * cols img - 3 * rows img + 2)))"

record NWeights =
  leftW :: "real Mat"
  upleftW :: "real Mat"
  upW :: "real Mat"
  uprightW :: "real Mat"

definition calcNWeights :: "Vec3b Mat \<Rightarrow> real \<Rightarrow> real \<Rightarrow> NWeights" where
  "calcNWeights img beta gamma =
     (let gammaDivSqrt2 = gamma / sqrt 2 in
      forPixels (rows img) (cols img)
        (\<lambda>p nw.
           let x = px p; y = py p;
               nw = nw\<lparr>leftW := setAt (leftW nw) y x
                      (if x - 1 \<ge> 0 then gamma * exp (- beta * sqrDiff img y x y (x - 1)) else 0)\<rparr>;
               nw = nw\<lparr>upleftW := setAt (upleftW nw) y x
                      (if x - 1 \<ge> 0 \<and> y - 1 \<ge> 0
                       then gammaDivSqrt2 * exp (- beta * sqrDiff img y x (y - 1) (x - 1)) else 0)\<rparr>;
               nw = nw\<lparr>upW := setAt (upW nw) y x
                      (if y - 1 \<ge> 0 then gamma * exp (- beta * sqrDiff img y x (y - 1) x) else 0)\<rparr>;
               nw = nw\<lparr>uprightW := setAt (uprightW nw) y x
                      (if x + 1 < cols img \<and> y - 1 \<ge> 0
                       then gammaDivSqrt2 * exp (- beta * sqrDiff img y x (y - 1) (x + 1)) else 0)\<rparr>
           in nw)
        \<lparr>leftW = create (rows img) (cols img) CV_64FC1 0,
         upleftW = create (rows img) (cols img) CV_64FC1 0,
         upW = create (rows img) (cols img) CV_64FC1 0,
         uprightW = create (rows img) (cols img) CV_64FC1 0\<rparr>)"

subsection \<open>Mask checks and initialisation\<close>

definition checkMask :: "Vec3b Mat \<Rightarrow> uchar Mat \<Rightarrow> error + unit" where
  "checkMask img msk =
     (if empty_Mat msk then Inl (StsBadArg ''mask is empty'')
      else if mtype msk \<noteq> CV_8UC1 then Inl (StsBadArg ''mask must have CV_8UC1 type'')
      else if cols msk \<noteq> cols img \<or> rows msk \<noteq> rows img
        then Inl (StsBadArg ''mask must have as many rows and cols as img'')
      else forPixelsE (rows msk) (cols msk)
        (\<lambda>p u. let val = Mat_atP msk p in
           if val \<noteq> GC_BGD \<and> val \<noteq> GC_FGD \<and> val \<noteq> GC_PR_BGD \<and> val \<noteq> GC_PR_FGD
           then Inl (StsBadArg ''mask element value must be equelGC_BGD or GC_FGD or GC_PR_BGD or GC_PR_FGD'')
           else Inr u) ())"

datatype Rect = Rect (rect_x: int) (rect_y: int) (rect_width: int) (rect_height: int)

datatype Size = Size (size_width: int) (size_height: int)

definition size_of :: "'a Mat \<Rightarrow> Size" where
  "size_of m = Size (cols m) (rows m)"

text \<open>
  Modelled from the spec: \<^verbatim>\<open>Mat::operator()(Rect)\<close> and \<^verbatim>\<open>setTo\<close> are matrix storage
  primitives kept outside of the source file, and the spec is silent about them.  The
  region-of-interest constructor of the matrix library asserts that the rectangle has a
  non-negative origin and extent and lies inside the matrix, and raises otherwise;
  \<^verbatim>\<open>(m(rect)).setTo(v)\<close> then writes \<open>v\<close> to the pixels \<open>(y, x)\<close> of the rectangle:
  \<open>rect.x \<le> x < rect.x + rect.width\<close> and \<open>rect.y \<le> y < rect.y + rect.height\<close>.
\<close>

definition inRect :: "Rect \<Rightarrow> int \<Rightarrow> int \<Rightarrow> bool" where
  "inRect r y x = (rect_x r \<le> x \<and> x < rect_x r + rect_width r
                 \<and> rect_y r \<le> y \<and> y < rect_y r + rect_height r)"

definition roi_ok :: "'a Mat \<Rightarrow> Rect \<Rightarrow> bool" where
  "roi_ok m r = (0 \<le> rect_x r \<and> 0 \<le> rect_width r \<and> rect_x r + rect_width r \<le> cols m
               \<and> 0 \<le> rect_y r \<and> 0 \<le> rect_height r \<and> rect_y r + rect_height r \<le> rows m)"

definition setTo_roi :: "'a Mat \<Rightarrow> Rect \<Rightarrow> 'a \<Rightarrow> error + 'a Mat" where
  "setTo_roi m r v =
     (if roi_ok m r
      then Inr (m\<lparr>elems := (\<lambda>y x. if inRect r y x then v else elems m y x)\<rparr>)
      else Inl (StsAssert ''0 <= roi.x && 0 <= roi.width && roi.x + roi.width <= m.cols && 0 <= roi.y && 0 <= roi.height && roi.y + roi.height <= m.rows''))"

text \<open>
  \<^verbatim>\<open>initMaskWithRect\<close>: the mask is created and filled with BG, the origin of the rectangle
  is raised to 0, width and height are limited to what remains of the image from that
  origin, and the region of the mask given by the rectangle is set to PR_FG.
\<close>

definition clipRect :: "Size \<Rightarrow> Rect \<Rightarrow> Rect" where
  "clipRect imgSize rect =
     (let x = max 0 (rect_x rect);
          y = max 0 (rect_y rect);
          w = min (rect_width rect) (size_width imgSize - x);
          h = min (rect_height rect) (size_height imgSize - y)
      in Rect x y w h)"

definition initMaskWithRect :: "Size \<Rightarrow> Rect \<Rightarrow> error + uchar Mat" where
  "initMaskWithRect imgSize rect =
     (let msk = create (size_height imgSize) (size_width imgSize) CV_8UC1 GC_BGD
      in setTo_roi msk (clipRect imgSize rect) GC_PR_FGD)"

subsection \<open>Seeding and learning the GMMs\<close>

text \<open>
  The k-means collaborator is a parameter: from the samples to the label of sample \<open>i\<close>.
\<close>

type_synonym kmeans_fn = "Vec3d list \<Rightarrow> int \<Rightarrow> int"

definition learnFromLabels :: "Vec3d list \<Rightarrow> (int \<Rightarrow> int) \<Rightarrow> GMM \<Rightarrow> error + GMM" where
  "learnFromLabels samples labels g =
     endLearning
       (forLoop 0 (int (length samples))
          (\<lambda>i g. addSample (labels i) (samples ! nat i) g) (initLearning g))"

definition isBgdLabel :: "uchar \<Rightarrow> bool" where
  "isBgdLabel v = (v = GC_BGD \<or> v = GC_PR_BGD)"

definition initGMMs :: "kmeans_fn \<Rightarrow> Vec3b Mat \<Rightarrow> uchar Mat \<Rightarrow> GMM \<Rightarrow> GMM \<Rightarrow> error + GMM \<times> GMM" where
  "initGMMs kmeans img msk bgdGMM fgdGMM =
     (case forPixels (rows img) (cols img)
             (\<lambda>p (bgdSamples, fgdSamples).
                if isBgdLabel (Mat_atP msk p)
                then (bgdSamples @ [toVec3d (Mat_atP img p)], fgdSamples)
                else (bgdSamples, fgdSamples @ [toVec3d (Mat_atP img p)]))
             ([], [])
      of (bgdSamples, fgdSamples) \<Rightarrow>
        if \<not> (bgdSamples \<noteq> [] \<and> fgdSamples \<noteq> [])
        then Inl (StsAssert ''!bgdSamples.empty() && !fgdSamples.empty()'')
        else
          (let bgdLabels = kmeans bgdSamples; fgdLabels = kmeans fgdSamples in
           case learnFromLabels bgdSamples bgdLabels bgdGMM of
             Inl e \<Rightarrow> Inl e
           | Inr bgdGMM \<Rightarrow>
               (case learnFromLabels fgdSamples fgdLabels fgdGMM of
                  Inl e \<Rightarrow> Inl e
                | Inr fgdGMM \<Rightarrow> Inr (bgdGMM, fgdGMM))))"

definition assignGMMsComponents :: "Vec3b Mat \<Rightarrow> uchar Mat \<Rightarrow> GMM \<Rightarrow> GMM \<Rightarrow> int Mat \<Rightarrow> error + int Mat" where
  "assignGMMsComponents img msk bgdGMM fgdGMM compIdxs =
     forPixelsE (rows img) (cols img)
       (\<lambda>p compIdxs.
          let color = toVec3d (Mat_atP img p) in
          case (if isBgdLabel (Mat_atP msk p)
                then whichComponent bgdGMM color else whichComponent fgdGMM color) of
            Inl e \<Rightarrow> Inl e
          | Inr k \<Rightarrow> Inr (setAtP compIdxs p k))
       compIdxs"

definition learnGMMs :: "Vec3b Mat \<Rightarrow> uchar Mat \<Rightarrow> int Mat \<Rightarrow> GMM \<Rightarrow> GMM \<Rightarrow> error + GMM \<times> GMM" where
  "learnGMMs img msk compIdxs bgdGMM fgdGMM =
     (case forLoop 0 componentsCount
             (\<lambda>ci. forPixels (rows img) (cols img)
                (\<lambda>p (bgdGMM, fgdGMM).
                   if Mat_atP compIdxs p = ci then
                     (if isBgdLabel (Mat_atP msk p)
                      then (addSample ci (toVec3d (Mat_atP img p)) bgdGMM, fgdGMM)
                      else (bgdGMM, addSample ci (toVec3d (Mat_atP img p)) fgdGMM))
                   else (bgdGMM, fgdGMM)))
             (initLearning bgdGMM, initLearning fgdGMM)
      of (bgdGMM, fgdGMM) \<Rightarrow>
        (case endLearning bgdGMM of
           Inl e \<Rightarrow> Inl e
         | Inr bgdGMM \<Rightarrow>
             (case endLearning fgdGMM of
                Inl e \<Rightarrow> Inl e
              | Inr fgdGMM \<Rightarrow> Inr (bgdGMM, fgdGMM))))"

subsection \<open>Data terms\<close>

text \<open>\<^verbatim>\<open>-log(gmm(color))\<close>\<close>

definition negLogP :: "GMM \<Rightarrow> Vec3d \<Rightarrow> error + real" where
  "negLogP g color = (case GMM_operator g color of Inl e \<Rightarrow> Inl e | Inr v \<Rightarrow> Inr (- ln v))"

definition getSinkW :: "Point \<Rightarrow> Vec3b Mat \<Rightarrow> uchar Mat \<Rightarrow> GMM \<Rightarrow> GMM \<Rightarrow> real \<Rightarrow> error + real" where
  "getSinkW p img msk bgdGMM fgdGMM lambda =
     (let color = toVec3d (Mat_at img (py p) (px p)) in
      if Mat_atP msk p = GC_BGD then Inr lambda
      else if Mat_at msk (py p) (px p) = GC_PR_BGD \<or> Mat_at msk (py p) (px p) = GC_PR_FGD
        then negLogP fgdGMM color
      else Inr 0)"

definition getSourceW :: "Point \<Rightarrow> Vec3b Mat \<Rightarrow> uchar Mat \<Rightarrow> GMM \<Rightarrow> GMM \<Rightarrow> real \<Rightarrow> error + real" where
  "getSourceW p img msk bgdGMM fgdGMM lambda =
     (let color = toVec3d (Mat_at img (py p) (px p)) in
      if Mat_atP msk p = GC_FGD then Inr lambda
      else if Mat_at msk (py p) (px p) = GC_PR_BGD \<or> Mat_at msk (py p) (px p) = GC_PR_FGD
        then negLogP bgdGMM color
      else Inr 0)"

definition tWeights :: "Vec3b Mat \<Rightarrow> uchar Mat \<Rightarrow> GMM \<Rightarrow> GMM \<Rightarrow> real \<Rightarrow> Point \<Rightarrow> error + real \<times> real" where
  \<comment> \<open>the \<^verbatim>\<open>fromSource\<close>, \<^verbatim>\<open>toSink\<close> block shared by \<^verbatim>\<open>initSigmaW\<close> and \<^verbatim>\<open>constructGCGraph\<close>\<close>
  "tWeights img msk bgdGMM fgdGMM lambda p =
     (let color = toVec3d (Mat_atP img p) in
      if Mat_atP msk p = GC_PR_BGD \<or> Mat_atP msk p = GC_PR_FGD then
        (case negLogP bgdGMM color of
           Inl e \<Rightarrow> Inl e
         | Inr fromSource \<Rightarrow>
             (case negLogP fgdGMM color of
                Inl e \<Rightarrow> Inl e
              | Inr toSink \<Rightarrow> Inr (fromSource, toSink)))
      else if Mat_atP msk p = GC_BGD then Inr (0, lambda)
      else Inr (lambda, 0))"

subsection \<open>Pending weights\<close>

text \<open>The four weight tables travel together, as the record \<open>NWeights\<close>.\<close>

definition pendingSumW :: "Point \<Rightarrow> Point \<Rightarrow> Vec3b Mat \<Rightarrow> NWeights \<Rightarrow> real" where
  "pendingSumW p pxl img nw =
     (let s = 0;
          s = (if (py pxl = py p \<and> px pxl < px p) \<or> (py pxl = py p - 1 \<and> px pxl \<ge> px p) then
                 (let s = (if px pxl = px p - 1
                           then s + Mat_atP (leftW nw) (Point (px pxl + 1) (py pxl)) else s);
                      s = (if py pxl < rows img - 1 then
                             (let s = s + Mat_at (upW nw) (py pxl + 1) (px pxl);
                                  s = (if px pxl > 0 \<and> px pxl \<noteq> px p
                                       then s + Mat_at (uprightW nw) (py pxl + 1) (px pxl - 1) else s);
                                  s = (if px pxl < cols img - 1
                                       then s + Mat_at (upleftW nw) (py pxl + 1) (px pxl + 1) else s)
                              in s)
                           else s)
                  in s)
               else s);
          s = (if py pxl = py p - 1 \<and> px pxl = px p - 1 then s + Mat_atP (upleftW nw) p else s)
      in s)"

text \<open>
  \<^verbatim>\<open>for (size_t i = chain.size() - 1; i-- > 0; ) { pxl = chain[i]; s += ...; if (...) break; }\<close>
  The counter is a 64-bit word: the test \<^verbatim>\<open>i-- > 0\<close> reads \<open>i\<close>, then decrements it, and the
  body runs with the decremented value.
\<close>

function chainLoop :: "(Point \<Rightarrow> real) \<Rightarrow> (Point \<Rightarrow> bool) \<Rightarrow> Point list \<Rightarrow> 64 word \<Rightarrow> real \<Rightarrow> error + real" where
  "chainLoop pend stop chain i s =
     (if i > 0 then
        (let i' = i - 1 in
         if unat i' < length chain then
           (let pxl = chain ! unat i'; s' = s + pend pxl in
            if stop pxl then Inr s' else chainLoop pend stop chain i' s')
         else Inl VectorOutOfRange)
      else Inr s)"
  by pat_completeness auto
termination
  by (relation "measure (\<lambda>(pend, stop, chain, i, s). unat i)")
     (auto simp: unat_minus_one word_gt_0 unat_gt_0)

declare chainLoop.simps [simp del]

definition getSinkPendingSumW :: "Point \<Rightarrow> Vec3b Mat \<Rightarrow> NWeights \<Rightarrow> Point list \<Rightarrow> error + real" where
  "getSinkPendingSumW p img nw sinkToPxl =
     chainLoop (\<lambda>pxl. pendingSumW p pxl img nw)
       (\<lambda>pxl. py pxl \<le> py p - 1 \<and> px pxl < px p - 1)
       sinkToPxl (word_of_nat (length sinkToPxl) - 1) 0"

definition getSourcePendingSumW :: "Point \<Rightarrow> Vec3b Mat \<Rightarrow> NWeights \<Rightarrow> Point list \<Rightarrow> error + real" where
  "getSourcePendingSumW p img nw sourceToPxl =
     chainLoop (\<lambda>pxl. pendingSumW p pxl img nw)
       (\<lambda>pxl. py pxl \<le> py p - 1 \<and> px pxl < px p - 1)
       sourceToPxl (word_of_nat (length sourceToPxl) - 1) 0"

definition initSigmaW :: "Vec3b Mat \<Rightarrow> uchar Mat \<Rightarrow> GMM \<Rightarrow> GMM \<Rightarrow> real Mat \<Rightarrow> NWeights \<Rightarrow> real \<Rightarrow> error + real Mat" where
  "initSigmaW img msk bgdGMM fgdGMM sigmaW nw lambda =
     forPixelsE (rows img) (cols img)
       (\<lambda>p sigmaW.
          let x = px p; y = py p;
              s = 0;
              s = s + Mat_at (leftW nw) y x;
              s = s + Mat_at (upleftW nw) y x;
              s = s + Mat_at (upW nw) y x;
              s = s + Mat_at (uprightW nw) y x;
              s = (if x < cols img - 1 then s + Mat_at (leftW nw) y (x + 1) else s);
              s = (if x < cols img - 1 \<and> y < rows img - 1 then s + Mat_at (upleftW nw) (y + 1) (x + 1) else s);
              s = (if y < rows img - 1 then s + Mat_at (upW nw) (y + 1) x else s);
              s = (if x > 0 \<and> y < rows img - 1 then s + Mat_at (uprightW nw) (y + 1) (x - 1) else s)
          in case tWeights img msk bgdGMM fgdGMM lambda p of
               Inl e \<Rightarrow> Inl e
             | Inr (fromSource, toSink) \<Rightarrow> Inr (setAt sigmaW y x (s + fromSource + toSink)))
       sigmaW"

subsection \<open>The graph\<close>

text \<open>
  Modelled from the spec: the class \<^verbatim>\<open>GCGraph\<close> (gcgraph.hpp) is not part of the source
  file.  Section 6 gives its contract: \<^verbatim>\<open>addVtx\<close> returns the index of a new vertex,
  \<^verbatim>\<open>addTermWeights\<close> accumulates the two terminal capacities of a vertex, \<^verbatim>\<open>addEdges\<close> adds
  capacities in both directions, \<^verbatim>\<open>addWeight\<close> adds one weight to both directions,
  \<^verbatim>\<open>sumW(v)\<close> is the total capacity incident to \<open>v\<close>, terminals included, each vertex stores
  one point (\<^verbatim>\<open>getFirstP\<close>, \<^verbatim>\<open>setFirstP\<close>), and \<^verbatim>\<open>source_sigmaW\<close>, \<^verbatim>\<open>sink_sigmaW\<close> are the
  accumulators of the two terminals, the analogues of \<^verbatim>\<open>sumW\<close>.
\<close>

record GCGraph =
  vtcs :: int
  sourceCap :: "int \<Rightarrow> real"
  sinkCap :: "int \<Rightarrow> real"
  edgeCap :: "int \<Rightarrow> int \<Rightarrow> real"
  firstP :: "int \<Rightarrow> Point"
  source_sigmaW :: real
  sink_sigmaW :: real

definition graph_create :: "int \<Rightarrow> int \<Rightarrow> GCGraph" where
  "graph_create vtxCount edgeCount =
     \<lparr>vtcs = 0, sourceCap = (\<lambda>_. 0), sinkCap = (\<lambda>_. 0), edgeCap = (\<lambda>_ _. 0),
      firstP = (\<lambda>_. Point (-1) (-1)), source_sigmaW = 0, sink_sigmaW = 0\<rparr>"

definition addVtx :: "GCGraph \<Rightarrow> int \<times> GCGraph" where
  "addVtx g = (vtcs g, g\<lparr>vtcs := vtcs g + 1\<rparr>)"

definition addTermWeights :: "GCGraph \<Rightarrow> int \<Rightarrow> real \<Rightarrow> real \<Rightarrow> GCGraph" where
  "addTermWeights g i fromSource toSink =
     g\<lparr>sourceCap := (sourceCap g)(i := sourceCap g i + fromSource),
       sinkCap := (sinkCap g)(i := sinkCap g i + toSink),
       source_sigmaW := source_sigmaW g + fromSource,
       sink_sigmaW := sink_sigmaW g + toSink\<rparr>"

definition addEdges :: "GCGraph \<Rightarrow> int \<Rightarrow> int \<Rightarrow> real \<Rightarrow> real \<Rightarrow> GCGraph" where
  "addEdges g i j w revw =
     (let g = g\<lparr>edgeCap := (edgeCap g)(i := (edgeCap g i)(j := edgeCap g i j + w))\<rparr>
      in g\<lparr>edgeCap := (edgeCap g)(j := (edgeCap g j)(i := edgeCap g j i + revw))\<rparr>)"

definition addWeight :: "GCGraph \<Rightarrow> int \<Rightarrow> int \<Rightarrow> real \<Rightarrow> GCGraph" where
  "addWeight g i j w = addEdges g i j w w"

definition sumW :: "GCGraph \<Rightarrow> int \<Rightarrow> real" where
  "sumW g i = sourceCap g i + sinkCap g i + (\<Sum>j\<leftarrow>[0..vtcs g - 1]. edgeCap g i j)"

definition getFirstP :: "GCGraph \<Rightarrow> int \<Rightarrow> Point" where
  "getFirstP g i = firstP g i"

definition setFirstP :: "GCGraph \<Rightarrow> int \<Rightarrow> Point \<Rightarrow> GCGraph" where
  "setFirstP g i p = g\<lparr>firstP := (firstP g)(i := p)\<rparr>"

text \<open>
  Modelled from the spec: the solver is an external collaborator; \<^verbatim>\<open>maxFlow()\<close> returns the
  value of a minimum cut.  A cut is the set \<open>S\<close> of the vertices left on the source side:
  it pays the sink capacity of the vertices in \<open>S\<close>, the source capacity of the others and
  the capacity of every edge that leaves \<open>S\<close>.
\<close>

definition cutValue :: "GCGraph \<Rightarrow> int list \<Rightarrow> real" where
  "cutValue g S =
     (\<Sum>v\<leftarrow>[0..vtcs g - 1]. if v \<in> set S then sinkCap g v else sourceCap g v)
     + (\<Sum>u\<leftarrow>[0..vtcs g - 1]. \<Sum>v\<leftarrow>[0..vtcs g - 1].
          if u \<in> set S \<and> v \<notin> set S then edgeCap g u v else 0)"

definition maxFlow :: "GCGraph \<Rightarrow> real" where
  "maxFlow g = Min (set (map (cutValue g) (subseqs [0..vtcs g - 1])))"

subsection \<open>Searching a join\<close>

text \<open>
  \<^verbatim>\<open>for (Point pxl = graph.getFirstP(i); pxl != Point(-1, -1); pxl = Vtx2pxl.at<Point>(p))\<close>:
  the step reads the table at the scanned pixel \<open>p\<close>, not at \<open>pxl\<close>; \<open>nxt\<close> is that value.
  The loop need not exit.
\<close>

partial_function (option) slimSumW_loop :: "(Point \<Rightarrow> real) \<Rightarrow> Point \<Rightarrow> Point \<Rightarrow> real \<Rightarrow> real option" where
  "slimSumW_loop pend nxt pxl s =
     (if pxl \<noteq> Point (-1) (-1) then slimSumW_loop pend nxt nxt (s + pend pxl) else Some s)"

definition slimSumW :: "Vec3b Mat \<Rightarrow> int \<Rightarrow> Point \<Rightarrow> GCGraph \<Rightarrow> NWeights \<Rightarrow> Point Mat \<Rightarrow> error + real" where
  "slimSumW img i p graph nw Vtx2pxl =
     (case slimSumW_loop (\<lambda>pxl. pendingSumW p pxl img nw) (Mat_atP Vtx2pxl p)
             (getFirstP graph i) (sumW graph i) of
        None \<Rightarrow> Inl NonTermination
      | Some s \<Rightarrow> Inr s)"

fun searchJoin_loop :: "(int \<Rightarrow> int) \<Rightarrow> (int \<Rightarrow> real) \<Rightarrow> real \<Rightarrow> real \<Rightarrow> real
    \<Rightarrow> (int \<Rightarrow> error + real) \<Rightarrow> error + real \<Rightarrow> error + real \<Rightarrow> int list \<Rightarrow> error + int" where
  "searchJoin_loop nghbrVtx s sig ws wt slim sinkPend sourcePend [] = Inr BV_NO_VTX_FOUND"
| "searchJoin_loop nghbrVtx s sig ws wt slim sinkPend sourcePend (i # rest) =
     (let cn = nghbrVtx i in
      if cn = -10 then searchJoin_loop nghbrVtx s sig ws wt slim sinkPend sourcePend rest
      else if s i > 0.5 * sig then Inr cn
      else if cn \<ge> 0 then
        (case slim cn of
           Inl e \<Rightarrow> Inl e
         | Inr t \<Rightarrow> if s i > 0.5 * t then Inr cn
                    else searchJoin_loop nghbrVtx s sig ws wt slim sinkPend sourcePend rest)
      else if cn = GC_JNT_BGD then
        (case sinkPend of
           Inl e \<Rightarrow> Inl e
         | Inr t \<Rightarrow> if ws > 0.5 * t then Inr cn
                    else searchJoin_loop nghbrVtx s sig ws wt slim sinkPend sourcePend rest)
      else
        (case sourcePend of
           Inl e \<Rightarrow> Inl e
         | Inr t \<Rightarrow> if wt > 0.5 * t then Inr cn
                    else searchJoin_loop nghbrVtx s sig ws wt slim sinkPend sourcePend rest))"

declare searchJoin_loop.simps [simp del]

definition nghbrVtx_of :: "Point \<Rightarrow> Vec3b Mat \<Rightarrow> int Mat \<Rightarrow> int \<Rightarrow> int" where
  "nghbrVtx_of p img pxl2Vtx =
     (let n = (\<lambda>i. -10);
          n = (if px p > 0 then n(0 := Mat_at pxl2Vtx (py p) (px p - 1)) else n);
          n = (if px p > 0 \<and> py p > 0 then n(1 := Mat_at pxl2Vtx (py p - 1) (px p - 1)) else n);
          n = (if py p > 0 then n(2 := Mat_at pxl2Vtx (py p - 1) (px p)) else n);
          n = (if py p > 0 \<and> px p < cols img - 1 then n(3 := Mat_at pxl2Vtx (py p - 1) (px p + 1)) else n)
      in n)"

definition nghbrW_of :: "Point \<Rightarrow> Vec3b Mat \<Rightarrow> NWeights \<Rightarrow> int \<Rightarrow> real" where
  "nghbrW_of p img nw =
     (let w = (\<lambda>i. 0);
          w = (if px p > 0 then w(0 := Mat_atP (leftW nw) p) else w);
          w = (if px p > 0 \<and> py p > 0 then w(1 := Mat_atP (upleftW nw) p) else w);
          w = (if py p > 0 then w(2 := Mat_atP (upW nw) p) else w);
          w = (if py p > 0 \<and> px p < cols img - 1 then w(3 := Mat_atP (uprightW nw) p) else w)
      in w)"

text \<open>
  The array \<^verbatim>\<open>s\<close>: the weights towards the same vertex are summed, and the data term
  towards a terminal neighbour is added.
\<close>

definition nghbrS_of :: "(int \<Rightarrow> int) \<Rightarrow> (int \<Rightarrow> real) \<Rightarrow> real \<Rightarrow> real \<Rightarrow> int \<Rightarrow> real" where
  "nghbrS_of nghbrVtx w ws wt =
     (\<lambda>i. (\<Sum>j\<leftarrow>[0, 1, 2, 3]. if nghbrVtx i = nghbrVtx j then w j else 0)
          + (if nghbrVtx i = GC_JNT_BGD then ws else 0)
          + (if nghbrVtx i = GC_JNT_FGD then wt else 0))"

definition searchJoin :: "Point \<Rightarrow> Vec3b Mat \<Rightarrow> real Mat \<Rightarrow> int Mat \<Rightarrow> NWeights \<Rightarrow> GCGraph \<Rightarrow> Point Mat
    \<Rightarrow> uchar Mat \<Rightarrow> GMM \<Rightarrow> GMM \<Rightarrow> real \<Rightarrow> Point list \<Rightarrow> Point list \<Rightarrow> error + int" where
  "searchJoin p img sigmaW pxl2Vtx nw graph Vtx2pxl msk bgdGMM fgdGMM lambda sinkToPxl sourceToPxl =
     (let nghbrVtx = nghbrVtx_of p img pxl2Vtx;
          w = nghbrW_of p img nw
      in case getSinkW p img msk bgdGMM fgdGMM lambda of
           Inl e \<Rightarrow> Inl e
         | Inr ws \<Rightarrow>
        (case getSourceW p img msk bgdGMM fgdGMM lambda of
           Inl e \<Rightarrow> Inl e
         | Inr wt \<Rightarrow>
          (let s = nghbrS_of nghbrVtx w ws wt
           in if ws > 0.5 * Mat_atP sigmaW p then Inr GC_JNT_BGD
              else if wt > 0.5 * Mat_atP sigmaW p then Inr GC_JNT_FGD
              else searchJoin_loop nghbrVtx s (Mat_atP sigmaW p) ws wt
                     (\<lambda>cn. slimSumW img cn p graph nw Vtx2pxl)
                     (case getSinkPendingSumW p img nw sinkToPxl of
                        Inl e \<Rightarrow> Inl e | Inr t \<Rightarrow> Inr (sink_sigmaW graph + t))
                     (case getSourcePendingSumW p img nw sourceToPxl of
                        Inl e \<Rightarrow> Inl e | Inr t \<Rightarrow> Inr (source_sigmaW graph + t))
                     [0, 1, 2, 3])))"

subsection \<open>The slim graph construction\<close>

text \<open>The locals of \<^verbatim>\<open>constructGCGraph_slim\<close> that the scan updates.\<close>

record SlimState =
  s_graph :: GCGraph
  s_pxl2Vtx :: "int Mat"
  s_Vtx2pxl :: "Point Mat"
  s_sinkToPxl :: "Point list"
  s_sourceToPxl :: "Point list"
  s_s2tw :: real
  s_count :: int

text \<open>The first half of the loop body: the pixel gets its vertex or its terminal.\<close>

definition slimJoin :: "Vec3b Mat \<Rightarrow> uchar Mat \<Rightarrow> GMM \<Rightarrow> GMM \<Rightarrow> real \<Rightarrow> NWeights \<Rightarrow> real Mat
    \<Rightarrow> Point \<Rightarrow> SlimState \<Rightarrow> error + SlimState" where
  "slimJoin img msk bgdGMM fgdGMM lambda nw sigmaW p st =
     (let color = toVec3d (Mat_atP img p) in
      if Mat_atP msk p = GC_PR_BGD \<or> Mat_atP msk p = GC_PR_FGD then
        (case searchJoin p img sigmaW (s_pxl2Vtx st) nw (s_graph st) (s_Vtx2pxl st) msk
                bgdGMM fgdGMM lambda (s_sinkToPxl st) (s_sourceToPxl st) of
           Inl e \<Rightarrow> Inl e
         | Inr i \<Rightarrow>
            (case
               (if i \<noteq> BV_NO_VTX_FOUND then
                  (let st = st\<lparr>s_count := s_count st + 1\<rparr> in
                   if i \<ge> 0 then
                     (i, st\<lparr>s_pxl2Vtx := setAtP (s_pxl2Vtx st) p i,
                            s_Vtx2pxl := setAtP (s_Vtx2pxl st) p (getFirstP (s_graph st) i),
                            s_graph := setFirstP (s_graph st) i p\<rparr>)
                   else
                     (i, (let st = st\<lparr>s_pxl2Vtx := setAtP (s_pxl2Vtx st) p i\<rparr> in
                          if i = GC_JNT_BGD then st\<lparr>s_sinkToPxl := s_sinkToPxl st @ [p]\<rparr>
                          else st\<lparr>s_sourceToPxl := s_sourceToPxl st @ [p]\<rparr>)))
                else
                  (case addVtx (s_graph st) of (vtxIdx, g) \<Rightarrow>
                     (vtxIdx, st\<lparr>s_pxl2Vtx := setAtP (s_pxl2Vtx st) p vtxIdx,
                                 s_graph := setFirstP g vtxIdx p\<rparr>)))
             of (vtxIdx, st) \<Rightarrow>
               if vtxIdx \<ge> 0 then
                 (case negLogP bgdGMM color of
                    Inl e \<Rightarrow> Inl e
                  | Inr fromSource \<Rightarrow>
                      (case negLogP fgdGMM color of
                         Inl e \<Rightarrow> Inl e
                       | Inr toSink \<Rightarrow>
                           Inr (st\<lparr>s_graph := addTermWeights (s_graph st) vtxIdx fromSource toSink\<rparr>)))
               else if vtxIdx = GC_JNT_BGD then
                 (case getSourceW p img msk bgdGMM fgdGMM lambda of
                    Inl e \<Rightarrow> Inl e
                  | Inr v \<Rightarrow> Inr (st\<lparr>s_s2tw := s_s2tw st + v\<rparr>))
               else
                 (case getSinkW p img msk bgdGMM fgdGMM lambda of
                    Inl e \<Rightarrow> Inl e
                  | Inr v \<Rightarrow> Inr (st\<lparr>s_s2tw := s_s2tw st + v\<rparr>))))
      else if Mat_atP msk p = GC_BGD then
        Inr (st\<lparr>s_pxl2Vtx := setAtP (s_pxl2Vtx st) p GC_JNT_BGD,
                s_sinkToPxl := s_sinkToPxl st @ [p]\<rparr>)
      else
        Inr (st\<lparr>s_pxl2Vtx := setAtP (s_pxl2Vtx st) p GC_JNT_FGD,
                s_sourceToPxl := s_sourceToPxl st @ [p]\<rparr>))"

text \<open>
  The block that the source repeats for each of the four predecessors: \<open>vtx\<close> is the id of
  the scanned pixel, \<open>n\<close> the id of the neighbour, \<open>w\<close> the weight of the edge between them.
\<close>

definition slimEdge :: "int \<Rightarrow> real \<Rightarrow> int \<Rightarrow> SlimState \<Rightarrow> SlimState" where
  "slimEdge vtx w n st =
     (if n \<ge> 0 then
        (if vtx \<ge> 0 then
           (if vtx \<noteq> n then st\<lparr>s_graph := addWeight (s_graph st) vtx n w\<rparr> else st)
         else st\<lparr>s_graph := addTermWeights (s_graph st) n
                    (if jfg vtx then w else 0) (if jbg vtx then w else 0)\<rparr>)
      else
        (if vtx \<ge> 0 then
           st\<lparr>s_graph := addTermWeights (s_graph st) vtx
                (if jfg n then w else 0) (if jbg n then w else 0)\<rparr>
         else (if jbg vtx \<noteq> jbg n then st\<lparr>s_s2tw := s_s2tw st + w\<rparr> else st)))"

definition slimEdges :: "Vec3b Mat \<Rightarrow> NWeights \<Rightarrow> Point \<Rightarrow> SlimState \<Rightarrow> SlimState" where
  "slimEdges img nw p st =
     (let vtx = Mat_atP (s_pxl2Vtx st) p;
          st = (if px p > 0
                then slimEdge vtx (Mat_atP (leftW nw) p)
                       (Mat_atP (s_pxl2Vtx st) (Point (px p - 1) (py p))) st else st);
          st = (if px p > 0 \<and> py p > 0
                then slimEdge vtx (Mat_atP (upleftW nw) p)
                       (Mat_atP (s_pxl2Vtx st) (Point (px p - 1) (py p - 1))) st else st);
          st = (if py p > 0
                then slimEdge vtx (Mat_atP (upW nw) p)
                       (Mat_atP (s_pxl2Vtx st) (Point (px p) (py p - 1))) st else st);
          st = (if px p < cols img - 1 \<and> py p > 0
                then slimEdge vtx (Mat_atP (uprightW nw) p)
                       (Mat_atP (s_pxl2Vtx st) (Point (px p + 1) (py p - 1))) st else st)
      in st)"

definition slimPixel :: "Vec3b Mat \<Rightarrow> uchar Mat \<Rightarrow> GMM \<Rightarrow> GMM \<Rightarrow> real \<Rightarrow> NWeights \<Rightarrow> real Mat
    \<Rightarrow> Point \<Rightarrow> SlimState \<Rightarrow> error + SlimState" where
  "slimPixel img msk bgdGMM fgdGMM lambda nw sigmaW p st =
     (case slimJoin img msk bgdGMM fgdGMM lambda nw sigmaW p st of
        Inl e \<Rightarrow> Inl e
      | Inr st \<Rightarrow> Inr (slimEdges img nw p st))"

definition slimInit :: "Vec3b Mat \<Rightarrow> int Mat \<Rightarrow> SlimState" where
  "slimInit img pxl2Vtx =
     (let vtxCount = cols img * rows img;
          edgeCount = 2 * (4 * cols img * rows img - 3 * (cols img + rows img) + 2)
      in \<lparr>s_graph = graph_create vtxCount edgeCount,
          s_pxl2Vtx = pxl2Vtx,
          s_Vtx2pxl = create (rows img) (cols img) CV_32SC1 (Point (-1) (-1)),
          s_sinkToPxl = [], s_sourceToPxl = [], s_s2tw = 0, s_count = 0\<rparr>)"

text \<open>
  The result is the whole scan state: the graph and the table \<open>pxl2Vtx\<close> are the outputs of
  the source; \<open>s2tw\<close> is the local that it prints.
\<close>

definition constructGCGraph_slim :: "Vec3b Mat \<Rightarrow> uchar Mat \<Rightarrow> GMM \<Rightarrow> GMM \<Rightarrow> real \<Rightarrow> NWeights
    \<Rightarrow> int Mat \<Rightarrow> error + SlimState" where
  "constructGCGraph_slim img msk bgdGMM fgdGMM lambda nw pxl2Vtx =
     (case initSigmaW img msk bgdGMM fgdGMM (create (rows img) (cols img) CV_64FC1 6) nw lambda of
        Inl e \<Rightarrow> Inl e
      | Inr sigmaW \<Rightarrow>
          forPixelsE (rows img) (cols img)
            (slimPixel img msk bgdGMM fgdGMM lambda nw sigmaW)
            (slimInit img pxl2Vtx))"

text \<open>
  The solver's answer \<^verbatim>\<open>graph.inSourceSegment(v)\<close> is a parameter of the two updates.
\<close>

definition estimateSegmentation_slim :: "(GCGraph \<Rightarrow> int \<Rightarrow> bool) \<Rightarrow> GCGraph \<Rightarrow> uchar Mat \<Rightarrow> int Mat \<Rightarrow> uchar Mat" where
  "estimateSegmentation_slim inSourceSegment graph msk ptx2Vtx =
     forPixels (rows msk) (cols msk)
       (\<lambda>p msk.
          if Mat_atP msk p = GC_PR_BGD \<or> Mat_atP msk p = GC_PR_FGD then
            (let v = Mat_atP ptx2Vtx p in
             if v = GC_JNT_BGD then setAtP msk p GC_PR_BGD
             else if v = GC_JNT_FGD then setAtP msk p GC_PR_FGD
             else if inSourceSegment graph v then setAtP msk p GC_PR_FGD
             else setAtP msk p GC_PR_BGD)
          else msk)
       msk"

subsection \<open>The one-node-per-pixel construction\<close>

definition constructGCGraph :: "Vec3b Mat \<Rightarrow> uchar Mat \<Rightarrow> GMM \<Rightarrow> GMM \<Rightarrow> real \<Rightarrow> NWeights \<Rightarrow> error + GCGraph" where
  "constructGCGraph img msk bgdGMM fgdGMM lambda nw =
     (let vtxCount = cols img * rows img;
          edgeCount = 2 * (4 * cols img * rows img - 3 * (cols img + rows img) + 2)
      in forPixelsE (rows img) (cols img)
           (\<lambda>p graph.
              case addVtx graph of (vtxIdx, graph) \<Rightarrow>
              (case tWeights img msk bgdGMM fgdGMM lambda p of
                 Inl e \<Rightarrow> Inl e
               | Inr (fromSource, toSink) \<Rightarrow>
                   (let graph = addTermWeights graph vtxIdx fromSource toSink;
                        graph = (if px p > 0
                                 then (let w = Mat_atP (leftW nw) p
                                       in addEdges graph vtxIdx (vtxIdx - 1) w w) else graph);
                        graph = (if px p > 0 \<and> py p > 0
                                 then (let w = Mat_atP (upleftW nw) p
                                       in addEdges graph vtxIdx (vtxIdx - cols img - 1) w w) else graph);
                        graph = (if py p > 0
                                 then (let w = Mat_atP (upW nw) p
                                       in addEdges graph vtxIdx (vtxIdx - cols img) w w) else graph);
                        graph = (if px p < cols img - 1 \<and> py p > 0
                                 then (let w = Mat_atP (uprightW nw) p
                                       in addEdges graph vtxIdx (vtxIdx - cols img + 1) w w) else graph)
                    in Inr graph)))
           (graph_create vtxCount edgeCount))"

definition estimateSegmentation :: "(GCGraph \<Rightarrow> int \<Rightarrow> bool) \<Rightarrow> GCGraph \<Rightarrow> uchar Mat \<Rightarrow> uchar Mat" where
  "estimateSegmentation inSourceSegment graph msk =
     forPixels (rows msk) (cols msk)
       (\<lambda>p msk.
          if Mat_atP msk p = GC_PR_BGD \<or> Mat_atP msk p = GC_PR_FGD then
            (if inSourceSegment graph (py p * cols msk + px p)
             then setAtP msk p GC_PR_FGD
             else setAtP msk p GC_PR_BGD)
          else msk)
       msk"

subsection \<open>The entry points\<close>

text \<open>What the loop of \<^verbatim>\<open>grabCut_slim\<close> carries from one iteration to the next.\<close>

record IterState =
  i_mask :: "uchar Mat"
  i_bgdGMM :: GMM
  i_fgdGMM :: GMM
  i_compIdxs :: "int Mat"
  i_pxl2Vtx :: "int Mat"

definition slimIteration :: "(GCGraph \<Rightarrow> int \<Rightarrow> bool) \<Rightarrow> Vec3b Mat \<Rightarrow> real \<Rightarrow> NWeights
    \<Rightarrow> IterState \<Rightarrow> error + IterState" where
  "slimIteration inSourceSegment img lambda nw st =
     (case assignGMMsComponents img (i_mask st) (i_bgdGMM st) (i_fgdGMM st) (i_compIdxs st) of
        Inl e \<Rightarrow> Inl e
      | Inr compIdxs \<Rightarrow>
     (case learnGMMs img (i_mask st) compIdxs (i_bgdGMM st) (i_fgdGMM st) of
        Inl e \<Rightarrow> Inl e
      | Inr (bgdGMM, fgdGMM) \<Rightarrow>
     (case constructGCGraph_slim img (i_mask st) bgdGMM fgdGMM lambda nw (i_pxl2Vtx st) of
        Inl e \<Rightarrow> Inl e
      | Inr ss \<Rightarrow>
     (case constructGCGraph img (i_mask st) bgdGMM fgdGMM lambda nw of
        Inl e \<Rightarrow> Inl e
      | Inr graph2 \<Rightarrow>
          Inr \<lparr>i_mask = estimateSegmentation_slim inSourceSegment (s_graph ss) (i_mask st) (s_pxl2Vtx ss),
               i_bgdGMM = bgdGMM, i_fgdGMM = fgdGMM,
               i_compIdxs = compIdxs, i_pxl2Vtx = s_pxl2Vtx ss\<rparr>))))"

text \<open>
  The observable result of a call that returns: the mask and the two model buffers, which
  the GMM objects share with the caller.  The two uninitialised work matrices start at 0.
\<close>

definition grabCut_slim :: "kmeans_fn \<Rightarrow> (GCGraph \<Rightarrow> int \<Rightarrow> bool) \<Rightarrow> Vec3b Mat \<Rightarrow> uchar Mat \<Rightarrow> Rect
    \<Rightarrow> real Mat \<Rightarrow> real Mat \<Rightarrow> int \<Rightarrow> int \<Rightarrow> error + uchar Mat \<times> real Mat \<times> real Mat" where
  "grabCut_slim kmeans inSourceSegment img msk rect bgdModel fgdModel iterCount mode =
     (if empty_Mat img then Inl (StsBadArg ''image is empty'')
      else if mtype img \<noteq> CV_8UC3 then Inl (StsBadArg ''image must have CV_8UC3 type'')
      else
      (case GMM_ctor bgdModel of Inl e \<Rightarrow> Inl e | Inr bgdGMM \<Rightarrow>
      (case GMM_ctor fgdModel of Inl e \<Rightarrow> Inl e | Inr fgdGMM \<Rightarrow>
      (let compIdxs = create (rows img) (cols img) CV_32SC1 0;
           pxl2Vtx = create (rows img) (cols img) CV_32SC1 0
       in
       case
         (if mode = GC_INIT_WITH_RECT \<or> mode = GC_INIT_WITH_MASK then
            (case (if mode = GC_INIT_WITH_RECT then initMaskWithRect (size_of img) rect
                   else (case checkMask img msk of Inl e \<Rightarrow> Inl e | Inr u \<Rightarrow> Inr msk)) of
               Inl e \<Rightarrow> Inl e
             | Inr msk \<Rightarrow>
                 (case initGMMs kmeans img msk bgdGMM fgdGMM of
                    Inl e \<Rightarrow> Inl e
                  | Inr (bgdGMM, fgdGMM) \<Rightarrow> Inr (msk, bgdGMM, fgdGMM)))
          else Inr (msk, bgdGMM, fgdGMM))
       of Inl e \<Rightarrow> Inl e
        | Inr (msk, bgdGMM, fgdGMM) \<Rightarrow>
            if iterCount \<le> 0 then Inr (msk, model bgdGMM, model fgdGMM)
            else
              (case (if mode = GC_EVAL then checkMask img msk else Inr ()) of
                 Inl e \<Rightarrow> Inl e
               | Inr u \<Rightarrow>
                   (let gamma = 50;
                        lambda = 9 * gamma;
                        beta = calcBeta img;
                        nw = calcNWeights img beta gamma
                    in case forLoopE 0 iterCount
                              (\<lambda>i. slimIteration inSourceSegment img lambda nw)
                              \<lparr>i_mask = msk, i_bgdGMM = bgdGMM, i_fgdGMM = fgdGMM,
                               i_compIdxs = compIdxs, i_pxl2Vtx = pxl2Vtx\<rparr> of
                         Inl e \<Rightarrow> Inl e
                       | Inr st \<Rightarrow> Inr (i_mask st, model (i_bgdGMM st), model (i_fgdGMM st))))))))"

section \<open>Auxiliary notions for the properties\<close>

text \<open>
  A mask \<open>m\<close> keeps the hard labels of \<open>m0\<close>: same size, every pixel that is not probable
  in \<open>m0\<close> is unchanged, every probable pixel is still probable.
\<close>

definition hardKept :: "uchar Mat \<Rightarrow> uchar Mat \<Rightarrow> bool" where
  "hardKept m0 m = (rows m = rows m0 \<and> cols m = cols m0 \<and>
     (\<forall>y x. (elems m0 y x \<noteq> GC_PR_BGD \<and> elems m0 y x \<noteq> GC_PR_FGD \<longrightarrow> elems m y x = elems m0 y x)
          \<and> (elems m0 y x = GC_PR_BGD \<or> elems m0 y x = GC_PR_FGD \<longrightarrow> elems m y x = GC_PR_BGD \<or> elems m y x = GC_PR_FGD)))"

text \<open>
  The 3-D Gaussian density \<open>N(c; \<mu>, \<Sigma>)\<close> of the specification, for a covariance given as
  nine numbers in row-major order: the inverse of \<open>\<Sigma>\<close> by the adjugate formula, the
  quadratic form \<open>d\<^sup>T \<Sigma>\<^sup>-\<^sup>1 d\<close>, and the density with its factor \<open>(2\<pi>)\<^sup>-\<^sup>3\<^sup>/\<^sup>2\<close>.
\<close>

definition inverse3 :: "(int \<Rightarrow> real) \<Rightarrow> int \<Rightarrow> int \<Rightarrow> real" where
  "inverse3 S =
     mat3 ((S 4 * S 8 - S 5 * S 7) / det9 S) ((S 2 * S 7 - S 1 * S 8) / det9 S) ((S 1 * S 5 - S 2 * S 4) / det9 S)
          ((S 5 * S 6 - S 3 * S 8) / det9 S) ((S 0 * S 8 - S 2 * S 6) / det9 S) ((S 2 * S 3 - S 0 * S 5) / det9 S)
          ((S 3 * S 7 - S 4 * S 6) / det9 S) ((S 1 * S 6 - S 0 * S 7) / det9 S) ((S 0 * S 4 - S 1 * S 3) / det9 S)"

definition quadForm :: "(int \<Rightarrow> int \<Rightarrow> real) \<Rightarrow> Vec3d \<Rightarrow> real" where
  "quadForm M d =
     (case d of (d0, d1, d2) \<Rightarrow>
        let v = (\<lambda>i::int. if i = 0 then d0 else if i = 1 then d1 else d2)
        in (\<Sum>i\<leftarrow>[0, 1, 2]. \<Sum>j\<leftarrow>[0, 1, 2]. v i * M i j * v j))"

definition gaussian3 :: "Vec3d \<Rightarrow> (int \<Rightarrow> real) \<Rightarrow> Vec3d \<Rightarrow> real" where
  "gaussian3 mu S c =
     exp (- quadForm (inverse3 S) (sub3 c mu) / 2) / sqrt ((2 * pi) ^ 3 * det9 S)"

definition mean3 :: "GMM \<Rightarrow> int \<Rightarrow> Vec3d" where
  "mean3 g k = (mean g (3 * k), mean g (3 * k + 1), mean g (3 * k + 2))"

definition cov9 :: "GMM \<Rightarrow> int \<Rightarrow> int \<Rightarrow> real" where
  "cov9 g k = (\<lambda>j. cov g (9 * k + j))"

text \<open>
  The derived state of a mixture is in step with its parameters: for every active
  component, the stored determinant is the determinant of the covariance, it passes the
  test against epsilon, and the stored inverse is the inverse of the covariance.
\<close>

definition derived_ok_at :: "GMM \<Rightarrow> int \<Rightarrow> bool" where
  "derived_ok_at g k =
     (coefs g k > 0 \<longrightarrow>
        covDeterms g k = det9 (cov9 g k) \<and> covDeterms g k > DBL_EPSILON
        \<and> inverseCovs g k = inverse3 (cov9 g k))"

text \<open>
  The traversal of a terminal chain as the specification words it: from the tail element
  down to the head at index 0, adding the pending weight of every visited pixel, and
  stopping after a pixel that satisfies the early-out test.
\<close>

fun chainSum_spec :: "(Point \<Rightarrow> real) \<Rightarrow> (Point \<Rightarrow> bool) \<Rightarrow> Point list \<Rightarrow> real" where
  "chainSum_spec pend stop [] = 0"
| "chainSum_spec pend stop (pxl # rest) =
     pend pxl + (if stop pxl then 0 else chainSum_spec pend stop rest)"

definition pendingSum_spec :: "Point \<Rightarrow> Vec3b Mat \<Rightarrow> NWeights \<Rightarrow> Point list \<Rightarrow> real" where
  "pendingSum_spec p img nw chain =
     chainSum_spec (\<lambda>pxl. pendingSumW p pxl img nw)
       (\<lambda>pxl. py pxl \<le> py p - 1 \<and> px pxl < px p - 1) (rev chain)"

subsection \<open>Example inputs\<close>

text \<open>
  A parameter buffer with one active component of weight \<open>c\<close>, mean \<open>(0, 0, 0)\<close> and the
  identity as covariance; a black image of one row; the mask BG, PR_FG, FG of three pixels;
  the weight tables that the entry point computes for the black image (\<open>gamma = 50\<close>).
\<close>

definition ex_model :: "real \<Rightarrow> real Mat" where
  "ex_model c = \<lparr>rows = 1, cols = 65, mtype = CV_64FC1,
     elems = (\<lambda>y x. if x = 0 then c else if x = 20 \<or> x = 24 \<or> x = 28 then 1 else 0)\<rparr>"

text \<open>
  A buffer with two active components at mean \<open>(0, 0, 0)\<close>: weight 9/10 with covariance
  \<open>diag(4, 1, 1)\<close>, and weight 1/10 with the identity.
\<close>

definition ex_model2 :: "real Mat" where
  "ex_model2 = \<lparr>rows = 1, cols = 65, mtype = CV_64FC1,
     elems = (\<lambda>y x. if x = 0 then 9 / 10 else if x = 1 then 1 / 10
                    else if x = 20 then 4
                    else if x = 24 \<or> x = 28 \<or> x = 29 \<or> x = 33 \<or> x = 37 then 1 else 0)\<rparr>"

definition ex_gmm2 :: "GMM" where
  "ex_gmm2 = (GMM_init ex_model2)
     \<lparr>inverseCovs := (\<lambda>ci. if ci = 0 then mat3 (1 / 4) 0 0 0 1 0 0 0 1
                           else if ci = 1 then mat3 1 0 0 0 1 0 0 0 1 else (\<lambda>_ _. 0)),
      covDeterms := (\<lambda>ci. if ci = 0 then 4 else if ci = 1 then 1 else 0)\<rparr>"

definition ex_gmm :: "real \<Rightarrow> GMM" where
  "ex_gmm c = (GMM_init (ex_model c))
     \<lparr>inverseCovs := (\<lambda>ci. if ci = 0 then mat3 1 0 0 0 1 0 0 0 1 else (\<lambda>_ _. 0)),
      covDeterms := (\<lambda>ci. if ci = 0 then 1 else 0)\<rparr>"

definition ex_img :: "int \<Rightarrow> int \<Rightarrow> Vec3b Mat" where
  "ex_img r c = create r c CV_8UC3 (0, 0, 0)"

definition ex_mask :: "uchar Mat" where
  "ex_mask = \<lparr>rows = 1, cols = 3, mtype = CV_8UC1,
     elems = (\<lambda>y x. if x = 0 then GC_BGD else if x = 1 then GC_PR_FGD else GC_FGD)\<rparr>"

definition ex_nw :: "int \<Rightarrow> NWeights" where
  "ex_nw c = calcNWeights (ex_img 1 c) (calcBeta (ex_img 1 c)) 50"

text \<open>
  The scan of the slim construction on the example: \<open>\<sigma>W\<close>, the table \<open>pxl2Vtx\<close> after the
  first pixel, the state after each of the three pixels; and the graph with one node per
  pixel.
\<close>

definition ex_sigmaW :: "real Mat" where
  "ex_sigmaW = setAt (setAt (setAt (create 1 3 CV_64FC1 (6::real)) 0 0 500) 0 1 103) 0 2 500"

definition ex_p2v1 :: "int Mat" where
  "ex_p2v1 = setAtP (create 1 3 CV_32SC1 (0::int)) (Point 0 0) GC_JNT_BGD"

definition ex_st1 :: "SlimState" where
  "ex_st1 = (slimInit (ex_img 1 3) (create 1 3 CV_32SC1 0))\<lparr>s_pxl2Vtx := ex_p2v1, s_sinkToPxl := [Point 0 0]\<rparr>"

definition ex_st2 :: "SlimState" where
  "ex_st2 = ex_st1\<lparr>s_count := 1, s_pxl2Vtx := setAtP ex_p2v1 (Point 1 0) GC_JNT_BGD,
   s_sinkToPxl := [Point 0 0, Point 1 0], s_s2tw := 2\<rparr>"

definition ex_st3 :: "SlimState" where
  "ex_st3 = ex_st2\<lparr>s_pxl2Vtx := setAtP (setAtP ex_p2v1 (Point 1 0) GC_JNT_BGD) (Point 2 0) GC_JNT_FGD,
   s_sourceToPxl := [Point 2 0], s_s2tw := 52\<rparr>"

definition ex_g3 :: "GCGraph" where
  "ex_g3 = addEdges (addTermWeights (snd (addVtx
                   (addEdges (addTermWeights (snd (addVtx
                      (addTermWeights (snd (addVtx (graph_create 3 4))) 0 0 450))) 1 2 1) 1 0 50 50)))
                   2 450 0) 2 1 50 50"

definition wc_inv :: "GMM \<Rightarrow> Vec3d \<Rightarrow> int \<Rightarrow> int \<times> real \<Rightarrow> bool" where
  "wc_inv g c j km = (case km of (k, mx) \<Rightarrow>
     0 \<le> k \<and> k < max j 1 \<and> 0 \<le> mx
     \<and> (\<forall>i. 0 \<le> i \<and> i < j \<longrightarrow> (\<exists>p. GMM_operator_ci g i c = Inr p \<and> p \<le> mx \<and> (i < k \<longrightarrow> p < mx)))
     \<and> (0 < mx \<longrightarrow> GMM_operator_ci g k c = Inr mx)
     \<and> (mx = 0 \<longrightarrow> k = 0))"

definition same_outside :: "int \<Rightarrow> GMM \<Rightarrow> GMM \<Rightarrow> bool" where
  "same_outside ci g g' =
     (covDeterms g' = covDeterms g \<and> inverseCovs g' = inverseCovs g
      \<and> (\<forall>x. x \<noteq> ci \<and> \<not> (5 + 3 * ci \<le> x \<and> x \<le> 5 + 3 * ci + 2)
                \<and> \<not> (20 + 9 * ci \<le> x \<and> x \<le> 20 + 9 * ci + 8)
            \<longrightarrow> elems (model g') 0 x = elems (model g) 0 x))"

definition scanned :: "int \<Rightarrow> int \<Rightarrow> int \<Rightarrow> Point \<Rightarrow> bool" where
  "scanned c y x q = (0 \<le> px q \<and> px q < c \<and> 0 \<le> py q \<and> (py q < y \<or> (py q = y \<and> px q < x)))"

definition chains_ok :: "int \<Rightarrow> int \<Rightarrow> int \<Rightarrow> SlimState \<Rightarrow> bool" where
  "chains_ok c y x st =
     ((\<forall>q. scanned c y x q \<and> Mat_atP (s_pxl2Vtx st) q = GC_JNT_BGD \<longrightarrow> q \<in> set (s_sinkToPxl st))
      \<and> (\<forall>q. scanned c y x q \<and> Mat_atP (s_pxl2Vtx st) q < 0 \<and> Mat_atP (s_pxl2Vtx st) q \<noteq> GC_JNT_BGD
              \<longrightarrow> q \<in> set (s_sourceToPxl st))
      \<and> (\<forall>q. \<not> scanned c y x q \<longrightarrow> Mat_atP (s_Vtx2pxl st) q = Point (- 1) (- 1))
      \<and> 0 \<le> vtcs (s_graph st))"

text \<open>
  The initialisation as the specification words it: the rectangle is clipped to the image
  bounds, that is intersected with the image rectangle, the pixels inside the clipped
  rectangle are PR_FG and all the others are BG.  An empty intersection gives the empty
  rectangle.
\<close>

definition clip_spec :: "Size \<Rightarrow> Rect \<Rightarrow> Rect" where
  "clip_spec imgSize rect =
     (let x1 = max 0 (rect_x rect);
          y1 = max 0 (rect_y rect);
          x2 = min (size_width imgSize) (rect_x rect + rect_width rect);
          y2 = min (size_height imgSize) (rect_y rect + rect_height rect)
      in if x2 \<le> x1 \<or> y2 \<le> y1 then Rect 0 0 0 0 else Rect x1 y1 (x2 - x1) (y2 - y1))"

definition initMaskWithRect_spec :: "Size \<Rightarrow> Rect \<Rightarrow> uchar Mat" where
  "initMaskWithRect_spec imgSize rect =
     (create (size_height imgSize) (size_width imgSize) CV_8UC1 GC_BGD)
       \<lparr>elems := (\<lambda>y x. if inRect (clip_spec imgSize rect) y x then GC_PR_FGD else GC_BGD)\<rparr>"





section \<open>Properties\<close>

subsection \<open>Loop rules\<close>


lemma forLoop_inv:
  assumes "P s" and "\<And>j t. i \<le> j \<Longrightarrow> j < n \<Longrightarrow> P t \<Longrightarrow> P (body j t)"
  shows "P (forLoop i n body s)"
  using assms
proof (induction i n body s rule: forLoop.induct)
  case (1 i n body s)
  show ?case
  proof (cases "i < n")
    case True
    have a: "P (body i s)" using "1.prems"(2)[of i s] True "1.prems"(1) by simp
    have b: "\<And>j t. i + 1 \<le> j \<Longrightarrow> j < n \<Longrightarrow> P t \<Longrightarrow> P (body j t)"
      using "1.prems"(2) by simp
    have "P (forLoop (i + 1) n body (body i s))"
      using "1.IH"[OF True a b] by simp
    then show ?thesis using True by (simp add: forLoop.simps[of i n])
  next
    case False
    then show ?thesis using "1.prems" by (simp add: forLoop.simps[of i n])
  qed
qed

lemma forLoopE_inv:
  assumes "forLoopE i n body s = Inr s'" and "P s"
    and "\<And>j t t'. i \<le> j \<Longrightarrow> j < n \<Longrightarrow> P t \<Longrightarrow> body j t = Inr t' \<Longrightarrow> P t'"
  shows "P s'"
  using assms
proof (induction i n body s rule: forLoopE.induct)
  case (1 i n body s)
  show ?case
  proof (cases "i < n")
    case True
    from "1.prems"(1) True obtain t where bt: "body i s = Inr t" and rest: "forLoopE (i + 1) n body t = Inr s'"
      by (auto simp: forLoopE.simps[of i n] split: sum.splits)
    have Pt: "P t" using "1.prems"(3)[of i s t] True "1.prems"(2) bt by simp
    have b: "\<And>j t t'. i + 1 \<le> j \<Longrightarrow> j < n \<Longrightarrow> P t \<Longrightarrow> body j t = Inr t' \<Longrightarrow> P t'"
    proof -
      fix j t t' assume a: "i + 1 \<le> j" "j < n" "P t" "body j t = Inr t'"
      from a(1) have "i \<le> j" by simp
      from "1.prems"(3)[OF this a(2,3,4)] show "P t'" .
    qed
    show ?thesis
      using "1.IH"[OF True bt rest Pt b] by simp
  next
    case False
    then show ?thesis using "1.prems" by (simp add: forLoopE.simps[of i n])
  qed
qed

lemma forLoopE_err:
  assumes "forLoopE i n body s = Inl e" and "P s"
    and "\<And>j t t'. i \<le> j \<Longrightarrow> j < n \<Longrightarrow> P t \<Longrightarrow> body j t = Inr t' \<Longrightarrow> P t'"
  shows "\<exists>j t. i \<le> j \<and> j < n \<and> P t \<and> body j t = Inl e"
  using assms
proof (induction i n body s rule: forLoopE.induct)
  case (1 i n body s)
  show ?case
  proof (cases "i < n")
    case True
    show ?thesis
    proof (cases "body i s")
      case (Inl e')
      then have "e' = e" using "1.prems"(1) True by (simp add: forLoopE.simps[of i n])
      then show ?thesis using Inl True "1.prems"(2) by auto
    next
      case (Inr t)
      then have rest: "forLoopE (i + 1) n body t = Inl e"
        using "1.prems"(1) True by (simp add: forLoopE.simps[of i n])
      have Pt: "P t" using "1.prems"(3)[of i s t] True "1.prems"(2) Inr by simp
      have b: "\<And>j t t'. i + 1 \<le> j \<Longrightarrow> j < n \<Longrightarrow> P t \<Longrightarrow> body j t = Inr t' \<Longrightarrow> P t'"
      proof -
        fix j t t' assume a: "i + 1 \<le> j" "j < n" "P t" "body j t = Inr t'"
        from a(1) have "i \<le> j" by simp
        from "1.prems"(3)[OF this a(2,3,4)] show "P t'" .
      qed
      have "\<exists>j t. i + 1 \<le> j \<and> j < n \<and> P t \<and> body j t = Inl e"
        using "1.IH"[OF True Inr rest Pt b] by simp
      then obtain j u where ju: "i + 1 \<le> j" "j < n" "P u" "body j u = Inl e" by blast
      from ju(1) have "i \<le> j" by simp
      with ju(2,3,4) show ?thesis by blast
    qed
  next
    case False
    then show ?thesis using "1.prems" by (simp add: forLoopE.simps[of i n])
  qed
qed

lemma forPixels_inv:
  assumes "P s" and "\<And>p t. 0 \<le> py p \<Longrightarrow> py p < r \<Longrightarrow> 0 \<le> px p \<Longrightarrow> px p < c \<Longrightarrow> P t \<Longrightarrow> P (body p t)"
  shows "P (forPixels r c body s)"
  unfolding forPixels_def
proof (rule forLoop_inv[where P = P, OF assms(1)])
  fix j t assume j: "0 \<le> j" "j < r" and Pt: "P t"
  show "P (forLoop 0 c (\<lambda>x. body (Point x j)) t)"
    by (rule forLoop_inv[where P = P, OF Pt]) (use assms(2) j in simp)
qed

lemma forPixelsE_inv:
  assumes "forPixelsE r c body s = Inr s'" and "P s"
    and "\<And>p t t'. 0 \<le> py p \<Longrightarrow> py p < r \<Longrightarrow> 0 \<le> px p \<Longrightarrow> px p < c \<Longrightarrow> P t \<Longrightarrow> body p t = Inr t' \<Longrightarrow> P t'"
  shows "P s'"
proof (rule forLoopE_inv[where P = P, OF assms(1)[unfolded forPixelsE_def] assms(2)])
  fix j t t'
  assume j: "0 \<le> j" "j < r" and Pt: "P t" and row: "forLoopE 0 c (\<lambda>x. body (Point x j)) t = Inr t'"
  show "P t'"
  proof (rule forLoopE_inv[where P = P, OF row Pt])
    fix x u u' assume "0 \<le> x" "x < c" "P u" "body (Point x j) u = Inr u'"
    then show "P u'" using assms(3)[of "Point x j" u u'] j by simp
  qed
qed

lemma hardKept_refl: "hardKept m m"
  by (simp add: hardKept_def)

lemma hardKept_set:
  "hardKept m0 m \<Longrightarrow> Mat_atP m p = GC_PR_BGD \<or> Mat_atP m p = GC_PR_FGD \<Longrightarrow>
   v = GC_PR_BGD \<or> v = GC_PR_FGD \<Longrightarrow> hardKept m0 (setAtP m p v)"
  unfolding hardKept_def Mat_atP_def setAtP_def setAt_def
  by (auto simp: GC_PR_BGD_def GC_PR_FGD_def)

lemma estimateSegmentation_slim_hardKept:
  "hardKept msk (estimateSegmentation_slim iss graph msk p2v)"
  unfolding estimateSegmentation_slim_def
  by (rule forPixels_inv[where P = "hardKept msk"]) (auto simp: hardKept_refl Let_def intro!: hardKept_set)

lemma estimateSegmentation_hardKept:
  "hardKept msk (estimateSegmentation iss graph msk)"
  unfolding estimateSegmentation_def
  by (rule forPixels_inv[where P = "hardKept msk"]) (auto simp: hardKept_refl Let_def intro!: hardKept_set)

text \<open>
  Claim C2.  One iteration writes the mask only in \<^verbatim>\<open>estimateSegmentation_slim\<close> (in
  \<^verbatim>\<open>estimateSegmentation\<close> for the plain entry point).  For every pixel \<open>p\<close>: if the
  mask holds BG or FG at \<open>p\<close> before the update, it holds the same value after it; and a
  pixel whose value the update changes was labelled PR_BG or PR_FG.
\<close>

theorem hard_labels_unchanged:
  "(Mat_atP msk p = GC_BGD \<or> Mat_atP msk p = GC_FGD \<longrightarrow>
      Mat_atP (estimateSegmentation_slim iss graph msk p2v) p = Mat_atP msk p
    \<and> Mat_atP (estimateSegmentation iss graph msk) p = Mat_atP msk p)
   \<and> (Mat_atP (estimateSegmentation_slim iss graph msk p2v) p \<noteq> Mat_atP msk p \<longrightarrow>
        (Mat_atP msk p = GC_PR_BGD \<or> Mat_atP msk p = GC_PR_FGD))
   \<and> (Mat_atP (estimateSegmentation iss graph msk) p \<noteq> Mat_atP msk p \<longrightarrow>
        (Mat_atP msk p = GC_PR_BGD \<or> Mat_atP msk p = GC_PR_FGD))"
  using estimateSegmentation_slim_hardKept[of msk iss graph p2v]
        estimateSegmentation_hardKept[of msk iss graph]
  unfolding hardKept_def Mat_atP_def
  by (auto simp: GC_BGD_def GC_FGD_def GC_PR_BGD_def GC_PR_FGD_def)

theorem hard_labels_unchanged_witness:
  "(Mat_atP (setAt (create 1 2 CV_8UC1 GC_BGD) 0 1 GC_PR_FGD) (Point 0 0) = GC_BGD
     \<or> Mat_atP (setAt (create 1 2 CV_8UC1 GC_BGD) 0 1 GC_PR_FGD) (Point 0 0) = GC_FGD)
   \<and> Mat_atP (estimateSegmentation_slim (\<lambda>g v. False) (graph_create 2 2)
               (setAt (create 1 2 CV_8UC1 GC_BGD) 0 1 GC_PR_FGD) (create 1 2 CV_32SC1 0)) (Point 0 0)
       = GC_BGD
   \<and> Mat_atP (estimateSegmentation (\<lambda>g v. False) (graph_create 2 2)
               (setAt (create 1 2 CV_8UC1 GC_BGD) 0 1 GC_PR_FGD)) (Point 0 0)
       = GC_BGD"
  using hard_labels_unchanged[of "setAt (create 1 2 CV_8UC1 GC_BGD) 0 1 GC_PR_FGD" "Point 0 0"
      "\<lambda>g v. False" "graph_create 2 2" "create 1 2 CV_32SC1 0"]
  by (simp add: Mat_atP_def setAt_def create_def)

subsection \<open>Evaluation rules and the example inputs\<close>

lemma forLoop_unroll:
  "i < n \<Longrightarrow> forLoop i n body s = forLoop (i + 1) n body (body i s)"
  "\<not> i < n \<Longrightarrow> forLoop i n body s = s"
  by (simp_all add: forLoop.simps[of i n])

lemma forLoopE_unroll:
  "i < n \<Longrightarrow> forLoopE i n body s =
     (case body i s of Inl e \<Rightarrow> Inl e | Inr s' \<Rightarrow> forLoopE (i + 1) n body s')"
  "\<not> i < n \<Longrightarrow> forLoopE i n body s = Inr s"
  by (simp_all add: forLoopE.simps[of i n])


lemma GMM_ctor_ex: "0 < c \<Longrightarrow> GMM_ctor (ex_model c) = Inr (ex_gmm c)"
  apply (simp add: GMM_ctor_def empty_Mat_def ex_model_def componentsCount_def)
  apply (simp add: forLoopE_unroll coefs_def GMM_init_def calcInverseCovAndDeterm_def cov_def
      componentsCount_def det9_def DBL_EPSILON_def ex_gmm_def Let_def)
  apply (auto simp: ex_model_def fun_eq_iff)
  done

lemma GMM_operator_ex: "0 < c \<Longrightarrow> GMM_operator (ex_gmm c) (0, 0, 0) = Inr c"
  by (simp add: GMM_operator_def forLoopE_unroll componentsCount_def GMM_operator_ci_def coefs_def
      ex_gmm_def GMM_init_def ex_model_def DBL_EPSILON_def mean_def mat3_def)

lemma toVec3d_black: "toVec3d (0, 0, 0) = (0, 0, 0)"
  by (simp add: toVec3d_def)

lemma negLogP_ex: "negLogP (ex_gmm (exp (- a))) (0, 0, 0) = Inr a"
  by (simp add: negLogP_def GMM_operator_ex)

lemma upto_0_0: "[0..(0::int)] = [0]" by (simp add: upto.simps)

lemma getSinkW_ex:
  "Mat_atP msk p = GC_PR_FGD \<Longrightarrow>
   getSinkW p (ex_img r c) msk b (ex_gmm (exp (- a))) l = Inr a"
  by (simp add: getSinkW_def Mat_at_def Mat_atP_def ex_img_def create_def toVec3d_black negLogP_ex
      GC_PR_FGD_def GC_BGD_def)

lemma getSourceW_ex:
  "Mat_atP msk p = GC_PR_FGD \<Longrightarrow>
   getSourceW p (ex_img r c) msk (ex_gmm (exp (- a))) f l = Inr a"
  by (simp add: getSourceW_def Mat_at_def Mat_atP_def ex_img_def create_def toVec3d_black negLogP_ex
      GC_PR_FGD_def GC_FGD_def)

lemma searchJoin_loop_join:
  "n i \<noteq> - 10 \<Longrightarrow>
   (s i > 0.5 * sig
      \<or> (n i \<ge> 0 \<and> (\<exists>t. slim (n i) = Inr t \<and> s i > 0.5 * t))
      \<or> (n i = GC_JNT_BGD \<and> (\<exists>t. sinkPend = Inr t \<and> ws > 0.5 * t))
      \<or> (n i < 0 \<and> n i \<noteq> GC_JNT_BGD \<and> (\<exists>t. sourcePend = Inr t \<and> wt > 0.5 * t))) \<Longrightarrow>
   searchJoin_loop n s sig ws wt slim sinkPend sourcePend (i # rest) = Inr (n i)"
  by (auto simp: searchJoin_loop.simps Let_def GC_JNT_BGD_def)

lemma searchJoin_loop_skip:
  "n i = - 10 \<or>
   (s i \<le> 0.5 * sig
      \<and> (n i \<ge> 0 \<longrightarrow> (\<exists>t. slim (n i) = Inr t \<and> s i \<le> 0.5 * t))
      \<and> (n i = GC_JNT_BGD \<longrightarrow> (\<exists>t. sinkPend = Inr t \<and> ws \<le> 0.5 * t))
      \<and> (n i < 0 \<and> n i \<noteq> GC_JNT_BGD \<longrightarrow> (\<exists>t. sourcePend = Inr t \<and> wt \<le> 0.5 * t))) \<Longrightarrow>
   searchJoin_loop n s sig ws wt slim sinkPend sourcePend (i # rest)
     = searchJoin_loop n s sig ws wt slim sinkPend sourcePend rest"
  by (auto simp: searchJoin_loop.simps Let_def GC_JNT_BGD_def)

lemma searchJoin_loop_cases:
  "searchJoin_loop n s sig ws wt slim sinkPend sourcePend (i # rest) = Inr r \<Longrightarrow>
   (r = n i \<and> n i \<noteq> - 10 \<and>
     (s i > 0.5 * sig
      \<or> (n i \<ge> 0 \<and> (\<exists>t. slim (n i) = Inr t \<and> s i > 0.5 * t))
      \<or> (n i = GC_JNT_BGD \<and> (\<exists>t. sinkPend = Inr t \<and> ws > 0.5 * t))
      \<or> (n i < 0 \<and> n i \<noteq> GC_JNT_BGD \<and> (\<exists>t. sourcePend = Inr t \<and> wt > 0.5 * t))))
   \<or> (searchJoin_loop n s sig ws wt slim sinkPend sourcePend rest = Inr r \<and>
       (n i = - 10 \<or>
        (s i \<le> 0.5 * sig
         \<and> (n i \<ge> 0 \<longrightarrow> (\<exists>t. slim (n i) = Inr t \<and> s i \<le> 0.5 * t))
         \<and> (n i = GC_JNT_BGD \<longrightarrow> (\<exists>t. sinkPend = Inr t \<and> ws \<le> 0.5 * t))
         \<and> (n i < 0 \<and> n i \<noteq> GC_JNT_BGD \<longrightarrow> (\<exists>t. sourcePend = Inr t \<and> wt \<le> 0.5 * t)))))"
  by (auto simp: searchJoin_loop.simps Let_def GC_JNT_BGD_def split: if_splits sum.splits)

lemma pend_case:
  "(\<exists>t. (case x of Inl e \<Rightarrow> Inl e | Inr t \<Rightarrow> Inr (c + t)) = (Inr t :: error + real) \<and> P t)
     \<longleftrightarrow> (\<exists>t. x = Inr t \<and> P (c + t))"
  by (cases x) auto


text \<open>
  Claim C3 (amended).  Every dominance comparison of \<^verbatim>\<open>searchJoin\<close> is strict.  With
  \<open>ws\<close> the sink weight and \<open>wt\<close> the source weight of the pixel: when \<open>ws > \<sigma>W(p) / 2\<close>
  the result is the background sentinel; otherwise, when \<open>wt > \<sigma>W(p) / 2\<close>, it is the
  foreground sentinel.  When neither holds (in particular when a weight is equal to half of
  \<open>\<sigma>W(p)\<close>), the terminal rule does not fire and the four predecessor neighbours are searched
  in order: a neighbour \<open>i\<close> joins when it is present and one of the comparisons made at it
  holds strictly (\<open>s[i] > \<sigma>W(p) / 2\<close>; \<open>s[i]\<close> greater than half of \<^verbatim>\<open>slimSumW\<close> for a vertex;
  \<open>ws\<close>, respectively \<open>wt\<close>, greater than half of the accumulated plus pending weight of the
  terminal for a neighbour joined to a terminal); it is passed over when it is absent or
  all the comparisons made at it fail.  The result is the id of the first neighbour that
  joins, exactly when the neighbours before it are passed over, and it is
  \<^verbatim>\<open>BV_NO_VTX_FOUND\<close> exactly when all four are passed over.
\<close>

theorem searchJoin_strict:
  assumes gs: "getSinkW p img msk bgdGMM fgdGMM lambda = Inr ws"
    and gt: "getSourceW p img msk bgdGMM fgdGMM lambda = Inr wt"
  shows
   "let sig = Mat_atP sigmaW p;
        n = nghbrVtx_of p img pxl2Vtx;
        s = nghbrS_of n (nghbrW_of p img nw) ws wt;
        r = searchJoin p img sigmaW pxl2Vtx nw graph Vtx2pxl msk bgdGMM fgdGMM lambda
              sinkToPxl sourceToPxl;
        joins = (\<lambda>i. n i \<noteq> - 10 \<and>
           (s i > 0.5 * sig
            \<or> (n i \<ge> 0 \<and> (\<exists>t. slimSumW img (n i) p graph nw Vtx2pxl = Inr t \<and> s i > 0.5 * t))
            \<or> (n i = GC_JNT_BGD \<and> (\<exists>t. getSinkPendingSumW p img nw sinkToPxl = Inr t
                  \<and> ws > 0.5 * (sink_sigmaW graph + t)))
            \<or> (n i < 0 \<and> n i \<noteq> GC_JNT_BGD \<and> (\<exists>t. getSourcePendingSumW p img nw sourceToPxl = Inr t
                  \<and> wt > 0.5 * (source_sigmaW graph + t)))));
        skips = (\<lambda>i. n i = - 10 \<or>
           (s i \<le> 0.5 * sig
            \<and> (n i \<ge> 0 \<longrightarrow> (\<exists>t. slimSumW img (n i) p graph nw Vtx2pxl = Inr t \<and> s i \<le> 0.5 * t))
            \<and> (n i = GC_JNT_BGD \<longrightarrow> (\<exists>t. getSinkPendingSumW p img nw sinkToPxl = Inr t
                  \<and> ws \<le> 0.5 * (sink_sigmaW graph + t)))
            \<and> (n i < 0 \<and> n i \<noteq> GC_JNT_BGD \<longrightarrow> (\<exists>t. getSourcePendingSumW p img nw sourceToPxl = Inr t
                  \<and> wt \<le> 0.5 * (source_sigmaW graph + t)))))
    in (ws > 0.5 * sig \<longrightarrow> r = Inr GC_JNT_BGD)
     \<and> (ws \<le> 0.5 * sig \<and> wt > 0.5 * sig \<longrightarrow> r = Inr GC_JNT_FGD)
     \<and> (ws \<le> 0.5 * sig \<and> wt \<le> 0.5 * sig \<longrightarrow>
          (\<forall>cn. (r = Inr cn \<and> cn \<noteq> BV_NO_VTX_FOUND)
                 = (\<exists>i\<in>{0, 1, 2, 3}. cn = n i \<and> joins i \<and> (\<forall>j\<in>{0, 1, 2, 3}. j < i \<longrightarrow> skips j)))
          \<and> ((r = Inr BV_NO_VTX_FOUND) = (\<forall>i\<in>{0, 1, 2, 3}. skips i)))"
proof -
  define sig where "sig = Mat_atP sigmaW p"
  define n where "n = nghbrVtx_of p img pxl2Vtx"
  define s where "s = nghbrS_of n (nghbrW_of p img nw) ws wt"
  define r where "r = searchJoin p img sigmaW pxl2Vtx nw graph Vtx2pxl msk bgdGMM fgdGMM lambda
              sinkToPxl sourceToPxl"
  define joins where "joins = (\<lambda>i. n i \<noteq> - 10 \<and>
           (s i > 0.5 * sig
            \<or> (n i \<ge> 0 \<and> (\<exists>t. slimSumW img (n i) p graph nw Vtx2pxl = Inr t \<and> s i > 0.5 * t))
            \<or> (n i = GC_JNT_BGD \<and> (\<exists>t. getSinkPendingSumW p img nw sinkToPxl = Inr t
                  \<and> ws > 0.5 * (sink_sigmaW graph + t)))
            \<or> (n i < 0 \<and> n i \<noteq> GC_JNT_BGD \<and> (\<exists>t. getSourcePendingSumW p img nw sourceToPxl = Inr t
                  \<and> wt > 0.5 * (source_sigmaW graph + t)))))"
  define skips where "skips = (\<lambda>i. n i = - 10 \<or>
           (s i \<le> 0.5 * sig
            \<and> (n i \<ge> 0 \<longrightarrow> (\<exists>t. slimSumW img (n i) p graph nw Vtx2pxl = Inr t \<and> s i \<le> 0.5 * t))
            \<and> (n i = GC_JNT_BGD \<longrightarrow> (\<exists>t. getSinkPendingSumW p img nw sinkToPxl = Inr t
                  \<and> ws \<le> 0.5 * (sink_sigmaW graph + t)))
            \<and> (n i < 0 \<and> n i \<noteq> GC_JNT_BGD \<longrightarrow> (\<exists>t. getSourcePendingSumW p img nw sourceToPxl = Inr t
                  \<and> wt \<le> 0.5 * (source_sigmaW graph + t)))))"
  define loop where "loop = searchJoin_loop n s sig ws wt
       (\<lambda>cn. slimSumW img cn p graph nw Vtx2pxl)
       (case getSinkPendingSumW p img nw sinkToPxl of
          Inl e \<Rightarrow> Inl e | Inr t \<Rightarrow> Inr (sink_sigmaW graph + t))
       (case getSourcePendingSumW p img nw sourceToPxl of
          Inl e \<Rightarrow> Inl e | Inr t \<Rightarrow> Inr (source_sigmaW graph + t))"
  have r1: "ws > 0.5 * sig \<Longrightarrow> r = Inr GC_JNT_BGD"
    using gs gt by (simp add: r_def sig_def searchJoin_def Let_def)
  have r2: "ws \<le> 0.5 * sig \<and> wt > 0.5 * sig \<Longrightarrow> r = Inr GC_JNT_FGD"
    using gs gt by (simp add: r_def sig_def searchJoin_def Let_def)
  have r3: "ws \<le> 0.5 * sig \<and> wt \<le> 0.5 * sig \<Longrightarrow> r = loop [0, 1, 2, 3]"
    using gs gt by (simp add: r_def sig_def n_def s_def loop_def searchJoin_def Let_def)
  have J: "loop (i # rest) = Inr (n i)" if "joins i" for i rest
    unfolding loop_def
    by (rule searchJoin_loop_join) (use that in \<open>auto simp: joins_def pend_case\<close>)
  have K: "loop (i # rest) = loop rest" if "skips i" for i rest
    unfolding loop_def
    by (rule searchJoin_loop_skip) (use that in \<open>auto simp: skips_def pend_case\<close>)
  have C: "(c = n i \<and> joins i) \<or> (loop rest = Inr c \<and> skips i)" if "loop (i # rest) = Inr c" for i rest c
    using searchJoin_loop_cases[OF that[unfolded loop_def]]
    unfolding loop_def joins_def skips_def pend_case by blast
  have N: "loop [] = Inr BV_NO_VTX_FOUND"
    by (simp add: loop_def searchJoin_loop.simps)
  have Jne: "n i \<noteq> BV_NO_VTX_FOUND" if "joins i" for i
    using that by (simp add: joins_def BV_NO_VTX_FOUND_def)
  have fwd: "(c = n 0 \<and> joins 0) \<or> (skips 0 \<and> c = n 1 \<and> joins 1)
      \<or> (skips 0 \<and> skips 1 \<and> c = n 2 \<and> joins 2)
      \<or> (skips 0 \<and> skips 1 \<and> skips 2 \<and> c = n 3 \<and> joins 3)
      \<or> (skips 0 \<and> skips 1 \<and> skips 2 \<and> skips 3 \<and> c = BV_NO_VTX_FOUND)"
    if "loop [0, 1, 2, 3] = Inr c" for c
  proof -
    from C[OF that] consider "c = n 0 \<and> joins 0" | "loop [1, 2, 3] = Inr c" "skips 0" by blast
    then show ?thesis
    proof cases
      case 1 then show ?thesis by blast
    next
      case 2
      from C[OF 2(1)] consider "c = n 1 \<and> joins 1" | "loop [2, 3] = Inr c" "skips 1" by blast
      then show ?thesis
      proof cases
        case 1 with 2 show ?thesis by blast
      next
        case a: 2
        from C[OF a(1)] consider "c = n 2 \<and> joins 2" | "loop [3] = Inr c" "skips 2" by blast
        then show ?thesis
        proof cases
          case 1 with 2 a show ?thesis by blast
        next
          case b: 2
          from C[OF b(1)] consider "c = n 3 \<and> joins 3" | "loop [] = Inr c" "skips 3" by blast
          then show ?thesis
          proof cases
            case 1 with 2 a b show ?thesis by blast
          next
            case c: 2
            with N have "c = BV_NO_VTX_FOUND" by simp
            with 2 a b c show ?thesis by blast
          qed
        qed
      qed
    qed
  qed
  have bwd0: "joins 0 \<Longrightarrow> loop [0, 1, 2, 3] = Inr (n 0)"
    by (simp add: J)
  have bwd1: "skips 0 \<Longrightarrow> joins 1 \<Longrightarrow> loop [0, 1, 2, 3] = Inr (n 1)"
    by (simp add: J K)
  have bwd2: "skips 0 \<Longrightarrow> skips 1 \<Longrightarrow> joins 2 \<Longrightarrow> loop [0, 1, 2, 3] = Inr (n 2)"
    by (simp add: J K)
  have bwd3: "skips 0 \<Longrightarrow> skips 1 \<Longrightarrow> skips 2 \<Longrightarrow> joins 3 \<Longrightarrow> loop [0, 1, 2, 3] = Inr (n 3)"
    by (simp add: J K)
  have bwdN: "skips 0 \<Longrightarrow> skips 1 \<Longrightarrow> skips 2 \<Longrightarrow> skips 3 \<Longrightarrow> loop [0, 1, 2, 3] = Inr BV_NO_VTX_FOUND"
    by (simp add: K N)
  have excl: "\<not> (joins i \<and> skips i)" for i
    by (auto simp: joins_def skips_def)
  have m1: "(loop [0, 1, 2, 3] = Inr cn \<and> cn \<noteq> BV_NO_VTX_FOUND)
        = (\<exists>i\<in>{0, 1, 2, 3}. cn = n i \<and> joins i \<and> (\<forall>j\<in>{0, 1, 2, 3}. j < i \<longrightarrow> skips j))" for cn
  proof
    assume a: "loop [0, 1, 2, 3] = Inr cn \<and> cn \<noteq> BV_NO_VTX_FOUND"
    from fwd[of cn] a show "\<exists>i\<in>{0, 1, 2, 3}. cn = n i \<and> joins i \<and> (\<forall>j\<in>{0, 1, 2, 3}. j < i \<longrightarrow> skips j)"
      by auto
  next
    assume "\<exists>i\<in>{0, 1, 2, 3}. cn = n i \<and> joins i \<and> (\<forall>j\<in>{0, 1, 2, 3}. j < i \<longrightarrow> skips j)"
    then show "loop [0, 1, 2, 3] = Inr cn \<and> cn \<noteq> BV_NO_VTX_FOUND"
      using bwd0 bwd1 bwd2 bwd3 Jne by auto
  qed
  have m2: "(loop [0, 1, 2, 3] = Inr BV_NO_VTX_FOUND) = (\<forall>i\<in>{0, 1, 2, 3}. skips i)"
  proof
    assume a: "loop [0, 1, 2, 3] = Inr BV_NO_VTX_FOUND"
    from fwd[OF a] Jne[of 0] Jne[of 1] Jne[of 2] Jne[of 3]
    have "skips 0 \<and> skips 1 \<and> skips 2 \<and> skips 3" by metis
    then show "\<forall>i\<in>{0, 1, 2, 3}. skips i" by simp
  next
    assume "\<forall>i\<in>{0, 1, 2, 3}. skips i"
    then show "loop [0, 1, 2, 3] = Inr BV_NO_VTX_FOUND" using bwdN by simp
  qed
  have main: "(ws > 0.5 * sig \<longrightarrow> r = Inr GC_JNT_BGD)
     \<and> (ws \<le> 0.5 * sig \<and> wt > 0.5 * sig \<longrightarrow> r = Inr GC_JNT_FGD)
     \<and> (ws \<le> 0.5 * sig \<and> wt \<le> 0.5 * sig \<longrightarrow>
          (\<forall>cn. (r = Inr cn \<and> cn \<noteq> BV_NO_VTX_FOUND)
                 = (\<exists>i\<in>{0, 1, 2, 3}. cn = n i \<and> joins i \<and> (\<forall>j\<in>{0, 1, 2, 3}. j < i \<longrightarrow> skips j)))
          \<and> ((r = Inr BV_NO_VTX_FOUND) = (\<forall>i\<in>{0, 1, 2, 3}. skips i)))"
    using r1 r2 r3 m1 m2 by simp
  show ?thesis
    unfolding Let_def
    by (rule main[unfolded joins_def skips_def s_def n_def sig_def r_def])
qed



lemma calcBeta_black: "calcBeta (ex_img 1 c) = 0"
proof -
  have "forPixels 1 c (\<lambda>p beta.
               let x = px p; y = py p;
                   beta = (if x > 0 then beta + sqrDiff (ex_img 1 c) y x y (x - 1) else beta);
                   beta = (if y > 0 \<and> x > 0 then beta + sqrDiff (ex_img 1 c) y x (y - 1) (x - 1) else beta);
                   beta = (if y > 0 then beta + sqrDiff (ex_img 1 c) y x (y - 1) x else beta);
                   beta = (if y > 0 \<and> x < cols (ex_img 1 c) - 1 then beta + sqrDiff (ex_img 1 c) y x (y - 1) (x + 1) else beta)
               in beta) (0::real) = 0"
    by (rule forPixels_inv[where P = "\<lambda>b. b = 0"])
       (auto simp: sqrDiff_def ex_img_def create_def Mat_at_def toVec3d_def sub3_def dot3_def Let_def)
  then show ?thesis
    unfolding calcBeta_def by (simp add: DBL_EPSILON_def ex_img_def create_def)
qed

lemma create_sel:
  "rows (create r c t v) = r" "cols (create r c t v) = c" "mtype (create r c t v) = t"
  "elems (create r c t v) = (\<lambda>_ _. v)"
  by (simp_all add: create_def)

lemma rows_ex: "rows (ex_img r c) = r" and cols_ex: "cols (ex_img r c) = c"
  by (simp_all add: ex_img_def create_def)

lemma ex_nw_3: "ex_nw 3 =
  \<lparr>leftW = \<lparr>rows = 1, cols = 3, mtype = CV_64FC1,
             elems = (\<lambda>y x. if y = 0 \<and> (x = 1 \<or> x = 2) then 50 else 0)\<rparr>,
   upleftW = create 1 3 CV_64FC1 0, upW = create 1 3 CV_64FC1 0, uprightW = create 1 3 CV_64FC1 0\<rparr>"
  unfolding ex_nw_def calcBeta_black
  by (simp add: calcNWeights_def forPixels_def forLoop_unroll ex_img_def create_def sqrDiff_def
      Mat_at_def Mat_atP_def setAt_def toVec3d_def sub3_def dot3_def Let_def fun_eq_iff)

lemma ex_nw_2: "ex_nw 2 =
  \<lparr>leftW = \<lparr>rows = 1, cols = 2, mtype = CV_64FC1,
             elems = (\<lambda>y x. if y = 0 \<and> x = 1 then 50 else 0)\<rparr>,
   upleftW = create 1 2 CV_64FC1 0, upW = create 1 2 CV_64FC1 0, uprightW = create 1 2 CV_64FC1 0\<rparr>"
  unfolding ex_nw_def calcBeta_black
  by (simp add: calcNWeights_def forPixels_def forLoop_unroll ex_img_def create_def sqrDiff_def
      Mat_at_def Mat_atP_def setAt_def toVec3d_def sub3_def dot3_def Let_def fun_eq_iff)

lemma ex_nw_1: "ex_nw 1 =
  \<lparr>leftW = create 1 1 CV_64FC1 0,
   upleftW = create 1 1 CV_64FC1 0, upW = create 1 1 CV_64FC1 0, uprightW = create 1 1 CV_64FC1 0\<rparr>"
  unfolding ex_nw_def calcBeta_black
  by (simp add: calcNWeights_def forPixels_def forLoop_unroll ex_img_def create_def sqrDiff_def
      Mat_at_def Mat_atP_def setAt_def toVec3d_def sub3_def dot3_def Let_def fun_eq_iff)

text \<open>
  Claim C4.  The two pending sums start at index \<open>size - 2\<close>: the tail element of the chain
  is never visited.  At the pixel \<open>(x = 1, y = 0)\<close> of a black image of one row and two
  columns, with the chain holding the pixel \<open>(0, 0)\<close> only, the source sums 0, whereas
  the traversal from the tail down to index 0 sums the weight 50 of the edge between the
  two pixels.
\<close>

theorem pending_sum_skips_tail:
  "getSinkPendingSumW (Point 1 0) (ex_img 1 2) (ex_nw 2) [Point 0 0] = Inr 0
   \<and> getSourcePendingSumW (Point 1 0) (ex_img 1 2) (ex_nw 2) [Point 0 0] = Inr 0
   \<and> pendingSum_spec (Point 1 0) (ex_img 1 2) (ex_nw 2) [Point 0 0] = 50"
  by (simp add: getSinkPendingSumW_def getSourcePendingSumW_def chainLoop.simps ex_nw_2
      pendingSum_spec_def pendingSumW_def ex_img_def create_def Mat_at_def Mat_atP_def)

lemma tWeights_ex_PR:
  "Mat_atP msk p = GC_PR_FGD \<Longrightarrow>
   tWeights (ex_img r c) msk (ex_gmm (exp (- a))) (ex_gmm (exp (- b))) l p = Inr (a, b)"
  by (simp add: tWeights_def Mat_atP_def ex_img_def create_def toVec3d_black negLogP_ex)

lemma initSigmaW_ex1:
  "initSigmaW (ex_img 1 1) (create 1 1 CV_8UC1 GC_PR_FGD) (ex_gmm (exp (- a))) (ex_gmm (exp (- b)))
      (create 1 1 CV_64FC1 6) (ex_nw 1) 450
   = Inr (setAt (create 1 1 CV_64FC1 6) 0 0 (a + b))"
proof -
  have t: "tWeights (ex_img 1 1) (create 1 1 CV_8UC1 GC_PR_FGD) (ex_gmm (exp (- a))) (ex_gmm (exp (- b)))
      450 (Point 0 0) = Inr (a, b)"
    by (rule tWeights_ex_PR) (simp add: Mat_atP_def create_sel)
  show ?thesis
    by (simp add: initSigmaW_def forPixelsE_def forLoopE_unroll rows_ex cols_ex t ex_nw_1 Let_def
        Mat_at_def create_sel)
qed

lemma searchJoin_no_neighbours:
  "getSinkW (Point 0 0) img msk b f l = Inr ws \<Longrightarrow> getSourceW (Point 0 0) img msk b f l = Inr wt \<Longrightarrow>
   \<not> ws > 0.5 * Mat_atP sig (Point 0 0) \<Longrightarrow> \<not> wt > 0.5 * Mat_atP sig (Point 0 0) \<Longrightarrow>
   searchJoin (Point 0 0) img sig p2v nw g v2p msk b f l sk sc = Inr BV_NO_VTX_FOUND"
  by (simp add: searchJoin_def Let_def nghbrVtx_of_def searchJoin_loop.simps)

text \<open>
  The claim as stated fails: on a black image of one pixel labelled PR_FG, with both mixtures
  evaluating to \<open>exp (-1)\<close>, the sink weight is 1, \<open>\<sigma>W\<close> is 2, so the sink weight equals
  half of \<open>\<sigma>W\<close>, and \<^verbatim>\<open>searchJoin\<close> reports \<^verbatim>\<open>BV_NO_VTX_FOUND\<close>.
\<close>

theorem searchJoin_equality_counterexample:
  "GMM_ctor (ex_model (exp (- 1))) = Inr (ex_gmm (exp (- 1)))
   \<and> initSigmaW (ex_img 1 1) (create 1 1 CV_8UC1 GC_PR_FGD) (ex_gmm (exp (- 1))) (ex_gmm (exp (- 1)))
        (create 1 1 CV_64FC1 6) (ex_nw 1) 450
      = Inr (setAt (create 1 1 CV_64FC1 6) 0 0 2)
   \<and> getSinkW (Point 0 0) (ex_img 1 1) (create 1 1 CV_8UC1 GC_PR_FGD) (ex_gmm (exp (- 1)))
        (ex_gmm (exp (- 1))) 450 = Inr 1
   \<and> (1::real) \<ge> 1 / 2 * Mat_atP (setAt (create 1 1 CV_64FC1 6) 0 0 2) (Point 0 0)
   \<and> searchJoin (Point 0 0) (ex_img 1 1) (setAt (create 1 1 CV_64FC1 6) 0 0 2)
        (create 1 1 CV_32SC1 0) (ex_nw 1) (graph_create 1 0) (create 1 1 CV_32SC1 (Point (- 1) (- 1)))
        (create 1 1 CV_8UC1 GC_PR_FGD) (ex_gmm (exp (- 1))) (ex_gmm (exp (- 1))) 450 [] []
      = Inr BV_NO_VTX_FOUND
   \<and> BV_NO_VTX_FOUND \<noteq> GC_JNT_BGD"
proof -
  have m: "Mat_atP (create 1 1 CV_8UC1 GC_PR_FGD) (Point 0 0) = GC_PR_FGD"
    by (simp add: Mat_atP_def create_sel)
  have s: "getSinkW (Point 0 0) (ex_img 1 1) (create 1 1 CV_8UC1 GC_PR_FGD) (ex_gmm (exp (- 1)))
        (ex_gmm (exp (- 1))) 450 = Inr 1"
    by (rule getSinkW_ex[OF m])
  have t: "getSourceW (Point 0 0) (ex_img 1 1) (create 1 1 CV_8UC1 GC_PR_FGD) (ex_gmm (exp (- 1)))
        (ex_gmm (exp (- 1))) 450 = Inr 1"
    by (rule getSourceW_ex[OF m])
  have v: "Mat_atP (setAt (create 1 1 CV_64FC1 6) 0 0 2) (Point 0 0) = (2::real)"
    by (simp add: Mat_atP_def setAt_def create_sel)
  have j: "searchJoin (Point 0 0) (ex_img 1 1) (setAt (create 1 1 CV_64FC1 6) 0 0 2)
        (create 1 1 CV_32SC1 0) (ex_nw 1) (graph_create 1 0) (create 1 1 CV_32SC1 (Point (- 1) (- 1)))
        (create 1 1 CV_8UC1 GC_PR_FGD) (ex_gmm (exp (- 1))) (ex_gmm (exp (- 1))) 450 [] []
      = Inr BV_NO_VTX_FOUND"
    by (rule searchJoin_no_neighbours[OF s t]) (simp_all add: v)
  have i: "initSigmaW (ex_img 1 1) (create 1 1 CV_8UC1 GC_PR_FGD) (ex_gmm (exp (- 1))) (ex_gmm (exp (- 1)))
        (create 1 1 CV_64FC1 6) (ex_nw 1) 450
      = Inr (setAt (create 1 1 CV_64FC1 6) 0 0 2)"
    using initSigmaW_ex1[of 1 1] by simp
  show ?thesis
    using s j i v GMM_ctor_ex[of "exp (- 1)"] by (simp add: BV_NO_VTX_FOUND_def GC_JNT_BGD_def)
qed

text \<open>
  Two instances of the amended claim C3.  On a black image of one pixel with sink weight 3
  and \<open>\<sigma>W = 4\<close> the pixel joins the sink.  On a black image of two pixels with mask BG,
  PR_FG, at the second pixel, the sink weight 51 is equal to half of \<open>\<sigma>W = 102\<close>: the
  terminal rule does not fire, and the search joins the sink through the left neighbour,
  for which \<open>s = 50 + 51\<close> is greater than 51.
\<close>

theorem searchJoin_strict_witness:
  "getSinkW (Point 0 0) (ex_img 1 1) (create 1 1 CV_8UC1 GC_PR_FGD) (ex_gmm (exp (- 1)))
        (ex_gmm (exp (- 3))) 450 = Inr 3
   \<and> getSourceW (Point 0 0) (ex_img 1 1) (create 1 1 CV_8UC1 GC_PR_FGD) (ex_gmm (exp (- 1)))
        (ex_gmm (exp (- 3))) 450 = Inr 1
   \<and> (3::real) > 0.5 * Mat_atP (setAt (create 1 1 CV_64FC1 6) 0 0 4) (Point 0 0)
   \<and> searchJoin (Point 0 0) (ex_img 1 1) (setAt (create 1 1 CV_64FC1 6) 0 0 4)
        (create 1 1 CV_32SC1 0) (ex_nw 1) (graph_create 1 0) (create 1 1 CV_32SC1 (Point (- 1) (- 1)))
        (create 1 1 CV_8UC1 GC_PR_FGD) (ex_gmm (exp (- 1))) (ex_gmm (exp (- 3))) 450 [] []
      = Inr GC_JNT_BGD
   \<and> getSinkW (Point 1 0) (ex_img 1 2) (setAt (create 1 2 CV_8UC1 GC_PR_FGD) 0 0 GC_BGD)
        (ex_gmm (exp (- 1))) (ex_gmm (exp (- 51))) 450 = Inr 51
   \<and> getSourceW (Point 1 0) (ex_img 1 2) (setAt (create 1 2 CV_8UC1 GC_PR_FGD) 0 0 GC_BGD)
        (ex_gmm (exp (- 1))) (ex_gmm (exp (- 51))) 450 = Inr 1
   \<and> (51::real) = 0.5 * Mat_atP (setAt (create 1 2 CV_64FC1 500) 0 1 102) (Point 1 0)
   \<and> searchJoin (Point 1 0) (ex_img 1 2) (setAt (create 1 2 CV_64FC1 500) 0 1 102)
        (setAt (create 1 2 CV_32SC1 0) 0 0 GC_JNT_BGD) (ex_nw 2) (graph_create 2 1)
        (create 1 2 CV_32SC1 (Point (- 1) (- 1)))
        (setAt (create 1 2 CV_8UC1 GC_PR_FGD) 0 0 GC_BGD) (ex_gmm (exp (- 1))) (ex_gmm (exp (- 51)))
        450 [Point 0 0] []
      = Inr GC_JNT_BGD"
proof -
  have m: "Mat_atP (create 1 1 CV_8UC1 GC_PR_FGD) (Point 0 0) = GC_PR_FGD"
    by (simp add: Mat_atP_def create_sel)
  have v: "Mat_atP (setAt (create 1 1 CV_64FC1 6) 0 0 4) (Point 0 0) = (4::real)"
    by (simp add: Mat_atP_def setAt_def create_sel)
  have a: "searchJoin (Point 0 0) (ex_img 1 1) (setAt (create 1 1 CV_64FC1 6) 0 0 4)
        (create 1 1 CV_32SC1 0) (ex_nw 1) (graph_create 1 0) (create 1 1 CV_32SC1 (Point (- 1) (- 1)))
        (create 1 1 CV_8UC1 GC_PR_FGD) (ex_gmm (exp (- 1))) (ex_gmm (exp (- 3))) 450 [] []
      = Inr GC_JNT_BGD"
    using searchJoin_strict[OF getSinkW_ex[OF m, of 1 1 "ex_gmm (exp (- 1))" 3 450]
        getSourceW_ex[OF m, of 1 1 1 "ex_gmm (exp (- 3))" 450],
        of "setAt (create 1 1 CV_64FC1 6) 0 0 4" "create 1 1 CV_32SC1 0" "ex_nw 1" "graph_create 1 0"
           "create 1 1 CV_32SC1 (Point (- 1) (- 1))" "[]" "[]", unfolded Let_def, THEN conjunct1]
    by (simp add: v)
  have m2: "Mat_atP (setAt (create 1 2 CV_8UC1 GC_PR_FGD) 0 0 GC_BGD) (Point 1 0) = GC_PR_FGD"
    by (simp add: Mat_atP_def setAt_def create_sel)
  have v2: "Mat_atP (setAt (create 1 2 CV_64FC1 500) 0 1 102) (Point 1 0) = (102::real)"
    by (simp add: Mat_atP_def setAt_def create_sel)
  have s2: "getSinkW (Point 1 0) (ex_img 1 2) (setAt (create 1 2 CV_8UC1 GC_PR_FGD) 0 0 GC_BGD)
        (ex_gmm (exp (- 1))) (ex_gmm (exp (- 51))) 450 = Inr 51"
    by (rule getSinkW_ex[OF m2])
  have t2: "getSourceW (Point 1 0) (ex_img 1 2) (setAt (create 1 2 CV_8UC1 GC_PR_FGD) 0 0 GC_BGD)
        (ex_gmm (exp (- 1))) (ex_gmm (exp (- 51))) 450 = Inr 1"
    by (rule getSourceW_ex[OF m2])
  have n0: "nghbrVtx_of (Point 1 0) (ex_img 1 2) (setAt (create 1 2 CV_32SC1 0) 0 0 GC_JNT_BGD)
      = (\<lambda>i. if i = 0 then GC_JNT_BGD else - 10)"
    by (simp add: nghbrVtx_of_def Mat_at_def setAt_def create_sel fun_eq_iff)
  have w0: "nghbrW_of (Point 1 0) (ex_img 1 2) (ex_nw 2) = (\<lambda>i. if i = 0 then 50 else 0)"
    by (simp add: nghbrW_of_def ex_nw_2 Mat_atP_def fun_eq_iff)
  have s0: "nghbrS_of (\<lambda>i. if i = 0 then GC_JNT_BGD else - 10) (\<lambda>i. if i = 0 then 50 else 0) 51 1 0
      = 101"
    by (simp add: nghbrS_of_def GC_JNT_BGD_def GC_JNT_FGD_def)
  have b: "searchJoin (Point 1 0) (ex_img 1 2) (setAt (create 1 2 CV_64FC1 500) 0 1 102)
        (setAt (create 1 2 CV_32SC1 0) 0 0 GC_JNT_BGD) (ex_nw 2) (graph_create 2 1)
        (create 1 2 CV_32SC1 (Point (- 1) (- 1)))
        (setAt (create 1 2 CV_8UC1 GC_PR_FGD) 0 0 GC_BGD) (ex_gmm (exp (- 1))) (ex_gmm (exp (- 51)))
        450 [Point 0 0] []
      = Inr GC_JNT_BGD \<and> GC_JNT_BGD \<noteq> BV_NO_VTX_FOUND"
    apply (rule searchJoin_strict[OF s2 t2, unfolded Let_def, THEN conjunct2, THEN conjunct2, THEN mp,
          THEN conjunct1, THEN spec, THEN iffD2])
     apply (simp add: v2)
    apply (rule bexI[of _ 0])
     apply (simp add: n0 w0 s0 v2)
     apply (simp add: GC_JNT_BGD_def)
    apply simp
    done
  show ?thesis
    using a b s2 t2 getSinkW_ex[OF m, of 1 1 "ex_gmm (exp (- 1))" 3 450]
      getSourceW_ex[OF m, of 1 1 1 "ex_gmm (exp (- 3))" 450]
    by (simp add: v v2)
qed

lemma ex_mask_at:
  "Mat_atP ex_mask (Point 0 0) = GC_BGD" "Mat_atP ex_mask (Point 1 0) = GC_PR_FGD"
  "Mat_atP ex_mask (Point 2 0) = GC_FGD"
  "rows ex_mask = 1" "cols ex_mask = 3"
  by (simp_all add: ex_mask_def Mat_atP_def)

lemma labels_distinct:
  "GC_BGD \<noteq> GC_FGD" "GC_BGD \<noteq> GC_PR_BGD" "GC_BGD \<noteq> GC_PR_FGD"
  "GC_FGD \<noteq> GC_BGD" "GC_FGD \<noteq> GC_PR_BGD" "GC_FGD \<noteq> GC_PR_FGD"
  "GC_PR_BGD \<noteq> GC_BGD" "GC_PR_BGD \<noteq> GC_FGD" "GC_PR_BGD \<noteq> GC_PR_FGD"
  "GC_PR_FGD \<noteq> GC_BGD" "GC_PR_FGD \<noteq> GC_FGD" "GC_PR_FGD \<noteq> GC_PR_BGD"
  by (simp_all add: GC_BGD_def GC_FGD_def GC_PR_BGD_def GC_PR_FGD_def)

lemma tWeights_ex3:
  "tWeights (ex_img 1 3) ex_mask (ex_gmm (exp (- 2))) (ex_gmm (exp (- 1))) 450 (Point 0 0) = Inr (0, 450)"
  "tWeights (ex_img 1 3) ex_mask (ex_gmm (exp (- 2))) (ex_gmm (exp (- 1))) 450 (Point 1 0) = Inr (2, 1)"
  "tWeights (ex_img 1 3) ex_mask (ex_gmm (exp (- 2))) (ex_gmm (exp (- 1))) 450 (Point 2 0) = Inr (450, 0)"
    apply (simp add: tWeights_def ex_mask_at labels_distinct)
   apply (rule tWeights_ex_PR, simp add: ex_mask_at)
  apply (simp add: tWeights_def ex_mask_at labels_distinct)
  done

lemma initSigmaW_ex3:
  "initSigmaW (ex_img 1 3) ex_mask (ex_gmm (exp (- 2))) (ex_gmm (exp (- 1)))
      (create 1 3 CV_64FC1 6) (ex_nw 3) 450 = Inr ex_sigmaW"
  by (simp add: initSigmaW_def forPixelsE_def forLoopE_unroll rows_ex cols_ex tWeights_ex3 ex_nw_3 Let_def
        Mat_at_def create_sel ex_sigmaW_def)

lemma chainLoop_unroll:
  "\<not> 0 < i \<Longrightarrow> chainLoop pend stop chain i s = Inr s"
  "0 < i \<Longrightarrow> chainLoop pend stop chain i s =
     (let i' = i - 1 in
         if unat i' < length chain then
           (let pxl = chain ! unat i'; s' = s + pend pxl in
            if stop pxl then Inr s' else chainLoop pend stop chain i' s')
         else Inl VectorOutOfRange)"
  by (simp_all add: chainLoop.simps[of pend stop chain i])

lemma ex_sigmaW_at: "elems ex_sigmaW 0 1 = 103"
  by (simp add: ex_sigmaW_def setAt_def create_sel)

lemma getW_ex3:
  "getSinkW (Point 1 0) (ex_img 1 3) ex_mask (ex_gmm (exp (- 2))) (ex_gmm (exp (- 1))) 450 = Inr 1"
  "getSourceW (Point 1 0) (ex_img 1 3) ex_mask (ex_gmm (exp (- 2))) (ex_gmm (exp (- 1))) 450 = Inr 2"
  by (simp_all add: getSinkW_ex getSourceW_ex ex_mask_at)

lemma negLogP_ex3:
  "negLogP (ex_gmm (exp (- 2))) (toVec3d (Mat_atP (ex_img 1 3) p)) = Inr 2"
  "negLogP (ex_gmm (exp (- 1))) (toVec3d (Mat_atP (ex_img 1 3) p)) = Inr 1"
  by (simp_all add: Mat_atP_def ex_img_def create_sel toVec3d_black negLogP_ex)

lemma searchJoin_ex3:
  assumes "Mat_at p2v 0 0 = - 1" and "sink_sigmaW g = 0"
  shows "searchJoin (Point 1 0) (ex_img 1 3) ex_sigmaW p2v (ex_nw 3) g v2p ex_mask
           (ex_gmm (exp (- 2))) (ex_gmm (exp (- 1))) 450 [Point 0 0] src = Inr (- 1)"
  using assms
  by (simp add: searchJoin_def getW_ex3 ex_sigmaW_at nghbrVtx_of_def nghbrW_of_def nghbrS_of_def
      searchJoin_loop.simps getSinkPendingSumW_def chainLoop_unroll ex_nw_3 Mat_at_def Mat_atP_def
      create_sel cols_ex GC_JNT_BGD_def GC_JNT_FGD_def Let_def)

lemma slimPixel_ex3_0:
  "slimPixel (ex_img 1 3) ex_mask (ex_gmm (exp (- 2))) (ex_gmm (exp (- 1))) 450 (ex_nw 3) ex_sigmaW (Point 0 0)
     (slimInit (ex_img 1 3) (create 1 3 CV_32SC1 0)) = Inr ex_st1"
  by (simp add: slimPixel_def slimJoin_def ex_mask_at labels_distinct slimEdges_def ex_st1_def ex_p2v1_def
      slimInit_def Let_def)

lemma slimPixel_ex3_1:
  "slimPixel (ex_img 1 3) ex_mask (ex_gmm (exp (- 2))) (ex_gmm (exp (- 1))) 450 (ex_nw 3) ex_sigmaW (Point 1 0)
     ex_st1 = Inr ex_st2"
proof -
  have sj: "searchJoin (Point 1 0) (ex_img 1 3) ex_sigmaW (s_pxl2Vtx ex_st1) (ex_nw 3) (s_graph ex_st1) (s_Vtx2pxl ex_st1)
      ex_mask (ex_gmm (exp (- 2))) (ex_gmm (exp (- 1))) 450 (s_sinkToPxl ex_st1) (s_sourceToPxl ex_st1) = Inr (- 1)"
    unfolding ex_st1_def
    by (simp, rule searchJoin_ex3)
       (simp_all add: ex_p2v1_def setAtP_def setAt_def Mat_at_def GC_JNT_BGD_def slimInit_def graph_create_def Let_def)
  show ?thesis
    apply (simp add: slimPixel_def slimJoin_def ex_mask_at labels_distinct sj BV_NO_VTX_FOUND_def
        GC_JNT_BGD_def GC_JNT_FGD_def getW_ex3 Let_def)
    apply (simp add: slimEdges_def slimEdge_def jbg_def jfg_def GC_JNT_BGD_def GC_JNT_FGD_def
        ex_st2_def ex_st1_def ex_p2v1_def setAtP_def setAt_def Mat_atP_def create_sel slimInit_def Let_def)
    done
qed

lemma slimPixel_ex3_2:
  "slimPixel (ex_img 1 3) ex_mask (ex_gmm (exp (- 2))) (ex_gmm (exp (- 1))) 450 (ex_nw 3) ex_sigmaW (Point 2 0)
     ex_st2 = Inr ex_st3"
  apply (simp add: slimPixel_def slimJoin_def ex_mask_at labels_distinct Let_def)
  apply (simp add: GC_JNT_BGD_def GC_JNT_FGD_def slimEdges_def slimEdge_def jbg_def jfg_def ex_nw_3 cols_ex
        ex_st3_def ex_st2_def ex_st1_def ex_p2v1_def setAtP_def setAt_def Mat_atP_def create_sel slimInit_def Let_def)
  done

lemma constructGCGraph_slim_ex3:
  "constructGCGraph_slim (ex_img 1 3) ex_mask (ex_gmm (exp (- 2))) (ex_gmm (exp (- 1))) 450 (ex_nw 3)
        (create 1 3 CV_32SC1 0) = Inr ex_st3"
  by (simp add: constructGCGraph_slim_def initSigmaW_ex3 forPixelsE_def forLoopE_unroll rows_ex cols_ex
      slimPixel_ex3_0 slimPixel_ex3_1 slimPixel_ex3_2)

lemma constructGCGraph_ex3:
  "constructGCGraph (ex_img 1 3) ex_mask (ex_gmm (exp (- 2))) (ex_gmm (exp (- 1))) 450 (ex_nw 3) = Inr ex_g3"
  by (simp add: constructGCGraph_def forPixelsE_def forLoopE_unroll rows_ex cols_ex tWeights_ex3 Let_def
      addVtx_def graph_create_def addTermWeights_def addEdges_def ex_nw_3 Mat_atP_def ex_g3_def fun_eq_iff)

lemma ex_ex_g3_sel:
  "vtcs ex_g3 = 3"
  "sourceCap ex_g3 0 = 0" "sourceCap ex_g3 1 = 2" "sourceCap ex_g3 2 = 450"
  "sinkCap ex_g3 0 = 450" "sinkCap ex_g3 1 = 1" "sinkCap ex_g3 2 = 0"
  "edgeCap ex_g3 0 0 = 0" "edgeCap ex_g3 0 1 = 50" "edgeCap ex_g3 0 2 = 0"
  "edgeCap ex_g3 1 0 = 50" "edgeCap ex_g3 1 1 = 0" "edgeCap ex_g3 1 2 = 50"
  "edgeCap ex_g3 2 0 = 0" "edgeCap ex_g3 2 1 = 50" "edgeCap ex_g3 2 2 = 0"
  by (simp_all add: ex_g3_def addVtx_def graph_create_def addTermWeights_def addEdges_def Let_def)

lemma upto_0_2: "[0..(2::int)] = [0, 1, 2]"
  by (simp add: upto_rec1)

lemma maxFlow_ex_g3: "maxFlow ex_g3 = 51"
  by (simp add: maxFlow_def cutValue_def ex_ex_g3_sel upto_0_2)

lemma maxFlow_ex_st3: "maxFlow (s_graph ex_st3) = 0"
  by (simp add: maxFlow_def cutValue_def ex_st3_def ex_st2_def ex_st1_def slimInit_def graph_create_def Let_def)

text \<open>
  Claim C1.  The three black pixels of one row, labelled BG, PR_FG, FG, with the background
  mixture evaluating to \<open>exp (-2)\<close> and the foreground mixture to \<open>exp (-1)\<close>, and the weight
  tables that the entry point computes (every horizontal edge weighs 50).  The slim graph
  has no vertex, its minimum cut is 0 and \<open>s2tw\<close> is 52; the minimum cut of the graph with
  one node per pixel is 51.  The two mixtures are the ones that the constructor builds from
  the buffers \<open>ex_model (exp (-2))\<close> and \<open>ex_model (exp (-1))\<close> (lemma \<open>GMM_ctor_ex\<close>).
\<close>

theorem slim_cut_differs:
  "map_sum id (\<lambda>st. maxFlow (s_graph st) + s_s2tw st)
        (constructGCGraph_slim (ex_img 1 3) ex_mask (ex_gmm (exp (- 2))) (ex_gmm (exp (- 1))) 450
           (ex_nw 3) (create 1 3 CV_32SC1 0)) = Inr 52
   \<and> map_sum id maxFlow
        (constructGCGraph (ex_img 1 3) ex_mask (ex_gmm (exp (- 2))) (ex_gmm (exp (- 1))) 450 (ex_nw 3))
       = Inr 51
   \<and> \<bar>52 - 51\<bar> > 1 / 10 ^ 6 * max 1 \<bar>51 :: real\<bar>"
  by (simp add: constructGCGraph_slim_ex3 constructGCGraph_ex3 maxFlow_ex_g3 maxFlow_ex_st3)
     (simp add: ex_st3_def)

lemma forLoopE_inv_idx:
  assumes "forLoopE i n body s = Inr s'" and "I i s" and "i \<le> n"
    and "\<And>j t t'. i \<le> j \<Longrightarrow> j < n \<Longrightarrow> I j t \<Longrightarrow> body j t = Inr t' \<Longrightarrow> I (j + 1) t'"
  shows "I n s'"
  using assms
proof (induction i n body s rule: forLoopE.induct)
  case (1 i n body s)
  show ?case
  proof (cases "i < n")
    case True
    from "1.prems"(1) True obtain t where bt: "body i s = Inr t" and rest: "forLoopE (i + 1) n body t = Inr s'"
      by (auto simp: forLoopE.simps[of i n] split: sum.splits)
    have It: "I (i + 1) t" using "1.prems"(4)[of i s t] True "1.prems"(2) bt by simp
    have b: "\<And>j t t'. i + 1 \<le> j \<Longrightarrow> j < n \<Longrightarrow> I j t \<Longrightarrow> body j t = Inr t' \<Longrightarrow> I (j + 1) t'"
    proof -
      fix j t t' assume a: "i + 1 \<le> j" "j < n" "I j t" "body j t = Inr t'"
      from a(1) have "i \<le> j" by simp
      from "1.prems"(4)[OF this a(2,3,4)] show "I (j + 1) t'" .
    qed
    from True have le: "i + 1 \<le> n" by simp
    show ?thesis
      using "1.IH"[OF True bt rest It le b] by simp
  next
    case False
    with "1.prems"(3) have "i = n" by simp
    then show ?thesis using "1.prems"(1,2) by (simp add: forLoopE.simps[of n n])
  qed
qed

lemma GMM_operator_ci_nonneg:
  assumes "GMM_operator_ci g ci c = Inr p"
  shows "0 \<le> p"
proof (cases "coefs g ci > 0")
  case True
  with assms have "\<exists>m. p = 1 / sqrt (covDeterms g ci) * exp m"
    by (auto simp: GMM_operator_ci_def Let_def split: if_splits prod.splits)
  then obtain m where "p = 1 / sqrt (covDeterms g ci) * exp m" by blast
  moreover from True assms have "0 < covDeterms g ci"
    by (auto simp: GMM_operator_ci_def DBL_EPSILON_def split: if_splits)
  ultimately show ?thesis by simp
next
  case False
  with assms show ?thesis by (simp add: GMM_operator_ci_def)
qed

text \<open>
  The invariant of the loop of \<^verbatim>\<open>whichComponent\<close> before component \<open>j\<close>: \<open>mx\<close> bounds the
  values of the components below \<open>j\<close>, strictly those below \<open>k\<close>; it is the value of
  component \<open>k\<close> when it is positive, and \<open>k\<close> is 0 while \<open>mx\<close> is 0.
\<close>

lemma wc_step:
  assumes "0 \<le> j" "wc_inv g c j km"
    and "(case km of (k, mx) \<Rightarrow> (case GMM_operator_ci g j c of
                               Inl e \<Rightarrow> Inl e
                             | Inr p \<Rightarrow> if p > mx then Inr (j, p) else Inr (k, mx))) = Inr km'"
  shows "wc_inv g c (j + 1) km'"
proof -
  obtain k mx where km: "km = (k, mx)" by (cases km)
  from assms(3) km obtain p where p: "GMM_operator_ci g j c = Inr p"
    and km': "km' = (if p > mx then (j, p) else (k, mx))"
    by (auto split: sum.splits if_splits)
  from assms(2) km have inv: "0 \<le> k" "k < max j 1" "0 \<le> mx"
    "\<And>i. 0 \<le> i \<Longrightarrow> i < j \<Longrightarrow> \<exists>q. GMM_operator_ci g i c = Inr q \<and> q \<le> mx \<and> (i < k \<longrightarrow> q < mx)"
    "0 < mx \<Longrightarrow> GMM_operator_ci g k c = Inr mx" "mx = 0 \<Longrightarrow> k = 0"
    by (auto simp: wc_inv_def)
  show ?thesis
  proof (cases "p > mx")
    case True
    have "\<And>i. 0 \<le> i \<Longrightarrow> i < j + 1 \<Longrightarrow> \<exists>q. GMM_operator_ci g i c = Inr q \<and> q \<le> p \<and> (i < j \<longrightarrow> q < p)"
    proof -
      fix i :: int assume i: "0 \<le> i" "i < j + 1"
      show "\<exists>q. GMM_operator_ci g i c = Inr q \<and> q \<le> p \<and> (i < j \<longrightarrow> q < p)"
      proof (cases "i < j")
        case True
        from inv(4)[OF i(1) True] obtain q where "GMM_operator_ci g i c = Inr q" "q \<le> mx" by blast
        with \<open>p > mx\<close> show ?thesis by auto
      next
        case False
        with i have "i = j" by simp
        with p show ?thesis by simp
      qed
    qed
    with True km' p assms(1) inv(3) show ?thesis
      by (auto simp: wc_inv_def)
  next
    case False
    have "\<And>i. 0 \<le> i \<Longrightarrow> i < j + 1 \<Longrightarrow> \<exists>q. GMM_operator_ci g i c = Inr q \<and> q \<le> mx \<and> (i < k \<longrightarrow> q < mx)"
    proof -
      fix i :: int assume i: "0 \<le> i" "i < j + 1"
      show "\<exists>q. GMM_operator_ci g i c = Inr q \<and> q \<le> mx \<and> (i < k \<longrightarrow> q < mx)"
      proof (cases "i < j")
        case True
        from inv(4)[OF i(1) True] show ?thesis .
      next
        case F: False
        with i have ij: "i = j" by simp
        from inv(2) assms(1) have "k \<le> j" by (auto simp: max_def split: if_splits)
        with ij p False show ?thesis by auto
      qed
    qed
    with False km' inv show ?thesis
      by (auto simp: wc_inv_def max_def split: if_splits)
  qed
qed

text \<open>
  Claim C9 (amended).  \<^verbatim>\<open>whichComponent\<close> returns the smallest index \<open>k\<close> that maximises
  the value of \<^verbatim>\<open>operator()(k, color)\<close>, the density of component \<open>k\<close> without its weight
  (0 for an inactive component): every component's value is at most that of \<open>k\<close>, and
  those of the components before \<open>k\<close> are strictly below it; so it returns 0 when every
  value is 0.  It fails only with the assertion failure of a component's evaluation.
\<close>

theorem whichComponent_argmax:
  "case whichComponent g color of
     Inl e \<Rightarrow> (\<exists>ci. 0 \<le> ci \<and> ci < componentsCount \<and> GMM_operator_ci g ci color = Inl e)
   | Inr k \<Rightarrow> 0 \<le> k \<and> k < componentsCount
       \<and> (\<exists>pk. GMM_operator_ci g k color = Inr pk
            \<and> (\<forall>j. 0 \<le> j \<and> j < componentsCount \<longrightarrow>
                  (\<exists>pj. GMM_operator_ci g j color = Inr pj \<and> pj \<le> pk \<and> (j < k \<longrightarrow> pj < pk))))"
proof (cases "forLoopE 0 componentsCount
             (\<lambda>ci (k, mx). case GMM_operator_ci g ci color of
                               Inl e \<Rightarrow> Inl e
                             | Inr p \<Rightarrow> if p > mx then Inr (ci, p) else Inr (k, mx))
             (0, 0)")
  case (Inl e)
  have "\<exists>j t. 0 \<le> j \<and> j < componentsCount \<and> True \<and>
      (case t of (k, mx) \<Rightarrow> (case GMM_operator_ci g j color of
                               Inl e \<Rightarrow> Inl e
                             | Inr p \<Rightarrow> if p > mx then Inr (j, p) else Inr (k, mx))) = Inl e"
    by (rule forLoopE_err[where P = "\<lambda>_. True", OF Inl]) simp_all
  then obtain j t where jt: "0 \<le> j" "j < componentsCount"
    "(case t of (k, mx) \<Rightarrow> (case GMM_operator_ci g j color of
                               Inl e \<Rightarrow> Inl e
                             | Inr p \<Rightarrow> if p > mx then Inr (j, p) else Inr (k, mx))) = Inl e"
    by blast
  have "GMM_operator_ci g j color = Inl e"
  proof (cases "GMM_operator_ci g j color")
    case (Inl e')
    with jt(3) show ?thesis by (cases t) simp
  next
    case (Inr p)
    with jt(3) show ?thesis by (cases t) (simp split: if_splits)
  qed
  with jt(1,2) have "\<exists>ci. 0 \<le> ci \<and> ci < componentsCount \<and> GMM_operator_ci g ci color = Inl e"
    by blast
  with Inl show ?thesis by (auto simp: whichComponent_def)
next
  case (Inr km)
  obtain k mx where km: "km = (k, mx)" by (cases km)
  have "wc_inv g color componentsCount km"
  proof (rule forLoopE_inv_idx[where I = "wc_inv g color", OF Inr])
    show "wc_inv g color 0 (0, 0)" by (auto simp: wc_inv_def)
    show "0 \<le> componentsCount" by (simp add: componentsCount_def)
  next
    fix j t t'
    assume "0 \<le> j" "j < componentsCount" "wc_inv g color j t"
      "(case t of (k, mx) \<Rightarrow> (case GMM_operator_ci g j color of
                               Inl e \<Rightarrow> Inl e
                             | Inr p \<Rightarrow> if p > mx then Inr (j, p) else Inr (k, mx))) = Inr t'"
    then show "wc_inv g color (j + 1) t'" by (rule_tac wc_step) auto
  qed
  with km have inv: "0 \<le> k" "k < componentsCount" "0 \<le> mx"
    "\<And>i. 0 \<le> i \<Longrightarrow> i < componentsCount \<Longrightarrow> \<exists>q. GMM_operator_ci g i color = Inr q \<and> q \<le> mx \<and> (i < k \<longrightarrow> q < mx)"
    "0 < mx \<Longrightarrow> GMM_operator_ci g k color = Inr mx" "mx = 0 \<Longrightarrow> k = 0"
    by (auto simp: wc_inv_def componentsCount_def)
  have "\<exists>pk. GMM_operator_ci g k color = Inr pk
            \<and> (\<forall>j. 0 \<le> j \<and> j < componentsCount \<longrightarrow>
                  (\<exists>pj. GMM_operator_ci g j color = Inr pj \<and> pj \<le> pk \<and> (j < k \<longrightarrow> pj < pk)))"
  proof (cases "0 < mx")
    case True
    with inv(4,5) show ?thesis by auto
  next
    case False
    with inv(3) have mx0: "mx = 0" by simp
    with inv(6) have k0: "k = 0" by simp
    from inv(4)[of 0] obtain p0 where p0: "GMM_operator_ci g 0 color = Inr p0" "p0 \<le> mx"
      by (auto simp: componentsCount_def)
    from GMM_operator_ci_nonneg[OF p0(1)] p0(2) mx0 have "p0 = 0" by simp
    with p0 k0 mx0 inv(4) show ?thesis by auto
  qed
  with Inr km inv(1,2) show ?thesis by (simp add: whichComponent_def)
qed

lemma GMM_ctor_ex2: "GMM_ctor ex_model2 = Inr ex_gmm2"
  apply (simp add: GMM_ctor_def empty_Mat_def ex_model2_def componentsCount_def)
  apply (simp add: forLoopE_unroll coefs_def GMM_init_def calcInverseCovAndDeterm_def cov_def
      componentsCount_def det9_def DBL_EPSILON_def ex_gmm2_def Let_def)
  apply (auto simp: ex_model2_def fun_eq_iff)
  done

lemma op_ci_ex2:
  "GMM_operator_ci ex_gmm2 0 (0, 0, 0) = Inr (1 / 2)"
  "GMM_operator_ci ex_gmm2 1 (0, 0, 0) = Inr 1"
  "GMM_operator_ci ex_gmm2 2 (0, 0, 0) = Inr 0"
  "GMM_operator_ci ex_gmm2 3 (0, 0, 0) = Inr 0"
  "GMM_operator_ci ex_gmm2 4 (0, 0, 0) = Inr 0"
  by (simp_all add: GMM_operator_ci_def coefs_def ex_gmm2_def GMM_init_def ex_model2_def
      DBL_EPSILON_def mean_def componentsCount_def mat3_def)

lemma whichComponent_ex2: "whichComponent ex_gmm2 (0, 0, 0) = Inr 1"
  by (simp add: whichComponent_def forLoopE_unroll componentsCount_def op_ci_ex2)

lemma gaussian3_at_mean:
  "gaussian3 mu S mu = 1 / sqrt ((2 * pi) ^ 3 * det9 S)"
  by (cases mu) (simp add: gaussian3_def quadForm_def sub3_def)

lemma sqrt_2pi3_gt1: "1 < sqrt ((2 * pi) ^ 3)"
proof -
  have "2 \<le> pi" by (rule pi_ge_two)
  then have "1 < 2 * pi" by simp
  then have "1 ^ 3 < (2 * pi) ^ 3" by (rule power_strict_mono) simp_all
  then have "1 < (2 * pi) ^ 3" by simp
  then have "sqrt 1 < sqrt ((2 * pi) ^ 3)" by (simp only: real_sqrt_less_iff)
  then show ?thesis by simp
qed

lemma ex_gmm2_params:
  "coefs ex_gmm2 0 = 9 / 10" "coefs ex_gmm2 1 = 1 / 10"
  "det9 (cov9 ex_gmm2 0) = 4" "det9 (cov9 ex_gmm2 1) = 1"
  by (simp_all add: coefs_def cov9_def cov_def det9_def ex_gmm2_def GMM_init_def ex_model2_def componentsCount_def)

text \<open>
  The claim as stated fails: with weights 9/10 and 1/10, both means at the colour and
  covariances \<open>diag(4, 1, 1)\<close> and the identity, \<open>\<pi>\<^sub>0 N\<^sub>0 > \<pi>\<^sub>1 N\<^sub>1\<close>, and the code returns 1.
\<close>

theorem whichComponent_weighted_counterexample:
  "GMM_ctor ex_model2 = Inr ex_gmm2
   \<and> whichComponent ex_gmm2 (0, 0, 0) = Inr 1
   \<and> mean3 ex_gmm2 0 = (0, 0, 0) \<and> mean3 ex_gmm2 1 = (0, 0, 0)
   \<and> coefs ex_gmm2 1 * gaussian3 (0, 0, 0) (cov9 ex_gmm2 1) (0, 0, 0)
       < coefs ex_gmm2 0 * gaussian3 (0, 0, 0) (cov9 ex_gmm2 0) (0, 0, 0)"
proof -
  have m: "mean3 ex_gmm2 0 = (0, 0, 0)" "mean3 ex_gmm2 1 = (0, 0, 0)"
    by (simp_all add: mean3_def mean_def ex_gmm2_def GMM_init_def ex_model2_def componentsCount_def)
  have K: "0 < sqrt ((2 * pi) ^ 3)" using sqrt_2pi3_gt1 by simp
  have g0: "gaussian3 (0, 0, 0) (cov9 ex_gmm2 0) (0, 0, 0) = 1 / (sqrt ((2 * pi) ^ 3) * 2)"
    by (simp only: gaussian3_at_mean ex_gmm2_params real_sqrt_mult real_sqrt_four)
  have g1: "gaussian3 (0, 0, 0) (cov9 ex_gmm2 1) (0, 0, 0) = 1 / sqrt ((2 * pi) ^ 3)"
    by (simp only: gaussian3_at_mean ex_gmm2_params mult_1_right)
  have "coefs ex_gmm2 1 * gaussian3 (0, 0, 0) (cov9 ex_gmm2 1) (0, 0, 0)
       < coefs ex_gmm2 0 * gaussian3 (0, 0, 0) (cov9 ex_gmm2 0) (0, 0, 0)"
    unfolding g0 g1 ex_gmm2_params using K by (simp add: field_simps)
  with m GMM_ctor_ex2 whichComponent_ex2 show ?thesis by simp
qed

text \<open>An instance of the amended claim C9.\<close>

theorem whichComponent_argmax_witness:
  "whichComponent ex_gmm2 (0, 0, 0) = Inr 1
   \<and> GMM_operator_ci ex_gmm2 0 (0, 0, 0) = Inr (1 / 2)
   \<and> GMM_operator_ci ex_gmm2 1 (0, 0, 0) = Inr 1
   \<and> (1 / 2 :: real) < 1"
  using whichComponent_argmax[of ex_gmm2 "(0, 0, 0)"]
  by (simp add: whichComponent_ex2 op_ci_ex2)

lemma calc_inverse_eq:
  "mat3 ((c 4 * c 8 - c 5 * c 7) / d) (- (c 1 * c 8 - c 2 * c 7) / d) ((c 1 * c 5 - c 2 * c 4) / d)
        (- (c 3 * c 8 - c 5 * c 6) / d) ((c 0 * c 8 - c 2 * c 6) / d) (- (c 0 * c 5 - c 2 * c 3) / d)
        ((c 3 * c 7 - c 4 * c 6) / d) (- (c 0 * c 7 - c 1 * c 6) / d) ((c 0 * c 4 - c 1 * c 3) / d)
   = mat3 ((c 4 * c 8 - c 5 * c 7) / d) ((c 2 * c 7 - c 1 * c 8) / d) ((c 1 * c 5 - c 2 * c 4) / d)
          ((c 5 * c 6 - c 3 * c 8) / d) ((c 0 * c 8 - c 2 * c 6) / d) ((c 2 * c 3 - c 0 * c 5) / d)
          ((c 3 * c 7 - c 4 * c 6) / d) ((c 1 * c 6 - c 0 * c 7) / d) ((c 0 * c 4 - c 1 * c 3) / d)"
proof -
  have a: "\<And>x y :: real. - (x - y) / d = (y - x) / d" by simp
  show ?thesis by (simp only: a)
qed

lemma calc_result:
  assumes "calcInverseCovAndDeterm ci g = Inr g'"
  shows "model g' = model g" and "derived_ok_at g' ci"
    and "\<And>k. k \<noteq> ci \<Longrightarrow> covDeterms g' k = covDeterms g k \<and> inverseCovs g' k = inverseCovs g k"
proof -
  show "model g' = model g"
    using assms by (auto simp: calcInverseCovAndDeterm_def Let_def split: if_splits)
  show "\<And>k. k \<noteq> ci \<Longrightarrow> covDeterms g' k = covDeterms g k \<and> inverseCovs g' k = inverseCovs g k"
    using assms by (auto simp: calcInverseCovAndDeterm_def Let_def split: if_splits)
  show "derived_ok_at g' ci"
  proof (cases "coefs g ci > 0")
    case True
    define c where "c = (\<lambda>j. cov g (9 * ci + j))"
    from True assms have ok: "det9 c > DBL_EPSILON"
      by (auto simp: calcInverseCovAndDeterm_def Let_def c_def split: if_splits)
    from True ok assms have g': "g' = g\<lparr>covDeterms := (covDeterms g)(ci := det9 c),
         inverseCovs := (inverseCovs g)(ci := inverse3 c)\<rparr>"
      unfolding calcInverseCovAndDeterm_def Let_def inverse3_def c_def[symmetric]
      by (simp add: calc_inverse_eq)
    show ?thesis
      using ok by (simp add: g' derived_ok_at_def cov9_def cov_def coefs_def c_def)
  next
    case False
    with assms have "g' = g" by (simp add: calcInverseCovAndDeterm_def)
    with False show ?thesis by (simp add: derived_ok_at_def)
  qed
qed

lemma calc_error:
  "calcInverseCovAndDeterm ci g = Inl e \<Longrightarrow> \<exists>s. e = StsAssert s"
  by (auto simp: calcInverseCovAndDeterm_def Let_def split: if_splits)

lemma derived_ok_at_cong:
  "model g' = model g \<Longrightarrow> covDeterms g' k = covDeterms g k \<Longrightarrow> inverseCovs g' k = inverseCovs g k
   \<Longrightarrow> derived_ok_at g' k = derived_ok_at g k"
  by (simp add: derived_ok_at_def coefs_def cov9_def cov_def)

lemma comb3: "x / d + (y / d + z / d) = (x + y + z) / (d::real)"
  by (simp add: add_divide_distrib)

lemma frac_one: "d \<noteq> 0 \<Longrightarrow> n = d \<Longrightarrow> n / d = (1::real)" by simp
lemma frac_zero: "n = 0 \<Longrightarrow> n / d = (0::real)" by simp

lemma inverse3_right:
  assumes "det9 S \<noteq> 0" "i \<in> {0, 1, 2}" "j \<in> {0, 1, 2}"
  shows "(\<Sum>k\<leftarrow>[0, 1, 2]. S (3 * i + k) * inverse3 S k j) = (if i = j then 1 else 0)"
proof -
  have e00: "S 0 * inverse3 S 0 0 + (S 1 * inverse3 S 1 0 + S 2 * inverse3 S 2 0) = 1"
    unfolding inverse3_def mat3_def
    by (simp, simp only: comb3, rule frac_one[OF assms(1)], simp add: det9_def algebra_simps)
  have e11: "S 3 * inverse3 S 0 1 + (S 4 * inverse3 S 1 1 + S 5 * inverse3 S 2 1) = 1"
    unfolding inverse3_def mat3_def
    by (simp, simp only: comb3, rule frac_one[OF assms(1)], simp add: det9_def algebra_simps)
  have e22: "S 6 * inverse3 S 0 2 + (S 7 * inverse3 S 1 2 + S 8 * inverse3 S 2 2) = 1"
    unfolding inverse3_def mat3_def
    by (simp, simp only: comb3, rule frac_one[OF assms(1)], simp add: det9_def algebra_simps)
  have e01: "S 0 * inverse3 S 0 1 + (S 1 * inverse3 S 1 1 + S 2 * inverse3 S 2 1) = 0"
    unfolding inverse3_def mat3_def
    by (simp, simp only: comb3, rule frac_zero, simp add: algebra_simps)
  have e02: "S 0 * inverse3 S 0 2 + (S 1 * inverse3 S 1 2 + S 2 * inverse3 S 2 2) = 0"
    unfolding inverse3_def mat3_def
    by (simp, simp only: comb3, rule frac_zero, simp add: algebra_simps)
  have e10: "S 3 * inverse3 S 0 0 + (S 4 * inverse3 S 1 0 + S 5 * inverse3 S 2 0) = 0"
    unfolding inverse3_def mat3_def
    by (simp, simp only: comb3, rule frac_zero, simp add: algebra_simps)
  have e12: "S 3 * inverse3 S 0 2 + (S 4 * inverse3 S 1 2 + S 5 * inverse3 S 2 2) = 0"
    unfolding inverse3_def mat3_def
    by (simp, simp only: comb3, rule frac_zero, simp add: algebra_simps)
  have e20: "S 6 * inverse3 S 0 0 + (S 7 * inverse3 S 1 0 + S 8 * inverse3 S 2 0) = 0"
    unfolding inverse3_def mat3_def
    by (simp, simp only: comb3, rule frac_zero, simp add: algebra_simps)
  have e21: "S 6 * inverse3 S 0 1 + (S 7 * inverse3 S 1 1 + S 8 * inverse3 S 2 1) = 0"
    unfolding inverse3_def mat3_def
    by (simp, simp only: comb3, rule frac_zero, simp add: algebra_simps)
  from assms(2,3) show ?thesis
    by (elim insertE emptyE) (simp_all add: e00 e01 e02 e10 e11 e12 e20 e21 e22)
qed

lemma ctor_loop:
  assumes "forLoopE 0 componentsCount
          (\<lambda>ci g. if coefs g ci > 0 then calcInverseCovAndDeterm ci g else Inr g) g0 = Inr g"
  shows "model g = model g0 \<and> (\<forall>k. 0 \<le> k \<and> k < componentsCount \<longrightarrow> derived_ok_at g k)"
proof (rule forLoopE_inv_idx[where I = "\<lambda>j g. model g = model g0 \<and> (\<forall>k. 0 \<le> k \<and> k < j \<longrightarrow> derived_ok_at g k)",
      OF assms])
  show "model g0 = model g0 \<and> (\<forall>k. 0 \<le> k \<and> k < 0 \<longrightarrow> derived_ok_at g0 k)" by auto
  show "0 \<le> componentsCount" by (simp add: componentsCount_def)
next
  fix j t t'
  assume j: "0 \<le> j" "j < componentsCount"
    and I: "model t = model g0 \<and> (\<forall>k. 0 \<le> k \<and> k < j \<longrightarrow> derived_ok_at t k)"
    and b: "(if coefs t j > 0 then calcInverseCovAndDeterm j t else Inr t) = Inr t'"
  show "model t' = model g0 \<and> (\<forall>k. 0 \<le> k \<and> k < j + 1 \<longrightarrow> derived_ok_at t' k)"
  proof (cases "coefs t j > 0")
    case True
    with b have c: "calcInverseCovAndDeterm j t = Inr t'" by simp
    note r = calc_result[OF c]
    have "\<And>k. 0 \<le> k \<Longrightarrow> k < j + 1 \<Longrightarrow> derived_ok_at t' k"
    proof -
      fix k :: int assume k: "0 \<le> k" "k < j + 1"
      show "derived_ok_at t' k"
      proof (cases "k = j")
        case True
        with r(2) show ?thesis by simp
      next
        case False
        with k have "k < j" by simp
        with I k have "derived_ok_at t k" by simp
        moreover have "derived_ok_at t' k = derived_ok_at t k"
          using r(1) r(3)[OF False] by (intro derived_ok_at_cong) simp_all
        ultimately show ?thesis by simp
      qed
    qed
    with r(1) I show ?thesis by simp
  next
    case False
    with b have "t' = t" by simp
    moreover from False have "derived_ok_at t j" by (simp add: derived_ok_at_def)
    moreover have "\<And>k. 0 \<le> k \<Longrightarrow> k < j + 1 \<Longrightarrow> derived_ok_at t k"
    proof -
      fix k :: int assume k: "0 \<le> k" "k < j + 1"
      show "derived_ok_at t k"
      proof (cases "k = j")
        case True
        with \<open>derived_ok_at t j\<close> show ?thesis by simp
      next
        case False
        with k have "k < j" by simp
        with I k show ?thesis by simp
      qed
    qed
    ultimately show ?thesis using I by simp
  qed
qed

lemma GMM_ctor_result:
  assumes "GMM_ctor m = Inr g"
  shows "model g = (if empty_Mat m then create 1 65 CV_64FC1 0 else m)"
    and "\<And>k. 0 \<le> k \<Longrightarrow> k < componentsCount \<Longrightarrow> derived_ok_at g k"
proof -
  have "model g = (if empty_Mat m then create 1 65 CV_64FC1 0 else m)
        \<and> (\<forall>k. 0 \<le> k \<and> k < componentsCount \<longrightarrow> derived_ok_at g k)"
  proof (cases "empty_Mat m")
    case True
    with assms have "forLoopE 0 componentsCount
          (\<lambda>ci g. if coefs g ci > 0 then calcInverseCovAndDeterm ci g else Inr g)
          (GMM_init (create 1 65 CV_64FC1 0)) = Inr g"
      by (simp add: GMM_ctor_def componentsCount_def[symmetric] Let_def) (simp add: componentsCount_def)
    from ctor_loop[OF this] True show ?thesis by (simp add: GMM_init_def)
  next
    case False
    with assms have "forLoopE 0 componentsCount
          (\<lambda>ci g. if coefs g ci > 0 then calcInverseCovAndDeterm ci g else Inr g)
          (GMM_init m) = Inr g"
      by (simp add: GMM_ctor_def Let_def split: if_splits)
    from ctor_loop[OF this] False show ?thesis by (simp add: GMM_init_def)
  qed
  then show "model g = (if empty_Mat m then create 1 65 CV_64FC1 0 else m)"
    and "\<And>k. 0 \<le> k \<Longrightarrow> k < componentsCount \<Longrightarrow> derived_ok_at g k" by simp_all
qed

lemma sqrt_2pi3_pos: "0 < sqrt ((2 * pi) ^ 3)"
  using sqrt_2pi3_gt1 by simp

lemma op_ci_formula:
  assumes "derived_ok_at g k"
  shows "GMM_operator_ci g k c =
     Inr (if coefs g k > 0 then sqrt ((2 * pi) ^ 3) * gaussian3 (mean3 g k) (cov9 g k) c else 0)"
proof (cases "coefs g k > 0")
  case False
  then show ?thesis by (simp add: GMM_operator_ci_def)
next
  case True
  obtain c0 c1 c2 where c: "c = (c0, c1, c2)" by (cases c)
  from True assms have d: "covDeterms g k = det9 (cov9 g k)" "covDeterms g k > DBL_EPSILON"
    "inverseCovs g k = inverse3 (cov9 g k)"
    by (simp_all add: derived_ok_at_def)
  define M where "M = inverse3 (cov9 g k)"
  define D where "D = det9 (cov9 g k)"
  define d0 where "d0 = c0 - mean g (3 * k)"
  define d1 where "d1 = c1 - mean g (3 * k + 1)"
  define d2 where "d2 = c2 - mean g (3 * k + 2)"
  have Dpos: "0 < D" using d(1,2) by (simp add: D_def DBL_EPSILON_def)
  have q: "quadForm M (sub3 c (mean3 g k)) =
      d0 * (d0 * M 0 0 + d1 * M 1 0 + d2 * M 2 0)
    + d1 * (d0 * M 0 1 + d1 * M 1 1 + d2 * M 2 1)
    + d2 * (d0 * M 0 2 + d1 * M 1 2 + d2 * M 2 2)"
    by (simp add: quadForm_def sub3_def mean3_def c d0_def d1_def d2_def Let_def algebra_simps)
  have op: "GMM_operator_ci g k c = Inr (1 / sqrt D * exp (- (1 / 2) * quadForm M (sub3 c (mean3 g k))))"
    unfolding q using True d
    by (simp add: GMM_operator_ci_def c M_def D_def d0_def d1_def d2_def Let_def)
  have "1 / sqrt D * exp (- (1 / 2) * quadForm M (sub3 c (mean3 g k)))
      = sqrt ((2 * pi) ^ 3) * gaussian3 (mean3 g k) (cov9 g k) c"
    using Dpos sqrt_2pi3_pos
    by (simp add: gaussian3_def M_def D_def real_sqrt_mult)
  with op True show ?thesis by simp
qed

lemma det9_cong: "(\<And>j. 0 \<le> j \<Longrightarrow> j \<le> 8 \<Longrightarrow> S j = S' j) \<Longrightarrow> det9 S = det9 S'"
  by (simp add: det9_def)

lemma inverse3_cong: "(\<And>j. 0 \<le> j \<Longrightarrow> j \<le> 8 \<Longrightarrow> S j = S' j) \<Longrightarrow> inverse3 S = inverse3 S'"
  by (simp add: inverse3_def det9_def)

lemma derived_ok_at_frame:
  assumes "coefs g' k = coefs g k"
    and "\<And>j. 0 \<le> j \<Longrightarrow> j \<le> 8 \<Longrightarrow> cov9 g' k j = cov9 g k j"
    and "covDeterms g' k = covDeterms g k" "inverseCovs g' k = inverseCovs g k"
  shows "derived_ok_at g' k = derived_ok_at g k"
  using det9_cong[of "cov9 g' k" "cov9 g k", OF assms(2)]
        inverse3_cong[of "cov9 g' k" "cov9 g k", OF assms(2)] assms(1,3,4)
  by (simp add: derived_ok_at_def)

text \<open>
  \<open>g'\<close> differs from \<open>g\<close> only in what belongs to component \<open>ci\<close> of the buffer: its
  weight, its mean and its covariance.
\<close>

lemma same_outside_refl: "same_outside ci g g"
  by (simp add: same_outside_def)

lemma same_outside_trans: "same_outside ci g g' \<Longrightarrow> same_outside ci g' g'' \<Longrightarrow> same_outside ci g g''"
  by (simp add: same_outside_def)

lemma same_outside_set:
  "same_outside ci g (set_coefs g ci v)"
  "0 \<le> j \<Longrightarrow> j \<le> 2 \<Longrightarrow> same_outside ci g (set_mean g (3 * ci + j) v)"
  "0 \<le> i \<Longrightarrow> i \<le> 8 \<Longrightarrow> same_outside ci g (set_cov g (9 * ci + i) v)"
  by (auto simp: same_outside_def set_coefs_def set_mean_def set_cov_def setAt_def componentsCount_def)

lemma same_outside_ok:
  assumes "same_outside ci g g'" "0 \<le> k" "k < 5" "0 \<le> ci" "ci < 5" "k \<noteq> ci"
  shows "derived_ok_at g' k = derived_ok_at g k"
proof (rule derived_ok_at_frame)
  from assms show "coefs g' k = coefs g k"
    by (simp add: same_outside_def coefs_def)
  from assms show "covDeterms g' k = covDeterms g k" "inverseCovs g' k = inverseCovs g k"
    by (simp_all add: same_outside_def)
  fix j :: int assume j: "0 \<le> j" "j \<le> 8"
  from assms(6) have "k < ci \<or> ci < k" by auto
  with assms(1-5) j show "cov9 g' k j = cov9 g k j"
    by (auto simp: same_outside_def cov9_def cov_def componentsCount_def)
qed

lemma endLearning_ci_frame:
  assumes "endLearning_ci ci g = Inr g'"
  shows "derived_ok_at g' ci" and "\<exists>g''. same_outside ci g g'' \<and> model g' = model g''
      \<and> (\<forall>k. k \<noteq> ci \<longrightarrow> covDeterms g' k = covDeterms g'' k \<and> inverseCovs g' k = inverseCovs g'' k)"
proof -
  show "derived_ok_at g' ci"
  proof (cases "sampleCounts g ci = 0")
    case True
    with assms have "g' = set_coefs g ci 0" by (simp add: endLearning_ci_def)
    then show ?thesis by (simp add: derived_ok_at_def coefs_def set_coefs_def setAt_def)
  next
    case False
    with assms obtain g'' where "calcInverseCovAndDeterm ci g'' = Inr g'"
      by (simp add: endLearning_ci_def Let_def)
    from calc_result(2)[OF this] show ?thesis .
  qed
  show "\<exists>g''. same_outside ci g g'' \<and> model g' = model g''
      \<and> (\<forall>k. k \<noteq> ci \<longrightarrow> covDeterms g' k = covDeterms g'' k \<and> inverseCovs g' k = inverseCovs g'' k)"
  proof (cases "sampleCounts g ci = 0")
    case True
    with assms have "g' = set_coefs g ci 0" by (simp add: endLearning_ci_def)
    with same_outside_set(1)[of ci g 0] show ?thesis by blast
  next
    case False
    have "\<exists>g''. calcInverseCovAndDeterm ci g'' = Inr g' \<and> same_outside ci g g''"
      using assms False unfolding endLearning_ci_def Let_def
      apply (simp split: if_splits)
       apply (rule exI, rule conjI, assumption)
       apply (simp add: same_outside_def set_coefs_def set_mean_def set_cov_def setAt_def componentsCount_def)
      apply (rule exI, rule conjI, assumption)
      apply (simp add: same_outside_def set_coefs_def set_mean_def set_cov_def setAt_def componentsCount_def)
      done
    then obtain g'' where c: "calcInverseCovAndDeterm ci g'' = Inr g'"
      and so: "same_outside ci g g''" by blast
    from calc_result(1,3)[OF c] so show ?thesis by blast
  qed
qed

lemma endLearning_result:
  assumes "endLearning g0 = Inr g"
  shows "\<And>k. 0 \<le> k \<Longrightarrow> k < componentsCount \<Longrightarrow> derived_ok_at g k"
proof -
  have "\<forall>k. 0 \<le> k \<and> k < componentsCount \<longrightarrow> derived_ok_at g k"
  proof (rule forLoopE_inv_idx[where I = "\<lambda>j g. \<forall>k. 0 \<le> k \<and> k < j \<longrightarrow> derived_ok_at g k",
        OF assms[unfolded endLearning_def]])
    show "\<forall>k. 0 \<le> k \<and> k < 0 \<longrightarrow> derived_ok_at g0 k" by auto
    show "0 \<le> componentsCount" by (simp add: componentsCount_def)
  next
    fix j t t'
    assume j: "0 \<le> j" "j < componentsCount"
      and I: "\<forall>k. 0 \<le> k \<and> k < j \<longrightarrow> derived_ok_at t k"
      and b: "endLearning_ci j t = Inr t'"
    note f = endLearning_ci_frame[OF b]
    from f(2) obtain t'' where so: "same_outside j t t''" and m: "model t' = model t''"
      and d: "\<And>k. k \<noteq> j \<Longrightarrow> covDeterms t' k = covDeterms t'' k \<and> inverseCovs t' k = inverseCovs t'' k"
      by blast
    have "\<And>k. 0 \<le> k \<Longrightarrow> k < j + 1 \<Longrightarrow> derived_ok_at t' k"
    proof -
      fix k :: int assume k: "0 \<le> k" "k < j + 1"
      show "derived_ok_at t' k"
      proof (cases "k = j")
        case True
        with f(1) show ?thesis by simp
      next
        case False
        with k have kj: "k < j" by simp
        with I k have "derived_ok_at t k" by simp
        moreover have "derived_ok_at t'' k = derived_ok_at t k"
          using so k(1) kj j False by (intro same_outside_ok) (auto simp: componentsCount_def)
        moreover have "derived_ok_at t' k = derived_ok_at t'' k"
          using m d[OF False] by (intro derived_ok_at_cong) simp_all
        ultimately show ?thesis by simp
      qed
    qed
    then show "\<forall>k. 0 \<le> k \<and> k < j + 1 \<longrightarrow> derived_ok_at t' k" by simp
  qed
  then show "\<And>k. 0 \<le> k \<Longrightarrow> k < componentsCount \<Longrightarrow> derived_ok_at g k" by simp
qed

lemma upto_0_4: "[0..(4::int)] = [0, 1, 2, 3, 4]"
  by (simp add: upto_rec1)

lemma GMM_operator_formula:
  assumes "\<And>k. 0 \<le> k \<Longrightarrow> k < componentsCount \<Longrightarrow> derived_ok_at g k"
  shows "GMM_operator g c =
     Inr (\<Sum>i\<leftarrow>[0..componentsCount - 1]. coefs g i *
            (if coefs g i > 0 then sqrt ((2 * pi) ^ 3) * gaussian3 (mean3 g i) (cov9 g i) c else 0))"
proof -
  have ok: "derived_ok_at g 0" "derived_ok_at g 1" "derived_ok_at g 2" "derived_ok_at g 3" "derived_ok_at g 4"
    using assms by (simp_all add: componentsCount_def)
  show ?thesis
    by (simp add: GMM_operator_def componentsCount_def forLoopE_unroll upto_0_4
        op_ci_formula[OF ok(1)] op_ci_formula[OF ok(2)] op_ci_formula[OF ok(3)]
        op_ci_formula[OF ok(4)] op_ci_formula[OF ok(5)])
qed

text \<open>
  Claim C5 (amended).  In every state that the constructor or \<^verbatim>\<open>endLearning\<close> leaves, and
  for every component \<open>k\<close> and colour \<open>c\<close>, \<^verbatim>\<open>operator()(k, c)\<close> returns
  \<open>det(\<Sigma>\<^sub>k)\<^sup>-\<^sup>1\<^sup>/\<^sup>2 exp(-(c - \<mu>\<^sub>k)\<^sup>T \<Sigma>\<^sub>k\<^sup>-\<^sup>1 (c - \<mu>\<^sub>k) / 2)\<close>, that is \<open>(2\<pi>)\<^sup>3\<^sup>/\<^sup>2 N(c; \<mu>\<^sub>k, \<Sigma>\<^sub>k)\<close>, when
  \<open>\<pi>\<^sub>k > 0\<close>, and 0 otherwise: the value carries neither the weight \<open>\<pi>\<^sub>k\<close> nor the constant
  \<open>(2\<pi>)\<^sup>-\<^sup>3\<^sup>/\<^sup>2\<close>.  The weight is applied by the mixture \<^verbatim>\<open>operator()(c)\<close>, which returns the sum
  of \<open>\<pi>\<^sub>k\<close> times these values.  (Doubles are read as reals.)
\<close>

theorem GMM_component_density:
  assumes "GMM_ctor m = Inr g \<or> endLearning g0 = Inr g"
    and "0 \<le> k" and "k < componentsCount"
  shows "GMM_operator_ci g k c =
           Inr (if coefs g k > 0 then sqrt ((2 * pi) ^ 3) * gaussian3 (mean3 g k) (cov9 g k) c else 0)
       \<and> GMM_operator g c =
           Inr (\<Sum>i\<leftarrow>[0..componentsCount - 1]. coefs g i *
             (if coefs g i > 0 then sqrt ((2 * pi) ^ 3) * gaussian3 (mean3 g i) (cov9 g i) c else 0))"
proof -
  have ok: "\<And>k. 0 \<le> k \<Longrightarrow> k < componentsCount \<Longrightarrow> derived_ok_at g k"
    using assms(1) GMM_ctor_result(2)[of m g] endLearning_result[of g0 g] by blast
  from op_ci_formula[OF ok[OF assms(2,3)]] GMM_operator_formula[OF ok]
  show ?thesis by simp
qed

lemma ex_gmm_params:
  "coefs (ex_gmm a) 0 = a" "mean3 (ex_gmm a) 0 = (0, 0, 0)" "det9 (cov9 (ex_gmm a) 0) = 1"
  by (simp_all add: coefs_def mean3_def mean_def cov9_def cov_def det9_def ex_gmm_def GMM_init_def
      ex_model_def componentsCount_def)

text \<open>An instance of the amended claim C5: one component of weight 1/2, at its mean.\<close>

theorem GMM_component_density_witness:
  "(GMM_ctor (ex_model (1 / 2)) = Inr (ex_gmm (1 / 2))
      \<or> endLearning (ex_gmm (1 / 2)) = Inr (ex_gmm (1 / 2)))
   \<and> (0::int) \<le> 0 \<and> 0 < componentsCount
   \<and> GMM_operator_ci (ex_gmm (1 / 2)) 0 (0, 0, 0)
       = Inr (sqrt ((2 * pi) ^ 3) * gaussian3 (0, 0, 0) (cov9 (ex_gmm (1 / 2)) 0) (0, 0, 0))"
proof -
  have c: "GMM_ctor (ex_model (1 / 2)) = Inr (ex_gmm (1 / 2))"
    by (rule GMM_ctor_ex) simp
  have k: "(0::int) < componentsCount" by (simp add: componentsCount_def)
  from GMM_component_density[OF disjI1[OF c] order_refl k, of "(0, 0, 0)"] c k
  show ?thesis by (simp add: ex_gmm_params)
qed

text \<open>
  The claim as stated fails: for a component of weight 1/2 with the identity as covariance
  the code returns 1 at the mean, and \<open>\<pi>\<^sub>k N(c; \<mu>\<^sub>k, \<Sigma>\<^sub>k)\<close> is below 1.
\<close>

theorem GMM_component_unweighted_counterexample:
  "GMM_ctor (ex_model (1 / 2)) = Inr (ex_gmm (1 / 2))
   \<and> coefs (ex_gmm (1 / 2)) 0 = 1 / 2
   \<and> GMM_operator_ci (ex_gmm (1 / 2)) 0 (0, 0, 0) = Inr 1
   \<and> coefs (ex_gmm (1 / 2)) 0 * gaussian3 (mean3 (ex_gmm (1 / 2)) 0) (cov9 (ex_gmm (1 / 2)) 0) (0, 0, 0) < 1"
proof -
  have c: "GMM_ctor (ex_model (1 / 2)) = Inr (ex_gmm (1 / 2))"
    by (rule GMM_ctor_ex) simp
  have o: "GMM_operator_ci (ex_gmm (1 / 2)) 0 (0, 0, 0) = Inr 1"
    by (simp add: GMM_operator_ci_def coefs_def ex_gmm_def GMM_init_def ex_model_def
        DBL_EPSILON_def mean_def componentsCount_def mat3_def)
  have g: "gaussian3 (0, 0, 0) (cov9 (ex_gmm (1 / 2)) 0) (0, 0, 0) = 1 / sqrt ((2 * pi) ^ 3)"
    by (simp only: gaussian3_at_mean ex_gmm_params mult_1_right)
  have "1 / sqrt ((2 * pi) ^ 3) < 1"
    using sqrt_2pi3_gt1 by (simp only: divide_less_eq_1_pos[OF sqrt_2pi3_pos])
  then have "1 / 2 * gaussian3 (0, 0, 0) (cov9 (ex_gmm (1 / 2)) 0) (0, 0, 0) < 1"
    unfolding g by linarith
  then have "coefs (ex_gmm (1 / 2)) 0 * gaussian3 (mean3 (ex_gmm (1 / 2)) 0) (cov9 (ex_gmm (1 / 2)) 0) (0, 0, 0) < 1"
    by (simp only: ex_gmm_params)
  with c o show ?thesis by (simp add: ex_gmm_params)
qed

lemma forLoopE_inv_max:
  assumes "forLoopE i n body s = Inr s'" and "I i s"
    and "\<And>j t t'. i \<le> j \<Longrightarrow> j < n \<Longrightarrow> I j t \<Longrightarrow> body j t = Inr t' \<Longrightarrow> I (j + 1) t'"
  shows "I (max i n) s'"
proof (cases "i \<le> n")
  case True
  from forLoopE_inv_idx[where I = I, OF assms(1,2) True assms(3)] True show ?thesis
    by (simp add: max_def)
next
  case False
  then have "forLoopE i n body s = Inr s" by (simp add: forLoopE_unroll)
  with assms(1,2) False show ?thesis by (simp add: max_def)
qed

lemma forLoopE_err_idx:
  assumes "forLoopE i n body s = Inl e" and "I i s"
    and "\<And>j t t'. i \<le> j \<Longrightarrow> j < n \<Longrightarrow> I j t \<Longrightarrow> body j t = Inr t' \<Longrightarrow> I (j + 1) t'"
  shows "\<exists>j t. i \<le> j \<and> j < n \<and> I j t \<and> body j t = Inl e"
  using assms
proof (induction i n body s rule: forLoopE.induct)
  case (1 i n body s)
  show ?case
  proof (cases "i < n")
    case True
    show ?thesis
    proof (cases "body i s")
      case (Inl e')
      then have "e' = e" using "1.prems"(1) True by (simp add: forLoopE.simps[of i n])
      then show ?thesis using Inl True "1.prems"(2) by auto
    next
      case (Inr t)
      then have rest: "forLoopE (i + 1) n body t = Inl e"
        using "1.prems"(1) True by (simp add: forLoopE.simps[of i n])
      have It: "I (i + 1) t" using "1.prems"(3)[of i s t] True "1.prems"(2) Inr by simp
      have b: "\<And>j t t'. i + 1 \<le> j \<Longrightarrow> j < n \<Longrightarrow> I j t \<Longrightarrow> body j t = Inr t' \<Longrightarrow> I (j + 1) t'"
      proof -
        fix j t t' assume a: "i + 1 \<le> j" "j < n" "I j t" "body j t = Inr t'"
        from a(1) have "i \<le> j" by simp
        from "1.prems"(3)[OF this a(2,3,4)] show "I (j + 1) t'" .
      qed
      have "\<exists>j t. i + 1 \<le> j \<and> j < n \<and> I j t \<and> body j t = Inl e"
        using "1.IH"[OF True Inr rest It b] by simp
      then obtain j u where ju: "i + 1 \<le> j" "j < n" "I j u" "body j u = Inl e" by blast
      from ju(1) have "i \<le> j" by simp
      with ju(2,3,4) show ?thesis by blast
    qed
  next
    case False
    then show ?thesis using "1.prems" by (simp add: forLoopE.simps[of i n])
  qed
qed

lemma chainLoop_in_range:
  "unat i \<le> length chain \<Longrightarrow> \<exists>r. chainLoop pend stop chain i s = Inr r"
proof (induction pend stop chain i s rule: chainLoop.induct)
  case (1 pend stop chain i s)
  show ?case
  proof (cases "0 < i")
    case False
    then show ?thesis by (simp add: chainLoop_unroll)
  next
    case True
    then have ne: "i \<noteq> 0" by auto
    have u: "unat (i - 1) = unat i - 1" using ne by (simp add: unat_minus_one)
    have pos: "0 < unat i" using ne by (simp add: unat_gt_0)
    with u "1.prems" have lt: "unat (i - 1) < length chain" by simp
    show ?thesis
    proof (cases "stop (chain ! unat (i - 1))")
      case T: True
      with True lt show ?thesis by (simp add: chainLoop_unroll Let_def)
    next
      case F: False
      have "\<exists>r. chainLoop pend stop chain (i - 1) (s + pend (chain ! unat (i - 1))) = Inr r"
        by (rule "1.IH"[OF True refl lt refl refl F]) (use lt in simp)
      with True lt F show ?thesis by (simp add: chainLoop_unroll Let_def)
    qed
  qed
qed

lemma chain_start_in_range:
  assumes "chain \<noteq> []"
  shows "unat (word_of_nat (length chain) - 1 :: 64 word) \<le> length chain"
proof (cases "(word_of_nat (length chain) :: 64 word) = 0")
  case True
  then have "2 ^ 64 dvd length chain"
    by (simp add: word_of_nat_eq_0_iff)
  with assms have "2 ^ 64 \<le> length chain" by (auto dest: dvd_imp_le)
  moreover have "unat (word_of_nat (length chain) - 1 :: 64 word) < 2 ^ 64"
    using unsigned_less[of "word_of_nat (length chain) - 1 :: 64 word"] by simp
  ultimately show ?thesis by simp
next
  case False
  then have "unat (word_of_nat (length chain) - 1 :: 64 word) = unat (word_of_nat (length chain) :: 64 word) - 1"
    by (simp add: unat_minus_one)
  also have "\<dots> \<le> unat (word_of_nat (length chain) :: 64 word)" by simp
  also have "\<dots> \<le> length chain" by (simp add: unat_of_nat)
  finally show ?thesis .
qed

lemma pending_in_range:
  "chain \<noteq> [] \<Longrightarrow> \<exists>r. getSinkPendingSumW p img nw chain = Inr r"
  "chain \<noteq> [] \<Longrightarrow> \<exists>r. getSourcePendingSumW p img nw chain = Inr r"
  by (simp_all add: getSinkPendingSumW_def getSourcePendingSumW_def chainLoop_in_range chain_start_in_range)

lemma slimSumW_returns:
  assumes "Mat_atP Vtx2pxl p = Point (- 1) (- 1)"
  shows "\<exists>r. slimSumW img i p graph nw Vtx2pxl = Inr r"
proof -
  have stop: "\<And>s. slimSumW_loop (\<lambda>pxl. pendingSumW p pxl img nw) (Point (- 1) (- 1)) (Point (- 1) (- 1)) s = Some s"
    by (subst slimSumW_loop.simps) simp
  have "\<exists>r. slimSumW_loop (\<lambda>pxl. pendingSumW p pxl img nw) (Point (- 1) (- 1))
           (getFirstP graph i) (sumW graph i) = Some r"
    by (subst slimSumW_loop.simps) (simp add: stop)
  then show ?thesis using assms by (auto simp: slimSumW_def)
qed

text \<open>
  The pixels that the raster scan has passed when it stands at column \<open>x\<close> of row \<open>y\<close> of
  an image with \<open>c\<close> columns.
\<close>

text \<open>
  The invariant of the scan: a scanned pixel that \<open>pxl2Vtx\<close> maps to the background
  sentinel is in the sink chain; one that it maps to another negative value is in the source
  chain; the table \<open>Vtx2pxl\<close> still holds \<open>(-1, -1)\<close> at every pixel not yet scanned; and the
  graph has a non-negative number of vertices.
\<close>

lemma op_ci_err: "GMM_operator_ci g ci c = Inl e \<Longrightarrow> \<exists>s. e = StsAssert s"
  by (auto simp: GMM_operator_ci_def Let_def split: if_splits prod.splits)

lemma GMM_operator_err:
  assumes "GMM_operator g c = Inl e"
  shows "\<exists>s. e = StsAssert s"
proof -
  from forLoopE_err[where P = "\<lambda>_. True", OF assms[unfolded GMM_operator_def]]
  obtain j t where "(case GMM_operator_ci g j c of Inl e \<Rightarrow> Inl e
                  | Inr v \<Rightarrow> Inr (t + coefs g j * v)) = Inl e" by auto
  then have "GMM_operator_ci g j c = Inl e" by (simp split: sum.splits)
  then show ?thesis by (rule op_ci_err)
qed

lemma negLogP_err: "negLogP g c = Inl e \<Longrightarrow> \<exists>s. e = StsAssert s"
  by (auto simp: negLogP_def split: sum.splits dest: GMM_operator_err)

lemma getW_err:
  "getSinkW p img msk b f l = Inl e \<Longrightarrow> \<exists>s. e = StsAssert s"
  "getSourceW p img msk b f l = Inl e \<Longrightarrow> \<exists>s. e = StsAssert s"
  by (auto simp: getSinkW_def getSourceW_def Let_def split: if_splits dest: negLogP_err)

lemma tWeights_err: "tWeights img msk b f l p = Inl e \<Longrightarrow> \<exists>s. e = StsAssert s"
  by (auto simp: tWeights_def Let_def split: if_splits sum.splits dest: negLogP_err)

lemma forPixelsE_err:
  assumes "forPixelsE r c body s = Inl e"
  shows "\<exists>p t. body p t = Inl e"
proof -
  from forLoopE_err[where P = "\<lambda>_. True", OF assms[unfolded forPixelsE_def]]
  obtain y t where "forLoopE 0 c (\<lambda>x. body (Point x y)) t = Inl e" by auto
  from forLoopE_err[where P = "\<lambda>_. True", OF this]
  show ?thesis by auto
qed

lemma initSigmaW_err:
  assumes "initSigmaW img msk b f sg nw l = Inl e"
  shows "\<exists>s. e = StsAssert s"
proof -
  from forPixelsE_err[OF assms[unfolded initSigmaW_def]]
  obtain p t where pt: "(let x = px p; y = py p;
              s = 0;
              s = s + Mat_at (leftW nw) y x;
              s = s + Mat_at (upleftW nw) y x;
              s = s + Mat_at (upW nw) y x;
              s = s + Mat_at (uprightW nw) y x;
              s = (if x < cols img - 1 then s + Mat_at (leftW nw) y (x + 1) else s);
              s = (if x < cols img - 1 \<and> y < rows img - 1 then s + Mat_at (upleftW nw) (y + 1) (x + 1) else s);
              s = (if y < rows img - 1 then s + Mat_at (upW nw) (y + 1) x else s);
              s = (if x > 0 \<and> y < rows img - 1 then s + Mat_at (uprightW nw) (y + 1) (x - 1) else s)
          in case tWeights img msk b f l p of
               Inl e \<Rightarrow> Inl e
             | Inr (fromSource, toSink) \<Rightarrow> Inr (setAt t y x (s + fromSource + toSink))) = Inl e"
    by blast
  have "tWeights img msk b f l p = Inl e"
  proof (cases "tWeights img msk b f l p")
    case (Inl e')
    with pt show ?thesis by (simp add: Let_def)
  next
    case (Inr ft)
    with pt show ?thesis by (cases ft) (simp add: Let_def)
  qed
  then show ?thesis by (rule tWeights_err)
qed

lemma searchJoin_loop_err:
  assumes "searchJoin_loop n s sig ws wt slim sinkPend sourcePend is = Inl e"
    and "\<And>cn. \<exists>r. slim cn = Inr r"
    and "\<And>i. i \<in> set is \<Longrightarrow> n i = GC_JNT_BGD \<Longrightarrow> \<exists>r. sinkPend = Inr r"
    and "\<And>i. i \<in> set is \<Longrightarrow> n i < 0 \<Longrightarrow> n i \<noteq> GC_JNT_BGD \<Longrightarrow> n i \<noteq> - 10 \<Longrightarrow> \<exists>r. sourcePend = Inr r"
  shows False
  using assms
proof (induction "is")
  case Nil
  then show ?case by (simp add: searchJoin_loop.simps)
next
  case (Cons i rest)
  have rest: "searchJoin_loop n s sig ws wt slim sinkPend sourcePend rest \<noteq> Inl e"
    using Cons.IH Cons.prems(2,3,4) by (metis list.set_intros(2))
  obtain r where r: "slim (n i) = Inr r" using Cons.prems(2) by blast
  show ?case
  proof (cases "n i = - 10")
    case True
    with Cons.prems(1) rest show ?thesis by (simp add: searchJoin_loop.simps)
  next
    case ne: False
    show ?thesis
    proof (cases "0 \<le> n i")
      case True
      with Cons.prems(1) rest ne r show ?thesis
        by (simp add: searchJoin_loop.simps Let_def split: if_splits)
    next
      case neg: False
      show ?thesis
      proof (cases "n i = GC_JNT_BGD")
        case True
        with Cons.prems(3)[of i] obtain q where "sinkPend = Inr q" by auto
        with Cons.prems(1) rest ne neg True show ?thesis
          by (simp add: searchJoin_loop.simps Let_def split: if_splits)
      next
        case False
        with Cons.prems(4)[of i] neg ne obtain q where "sourcePend = Inr q" by auto
        with Cons.prems(1) rest ne neg False show ?thesis
          by (simp add: searchJoin_loop.simps Let_def split: if_splits)
      qed
    qed
  qed
qed

lemma searchJoin_err:
  assumes "searchJoin p img sigmaW p2v nw graph Vtx2pxl msk b f l sink source = Inl e"
    and "Mat_atP Vtx2pxl p = Point (- 1) (- 1)"
    and "\<And>i. i \<in> {0, 1, 2, 3} \<Longrightarrow> nghbrVtx_of p img p2v i = GC_JNT_BGD \<Longrightarrow> sink \<noteq> []"
    and "\<And>i. i \<in> {0, 1, 2, 3} \<Longrightarrow> nghbrVtx_of p img p2v i < 0 \<Longrightarrow> nghbrVtx_of p img p2v i \<noteq> GC_JNT_BGD
          \<Longrightarrow> nghbrVtx_of p img p2v i \<noteq> - 10 \<Longrightarrow> source \<noteq> []"
  shows "\<exists>s. e = StsAssert s"
proof (cases "getSinkW p img msk b f l")
  case (Inl e')
  with assms(1) have "e' = e" by (simp add: searchJoin_def Let_def)
  with Inl getW_err(1) show ?thesis by blast
next
  case ws: (Inr ws)
  show ?thesis
  proof (cases "getSourceW p img msk b f l")
    case (Inl e')
    with assms(1) ws have "e' = e" by (simp add: searchJoin_def Let_def)
    with Inl getW_err(2) show ?thesis by blast
  next
    case wt: (Inr wt)
    from assms(1) ws wt have loop: "searchJoin_loop (nghbrVtx_of p img p2v)
        (nghbrS_of (nghbrVtx_of p img p2v) (nghbrW_of p img nw) ws wt) (Mat_atP sigmaW p) ws wt
        (\<lambda>cn. slimSumW img cn p graph nw Vtx2pxl)
        (case getSinkPendingSumW p img nw sink of Inl e \<Rightarrow> Inl e | Inr t \<Rightarrow> Inr (sink_sigmaW graph + t))
        (case getSourcePendingSumW p img nw source of Inl e \<Rightarrow> Inl e | Inr t \<Rightarrow> Inr (source_sigmaW graph + t))
        [0, 1, 2, 3] = Inl e"
      by (auto simp: searchJoin_def Let_def split: if_splits)
    have False
    proof (rule searchJoin_loop_err[OF loop])
      show "\<And>cn. \<exists>r. slimSumW img cn p graph nw Vtx2pxl = Inr r"
        by (rule slimSumW_returns[OF assms(2)])
    next
      fix i :: int assume "i \<in> set [0, 1, 2, 3]" "nghbrVtx_of p img p2v i = GC_JNT_BGD"
      then have "sink \<noteq> []" using assms(3)[of i] by simp
      from pending_in_range(1)[OF this, of p img nw]
      show "\<exists>r. (case getSinkPendingSumW p img nw sink of Inl e \<Rightarrow> Inl e
                  | Inr t \<Rightarrow> Inr (sink_sigmaW graph + t)) = Inr r" by auto
    next
      fix i :: int assume "i \<in> set [0, 1, 2, 3]" "nghbrVtx_of p img p2v i < 0"
        "nghbrVtx_of p img p2v i \<noteq> GC_JNT_BGD" "nghbrVtx_of p img p2v i \<noteq> - 10"
      then have "source \<noteq> []" using assms(4)[of i] by simp
      from pending_in_range(2)[OF this, of p img nw]
      show "\<exists>r. (case getSourcePendingSumW p img nw source of Inl e \<Rightarrow> Inl e
                  | Inr t \<Rightarrow> Inr (source_sigmaW graph + t)) = Inr r" by auto
    qed
    then show ?thesis ..
  qed
qed

lemma Mat_atP_setAtP: "Mat_atP (setAtP m p v) q = (if q = p then v else Mat_atP m q)"
  by (cases p; cases q) (auto simp: Mat_atP_def setAtP_def setAt_def)

lemma nghbr_scanned:
  assumes "0 \<le> x" "x < cols img" "0 \<le> y" "i \<in> {0, 1, 2, 3}"
    and "nghbrVtx_of (Point x y) img p2v i \<noteq> - 10"
  shows "\<exists>q. scanned (cols img) y x q \<and> nghbrVtx_of (Point x y) img p2v i = Mat_atP p2v q"
proof -
  from assms(4) consider "i = 0" | "i = 1" | "i = 2" | "i = 3" by auto
  then show ?thesis
  proof cases
    case 1
    with assms have "0 < x \<and> nghbrVtx_of (Point x y) img p2v i = Mat_atP p2v (Point (x - 1) y)"
      by (auto simp: nghbrVtx_of_def Let_def Mat_at_def Mat_atP_def split: if_splits)
    with assms(1-3) show ?thesis by (intro exI[of _ "Point (x - 1) y"]) (simp add: scanned_def)
  next
    case 2
    with assms have "0 < x \<and> 0 < y \<and> nghbrVtx_of (Point x y) img p2v i = Mat_atP p2v (Point (x - 1) (y - 1))"
      by (auto simp: nghbrVtx_of_def Let_def Mat_at_def Mat_atP_def split: if_splits)
    with assms(1-3) show ?thesis by (intro exI[of _ "Point (x - 1) (y - 1)"]) (simp add: scanned_def)
  next
    case 3
    with assms have "0 < y \<and> nghbrVtx_of (Point x y) img p2v i = Mat_atP p2v (Point x (y - 1))"
      by (auto simp: nghbrVtx_of_def Let_def Mat_at_def Mat_atP_def split: if_splits)
    with assms(1-3) show ?thesis by (intro exI[of _ "Point x (y - 1)"]) (simp add: scanned_def)
  next
    case 4
    with assms have "0 < y \<and> x < cols img - 1
        \<and> nghbrVtx_of (Point x y) img p2v i = Mat_atP p2v (Point (x + 1) (y - 1))"
      by (auto simp: nghbrVtx_of_def Let_def Mat_at_def Mat_atP_def split: if_splits)
    with assms(1-3) show ?thesis by (intro exI[of _ "Point (x + 1) (y - 1)"]) (simp add: scanned_def)
  qed
qed

lemma scanned_step:
  "0 \<le> x \<Longrightarrow> x < c \<Longrightarrow> 0 \<le> y \<Longrightarrow> scanned c y (x + 1) q = (scanned c y x q \<or> q = Point x y)"
  by (cases q) (auto simp: scanned_def)

lemma scanned_row: "scanned c (y + 1) 0 q = scanned c y (max 0 c) q"
  by (auto simp: scanned_def max_def)

lemma not_scanned_self: "\<not> scanned c y x (Point x y)"
  by (simp add: scanned_def)

lemma searchJoin_err_scan:
  assumes "chains_ok (cols img) y x st" "0 \<le> x" "x < cols img" "0 \<le> y"
    and "searchJoin (Point x y) img sigmaW (s_pxl2Vtx st) nw (s_graph st) (s_Vtx2pxl st) msk b f l
            (s_sinkToPxl st) (s_sourceToPxl st) = Inl e"
  shows "\<exists>s. e = StsAssert s"
proof (rule searchJoin_err[OF assms(5)])
  show "Mat_atP (s_Vtx2pxl st) (Point x y) = Point (- 1) (- 1)"
    using assms(1) not_scanned_self[of "cols img" y x] by (simp add: chains_ok_def)
next
  fix i :: int assume i: "i \<in> {0, 1, 2, 3}" and v: "nghbrVtx_of (Point x y) img (s_pxl2Vtx st) i = GC_JNT_BGD"
  then have "nghbrVtx_of (Point x y) img (s_pxl2Vtx st) i \<noteq> - 10" by (simp add: GC_JNT_BGD_def)
  from nghbr_scanned[OF assms(2,3,4) i this] v obtain q where
    "scanned (cols img) y x q" "Mat_atP (s_pxl2Vtx st) q = GC_JNT_BGD" by auto
  with assms(1) have "q \<in> set (s_sinkToPxl st)" by (auto simp: chains_ok_def)
  then show "s_sinkToPxl st \<noteq> []" by auto
next
  fix i :: int assume i: "i \<in> {0, 1, 2, 3}"
    and v: "nghbrVtx_of (Point x y) img (s_pxl2Vtx st) i < 0"
       "nghbrVtx_of (Point x y) img (s_pxl2Vtx st) i \<noteq> GC_JNT_BGD"
       "nghbrVtx_of (Point x y) img (s_pxl2Vtx st) i \<noteq> - 10"
  from nghbr_scanned[OF assms(2,3,4) i v(3)] v obtain q where
    "scanned (cols img) y x q" "Mat_atP (s_pxl2Vtx st) q < 0" "Mat_atP (s_pxl2Vtx st) q \<noteq> GC_JNT_BGD"
    by auto
  with assms(1) have "q \<in> set (s_sourceToPxl st)" by (auto simp: chains_ok_def)
  then show "s_sourceToPxl st \<noteq> []" by auto
qed

lemma chains_ok_join:
  assumes ok: "chains_ok c y x st" and r: "0 \<le> x" "x < c" "0 \<le> y"
    and p2v: "s_pxl2Vtx st' = setAtP (s_pxl2Vtx st) (Point x y) v"
    and sink: "set (s_sinkToPxl st) \<subseteq> set (s_sinkToPxl st')"
    and source: "set (s_sourceToPxl st) \<subseteq> set (s_sourceToPxl st')"
    and v1: "v = GC_JNT_BGD \<Longrightarrow> Point x y \<in> set (s_sinkToPxl st')"
    and v2: "v < 0 \<Longrightarrow> v \<noteq> GC_JNT_BGD \<Longrightarrow> Point x y \<in> set (s_sourceToPxl st')"
    and v2p: "\<And>q. q \<noteq> Point x y \<Longrightarrow> Mat_atP (s_Vtx2pxl st') q = Mat_atP (s_Vtx2pxl st) q"
    and vt: "vtcs (s_graph st) \<le> vtcs (s_graph st')"
  shows "chains_ok c y (x + 1) st'"
  unfolding chains_ok_def
proof (intro conjI allI impI)
  fix q assume a: "scanned c y (x + 1) q \<and> Mat_atP (s_pxl2Vtx st') q = GC_JNT_BGD"
  show "q \<in> set (s_sinkToPxl st')"
  proof (cases "q = Point x y")
    case True
    with a p2v v1 show ?thesis by (simp add: Mat_atP_setAtP)
  next
    case False
    with a p2v r have "scanned c y x q \<and> Mat_atP (s_pxl2Vtx st) q = GC_JNT_BGD"
      by (simp add: Mat_atP_setAtP scanned_step)
    with ok sink show ?thesis by (auto simp: chains_ok_def)
  qed
next
  fix q assume a: "scanned c y (x + 1) q \<and> Mat_atP (s_pxl2Vtx st') q < 0
      \<and> Mat_atP (s_pxl2Vtx st') q \<noteq> GC_JNT_BGD"
  show "q \<in> set (s_sourceToPxl st')"
  proof (cases "q = Point x y")
    case True
    with a p2v v2 show ?thesis by (simp add: Mat_atP_setAtP)
  next
    case False
    with a p2v r have "scanned c y x q \<and> Mat_atP (s_pxl2Vtx st) q < 0
        \<and> Mat_atP (s_pxl2Vtx st) q \<noteq> GC_JNT_BGD"
      by (simp add: Mat_atP_setAtP scanned_step)
    with ok source show ?thesis by (auto simp: chains_ok_def)
  qed
next
  fix q assume a: "\<not> scanned c y (x + 1) q"
  with r have "q \<noteq> Point x y" "\<not> scanned c y x q" by (auto simp: scanned_step)
  with ok v2p show "Mat_atP (s_Vtx2pxl st') q = Point (- 1) (- 1)" by (simp add: chains_ok_def)
next
  from ok vt show "0 \<le> vtcs (s_graph st')" by (simp add: chains_ok_def)
qed

lemma slimJoin_fields:
  assumes "slimJoin img msk b f l nw sigmaW p st = Inr st'" and "0 \<le> vtcs (s_graph st)"
  shows "\<exists>v. s_pxl2Vtx st' = setAtP (s_pxl2Vtx st) p v
           \<and> set (s_sinkToPxl st) \<subseteq> set (s_sinkToPxl st')
           \<and> set (s_sourceToPxl st) \<subseteq> set (s_sourceToPxl st')
           \<and> (v = GC_JNT_BGD \<longrightarrow> p \<in> set (s_sinkToPxl st'))
           \<and> (v < 0 \<and> v \<noteq> GC_JNT_BGD \<longrightarrow> p \<in> set (s_sourceToPxl st'))
           \<and> (\<forall>q. q \<noteq> p \<longrightarrow> Mat_atP (s_Vtx2pxl st') q = Mat_atP (s_Vtx2pxl st) q)
           \<and> vtcs (s_graph st) \<le> vtcs (s_graph st')"
  using assms
  unfolding slimJoin_def Let_def
  by (auto simp: Mat_atP_setAtP addVtx_def setFirstP_def addTermWeights_def GC_JNT_BGD_def GC_JNT_FGD_def
           BV_NO_VTX_FOUND_def
           split: if_splits sum.splits prod.splits)

lemma slimJoin_err:
  assumes "slimJoin img msk b f l nw sigmaW (Point x y) st = Inl e"
    and "chains_ok (cols img) y x st" "0 \<le> x" "x < cols img" "0 \<le> y"
  shows "\<exists>s. e = StsAssert s"
  using assms(1) searchJoin_err_scan[OF assms(2-5), of sigmaW nw msk b f l]
  unfolding slimJoin_def Let_def
  by (auto split: if_splits sum.splits prod.splits dest: negLogP_err getW_err)

lemma slimEdge_frame:
  "s_pxl2Vtx (slimEdge vtx w n st) = s_pxl2Vtx st"
  "s_Vtx2pxl (slimEdge vtx w n st) = s_Vtx2pxl st"
  "s_sinkToPxl (slimEdge vtx w n st) = s_sinkToPxl st"
  "s_sourceToPxl (slimEdge vtx w n st) = s_sourceToPxl st"
  "vtcs (s_graph (slimEdge vtx w n st)) = vtcs (s_graph st)"
  by (simp_all add: slimEdge_def addWeight_def addEdges_def addTermWeights_def Let_def)

lemma slimEdges_frame:
  "s_pxl2Vtx (slimEdges img nw p st) = s_pxl2Vtx st"
  "s_Vtx2pxl (slimEdges img nw p st) = s_Vtx2pxl st"
  "s_sinkToPxl (slimEdges img nw p st) = s_sinkToPxl st"
  "s_sourceToPxl (slimEdges img nw p st) = s_sourceToPxl st"
  "vtcs (s_graph (slimEdges img nw p st)) = vtcs (s_graph st)"
  by (simp_all add: slimEdges_def slimEdge_frame Let_def)

lemma chains_ok_edges: "chains_ok c y x (slimEdges img nw p st) = chains_ok c y x st"
  by (simp add: chains_ok_def slimEdges_frame)

lemma slimPixel_step:
  assumes ok: "chains_ok (cols img) y x st" and r: "0 \<le> x" "x < cols img" "0 \<le> y"
  shows "slimPixel img msk b f l nw sigmaW (Point x y) st = Inl e \<Longrightarrow> \<exists>s. e = StsAssert s"
    and "slimPixel img msk b f l nw sigmaW (Point x y) st = Inr st' \<Longrightarrow> chains_ok (cols img) y (x + 1) st'"
proof -
  assume "slimPixel img msk b f l nw sigmaW (Point x y) st = Inl e"
  then have "slimJoin img msk b f l nw sigmaW (Point x y) st = Inl e"
    by (simp add: slimPixel_def split: sum.splits)
  from slimJoin_err[OF this ok r] show "\<exists>s. e = StsAssert s" .
next
  assume "slimPixel img msk b f l nw sigmaW (Point x y) st = Inr st'"
  then obtain st1 where j: "slimJoin img msk b f l nw sigmaW (Point x y) st = Inr st1"
    and e: "st' = slimEdges img nw (Point x y) st1"
    by (auto simp: slimPixel_def split: sum.splits)
  from ok have "0 \<le> vtcs (s_graph st)" by (simp add: chains_ok_def)
  from slimJoin_fields[OF j this] obtain v where
    f: "s_pxl2Vtx st1 = setAtP (s_pxl2Vtx st) (Point x y) v"
       "set (s_sinkToPxl st) \<subseteq> set (s_sinkToPxl st1)"
       "set (s_sourceToPxl st) \<subseteq> set (s_sourceToPxl st1)"
       "v = GC_JNT_BGD \<longrightarrow> Point x y \<in> set (s_sinkToPxl st1)"
       "v < 0 \<and> v \<noteq> GC_JNT_BGD \<longrightarrow> Point x y \<in> set (s_sourceToPxl st1)"
       "\<forall>q. q \<noteq> Point x y \<longrightarrow> Mat_atP (s_Vtx2pxl st1) q = Mat_atP (s_Vtx2pxl st) q"
       "vtcs (s_graph st) \<le> vtcs (s_graph st1)"
    by blast
  have "chains_ok (cols img) y (x + 1) st1"
  proof (rule chains_ok_join[OF ok r f(1,2,3)])
    show "v = GC_JNT_BGD \<Longrightarrow> Point x y \<in> set (s_sinkToPxl st1)" using f(4) by simp
    show "v < 0 \<Longrightarrow> v \<noteq> GC_JNT_BGD \<Longrightarrow> Point x y \<in> set (s_sourceToPxl st1)" using f(5) by simp
    show "\<And>q. q \<noteq> Point x y \<Longrightarrow> Mat_atP (s_Vtx2pxl st1) q = Mat_atP (s_Vtx2pxl st) q"
      using f(6) by simp
    show "vtcs (s_graph st) \<le> vtcs (s_graph st1)" by (rule f(7))
  qed
  with e show "chains_ok (cols img) y (x + 1) st'" by (simp add: chains_ok_edges)
qed

lemma slim_row:
  assumes ok: "chains_ok (cols img) y 0 st" and y: "0 \<le> y"
  shows "forLoopE 0 (cols img) (\<lambda>x. slimPixel img msk b f l nw sigmaW (Point x y)) st = Inl e
           \<Longrightarrow> \<exists>s. e = StsAssert s"
    and "forLoopE 0 (cols img) (\<lambda>x. slimPixel img msk b f l nw sigmaW (Point x y)) st = Inr st'
           \<Longrightarrow> chains_ok (cols img) (y + 1) 0 st'"
proof -
  have step: "\<And>j t t'. 0 \<le> j \<Longrightarrow> j < cols img \<Longrightarrow> chains_ok (cols img) y j t
      \<Longrightarrow> slimPixel img msk b f l nw sigmaW (Point j y) t = Inr t' \<Longrightarrow> chains_ok (cols img) y (j + 1) t'"
  proof -
    fix j t t'
    assume a: "0 \<le> j" "j < cols img" "chains_ok (cols img) y j t"
      "slimPixel img msk b f l nw sigmaW (Point j y) t = Inr t'"
    from slimPixel_step(2)[OF a(3,1,2) y a(4)] show "chains_ok (cols img) y (j + 1) t'" .
  qed
  {
    assume "forLoopE 0 (cols img) (\<lambda>x. slimPixel img msk b f l nw sigmaW (Point x y)) st = Inl e"
    then have "\<exists>j t. 0 \<le> j \<and> j < cols img \<and> chains_ok (cols img) y j t
        \<and> slimPixel img msk b f l nw sigmaW (Point j y) t = Inl e"
      by (rule forLoopE_err_idx[where I = "chains_ok (cols img) y"
            and body = "\<lambda>x. slimPixel img msk b f l nw sigmaW (Point x y)", OF _ ok step])
    then obtain j t where jt: "0 \<le> j" "j < cols img" "chains_ok (cols img) y j t"
      "slimPixel img msk b f l nw sigmaW (Point j y) t = Inl e" by (elim exE conjE)
    from slimPixel_step(1)[OF jt(3,1,2) y jt(4)] show "\<exists>s. e = StsAssert s" .
  }
  {
    assume "forLoopE 0 (cols img) (\<lambda>x. slimPixel img msk b f l nw sigmaW (Point x y)) st = Inr st'"
    then have "chains_ok (cols img) y (max 0 (cols img)) st'"
      by (rule forLoopE_inv_max[where I = "chains_ok (cols img) y"
            and body = "\<lambda>x. slimPixel img msk b f l nw sigmaW (Point x y)", OF _ ok step])
    then show "chains_ok (cols img) (y + 1) 0 st'"
      by (simp add: chains_ok_def scanned_row)
  }
qed

lemma chains_ok_init: "chains_ok c 0 0 (slimInit img p2v)"
  by (auto simp: chains_ok_def scanned_def slimInit_def Let_def graph_create_def Mat_atP_def create_sel)

lemma slim_scan:
  shows "forPixelsE (rows img) (cols img) (slimPixel img msk b f l nw sigmaW) (slimInit img p2v) = Inl e
           \<Longrightarrow> \<exists>s. e = StsAssert s"
    and "forPixelsE (rows img) (cols img) (slimPixel img msk b f l nw sigmaW) (slimInit img p2v) = Inr st'
           \<Longrightarrow> chains_ok (cols img) (max 0 (rows img)) 0 st'"
proof -
  have step: "\<And>j t t'. 0 \<le> j \<Longrightarrow> j < rows img \<Longrightarrow> chains_ok (cols img) j 0 t
      \<Longrightarrow> forLoopE 0 (cols img) (\<lambda>x. slimPixel img msk b f l nw sigmaW (Point x j)) t = Inr t'
      \<Longrightarrow> chains_ok (cols img) (j + 1) 0 t'"
  proof -
    fix j t t'
    assume a: "0 \<le> j" "j < rows img" "chains_ok (cols img) j 0 t"
      "forLoopE 0 (cols img) (\<lambda>x. slimPixel img msk b f l nw sigmaW (Point x j)) t = Inr t'"
    from slim_row(2)[OF a(3,1,4)] show "chains_ok (cols img) (j + 1) 0 t'" .
  qed
  {
    assume "forPixelsE (rows img) (cols img) (slimPixel img msk b f l nw sigmaW) (slimInit img p2v) = Inl e"
    then have "forLoopE 0 (rows img) (\<lambda>y. forLoopE 0 (cols img)
          (\<lambda>x. slimPixel img msk b f l nw sigmaW (Point x y))) (slimInit img p2v) = Inl e"
      by (simp add: forPixelsE_def)
    then have "\<exists>j t. 0 \<le> j \<and> j < rows img \<and> chains_ok (cols img) j 0 t
        \<and> forLoopE 0 (cols img) (\<lambda>x. slimPixel img msk b f l nw sigmaW (Point x j)) t = Inl e"
      by (rule forLoopE_err_idx[where I = "\<lambda>y. chains_ok (cols img) y 0"
            and body = "\<lambda>y. forLoopE 0 (cols img) (\<lambda>x. slimPixel img msk b f l nw sigmaW (Point x y))",
            OF _ chains_ok_init step])
    then obtain j t where jt: "0 \<le> j" "chains_ok (cols img) j 0 t"
      "forLoopE 0 (cols img) (\<lambda>x. slimPixel img msk b f l nw sigmaW (Point x j)) t = Inl e"
      by (elim exE conjE)
    from slim_row(1)[OF jt(2,1,3)] show "\<exists>s. e = StsAssert s" .
  }
  {
    assume "forPixelsE (rows img) (cols img) (slimPixel img msk b f l nw sigmaW) (slimInit img p2v) = Inr st'"
    then have "forLoopE 0 (rows img) (\<lambda>y. forLoopE 0 (cols img)
          (\<lambda>x. slimPixel img msk b f l nw sigmaW (Point x y))) (slimInit img p2v) = Inr st'"
      by (simp add: forPixelsE_def)
    then show "chains_ok (cols img) (max 0 (rows img)) 0 st'"
      by (rule forLoopE_inv_max[where I = "\<lambda>y. chains_ok (cols img) y 0"
            and body = "\<lambda>y. forLoopE 0 (cols img) (\<lambda>x. slimPixel img msk b f l nw sigmaW (Point x y))",
            OF _ chains_ok_init step])
  }
qed

text \<open>
  Claim C10.  The model turns an out-of-range subscript of a chain (which is what the
  underflow of \<^verbatim>\<open>size() - 1\<close> on an empty chain leads to) into the error
  \<^verbatim>\<open>VectorOutOfRange\<close>, and a chain walk of \<^verbatim>\<open>slimSumW\<close> that never exits into
  \<^verbatim>\<open>NonTermination\<close>.  For every input, \<^verbatim>\<open>constructGCGraph_slim\<close> yields neither; the only
  errors are failed assertions of the mixtures.  When it returns, every pixel of the image
  that \<open>pxl2Vtx\<close> maps to a terminal sentinel is in the matching chain: each write of a
  sentinel appended the pixel.  So whenever \<^verbatim>\<open>searchJoin\<close> meets a neighbour joined to a
  terminal, the chain of that terminal is not empty.
\<close>

theorem chains_never_underflow:
  "case constructGCGraph_slim img msk bgdGMM fgdGMM lambda nw pxl2Vtx of
     Inl e \<Rightarrow> e \<noteq> VectorOutOfRange \<and> e \<noteq> NonTermination
   | Inr st \<Rightarrow> chains_ok (cols img) (max 0 (rows img)) 0 st"
proof (cases "initSigmaW img msk bgdGMM fgdGMM (create (rows img) (cols img) CV_64FC1 6) nw lambda")
  case (Inl e)
  from initSigmaW_err[OF Inl] Inl show ?thesis
    by (auto simp: constructGCGraph_slim_def)
next
  case (Inr sigmaW)
  show ?thesis
  proof (cases "forPixelsE (rows img) (cols img) (slimPixel img msk bgdGMM fgdGMM lambda nw sigmaW)
                  (slimInit img pxl2Vtx)")
    case (Inl e)
    from slim_scan(1)[OF Inl] Inl Inr show ?thesis
      by (auto simp: constructGCGraph_slim_def)
  next
    case r: (Inr st)
    from slim_scan(2)[OF r] r Inr show ?thesis
      by (simp add: constructGCGraph_slim_def)
  qed
qed

lemma ex_st3_fields:
  "Mat_atP (s_pxl2Vtx ex_st3) (Point 1 0) = GC_JNT_BGD"
  "s_sinkToPxl ex_st3 = [Point 0 0, Point 1 0]"
  "s_sourceToPxl ex_st3 = [Point 2 0]"
  "Mat_atP (s_pxl2Vtx ex_st3) (Point 2 0) = GC_JNT_FGD"
  by (simp_all add: ex_st3_def ex_st2_def ex_st1_def ex_p2v1_def Mat_atP_setAtP)

text \<open>An instance of claim C10: the scan of the three-pixel example.\<close>

theorem chains_never_underflow_witness:
  "constructGCGraph_slim (ex_img 1 3) ex_mask (ex_gmm (exp (- 2))) (ex_gmm (exp (- 1))) 450 (ex_nw 3)
        (create 1 3 CV_32SC1 0) = Inr ex_st3
   \<and> scanned (cols (ex_img 1 3)) (max 0 (rows (ex_img 1 3))) 0 (Point 1 0)
   \<and> Mat_atP (s_pxl2Vtx ex_st3) (Point 1 0) = GC_JNT_BGD
   \<and> Point 1 0 \<in> set (s_sinkToPxl ex_st3)
   \<and> scanned (cols (ex_img 1 3)) (max 0 (rows (ex_img 1 3))) 0 (Point 2 0)
   \<and> Mat_atP (s_pxl2Vtx ex_st3) (Point 2 0) = GC_JNT_FGD
   \<and> Point 2 0 \<in> set (s_sourceToPxl ex_st3)"
  using chains_never_underflow[of "ex_img 1 3" ex_mask "ex_gmm (exp (- 2))" "ex_gmm (exp (- 1))" 450
      "ex_nw 3" "create 1 3 CV_32SC1 0"]
  by (simp add: constructGCGraph_slim_ex3 ex_st3_fields scanned_def rows_ex cols_ex)

text \<open>
  Where the source and the specification agree: a rectangle whose origin lies in the
  image (or on its right or bottom edge) and whose width and height are not negative.
\<close>

lemma initMaskWithRect_refines:
  assumes "0 \<le> rect_x rect" "rect_x rect \<le> size_width sz"
    and "0 \<le> rect_y rect" "rect_y rect \<le> size_height sz"
    and "0 \<le> rect_width rect" "0 \<le> rect_height rect"
  shows "initMaskWithRect sz rect = Inr (initMaskWithRect_spec sz rect)"
  using assms
  by (auto simp: initMaskWithRect_def initMaskWithRect_spec_def setTo_roi_def roi_ok_def
      clipRect_def clip_spec_def inRect_def create_def Let_def fun_eq_iff min_def max_def)

text \<open>
  The source raises exactly when the limited width or height is negative: the origin lies
  beyond the right or the bottom edge, or the given width or height is negative.
\<close>

lemma initMaskWithRect_raises:
  "(\<exists>e. initMaskWithRect sz rect = Inl e) \<longleftrightarrow>
     (rect_width rect < 0 \<or> size_width sz < max 0 (rect_x rect)
      \<or> rect_height rect < 0 \<or> size_height sz < max 0 (rect_y rect))"
  by (auto simp: initMaskWithRect_def setTo_roi_def roi_ok_def clipRect_def create_def Let_def
      min_def max_def)

text \<open>
  When the source returns, the mask is PR_FG in the rectangle with the raised origin and
  the limited extent, which starts at column 0 for every negative \<open>rect.x\<close>, and BG
  elsewhere.
\<close>

lemma initMaskWithRect_result:
  "initMaskWithRect sz rect = Inr m \<Longrightarrow>
   rows m = size_height sz \<and> cols m = size_width sz \<and>
   Mat_at m y x = (if inRect (clipRect sz rect) y x then GC_PR_FGD else GC_BGD)"
  by (auto simp: initMaskWithRect_def setTo_roi_def create_def Mat_at_def Let_def
      split: if_splits)

text \<open>
  Claim C8.  The source does not clip the rectangle to the image.  The rectangle
  \<open>(x = -10, y = 0, width = 5, height = 5)\<close> lies entirely to the left of an 8 x 8 image:
  the source sets the 25 pixels of the columns and rows 0 to 4 to PR_FG, where the
  clipped rectangle is empty and the mask of the specification is BG everywhere.  The
  rectangle \<open>(-2, 0, 4, 4)\<close> meets the image in the columns 0 and 1: the source also sets
  the columns 2 and 3.  For the rectangle \<open>(20, 0, 5, 5)\<close>, entirely to the right of the
  image, the limited width is \<open>8 - 20 = -12\<close> and the source raises where the specification
  gives the mask that is BG everywhere.
\<close>

theorem initMaskWithRect_misses_clip:
  "initMaskWithRect (Size 8 8) (Rect (- 10) 0 5 5)
     = Inr \<lparr>rows = 8, cols = 8, mtype = CV_8UC1,
            elems = (\<lambda>y x. if 0 \<le> x \<and> x < 5 \<and> 0 \<le> y \<and> y < 5 then GC_PR_FGD else GC_BGD)\<rparr>
   \<and> initMaskWithRect_spec (Size 8 8) (Rect (- 10) 0 5 5) = create 8 8 CV_8UC1 GC_BGD
   \<and> GC_PR_FGD \<noteq> GC_BGD
   \<and> initMaskWithRect (Size 8 8) (Rect (- 2) 0 4 4)
     = Inr \<lparr>rows = 8, cols = 8, mtype = CV_8UC1,
            elems = (\<lambda>y x. if 0 \<le> x \<and> x < 4 \<and> 0 \<le> y \<and> y < 4 then GC_PR_FGD else GC_BGD)\<rparr>
   \<and> initMaskWithRect_spec (Size 8 8) (Rect (- 2) 0 4 4)
     = \<lparr>rows = 8, cols = 8, mtype = CV_8UC1,
        elems = (\<lambda>y x. if 0 \<le> x \<and> x < 2 \<and> 0 \<le> y \<and> y < 4 then GC_PR_FGD else GC_BGD)\<rparr>
   \<and> initMaskWithRect (Size 8 8) (Rect 20 0 5 5)
     = Inl (StsAssert ''0 <= roi.x && 0 <= roi.width && roi.x + roi.width <= m.cols && 0 <= roi.y && 0 <= roi.height && roi.y + roi.height <= m.rows'')
   \<and> initMaskWithRect_spec (Size 8 8) (Rect 20 0 5 5) = create 8 8 CV_8UC1 GC_BGD"
  by (simp add: initMaskWithRect_def initMaskWithRect_spec_def setTo_roi_def roi_ok_def
      clipRect_def clip_spec_def inRect_def create_def GC_PR_FGD_def GC_BGD_def fun_eq_iff)

lemma ctor_loop_err:
  assumes "forLoopE 0 componentsCount
          (\<lambda>ci g. if coefs g ci > 0 then calcInverseCovAndDeterm ci g else Inr g) g0 = Inl e"
  shows "\<exists>s. e = StsAssert s"
proof -
  from forLoopE_err[where P = "\<lambda>_. True", OF assms]
  obtain j t where "(if coefs t j > 0 then calcInverseCovAndDeterm j t else Inr t) = Inl e"
    by auto
  then show ?thesis by (auto split: if_splits dest: calc_error)
qed

lemma GMM_ctor_empty:
  assumes "empty_Mat m"
  shows "GMM_ctor m = Inr (GMM_init (create 1 65 CV_64FC1 0))"
  using assms
  by (simp add: GMM_ctor_def componentsCount_def forLoopE_unroll coefs_def GMM_init_def create_sel
      Mat_at_def)

lemma GMM_ctor_badarg:
  "(GMM_ctor m = Inl (StsBadArg s)) =
     (\<not> empty_Mat m \<and> (mtype m \<noteq> CV_64FC1 \<or> rows m \<noteq> 1 \<or> cols m \<noteq> 65)
      \<and> s = ''_model must have CV_64FC1 type, rows == 1 and cols == 13*componentsCount'')"
proof (cases "empty_Mat m")
  case True
  then show ?thesis by (simp add: GMM_ctor_empty)
next
  case False
  show ?thesis
  proof (cases "mtype m \<noteq> CV_64FC1 \<or> rows m \<noteq> 1 \<or> cols m \<noteq> 65")
    case True
    with False show ?thesis by (auto simp: GMM_ctor_def componentsCount_def)
  next
    case ok: False
    have "GMM_ctor m \<noteq> Inl (StsBadArg s)"
    proof
      assume a: "GMM_ctor m = Inl (StsBadArg s)"
      with False ok have "forLoopE 0 componentsCount
          (\<lambda>ci g. if coefs g ci > 0 then calcInverseCovAndDeterm ci g else Inr g) (GMM_init m)
          = Inl (StsBadArg s)"
        by (simp add: GMM_ctor_def componentsCount_def)
      from ctor_loop_err[OF this] show False by simp
    qed
    with False ok show ?thesis by simp
  qed
qed

lemma whichComponent_err:
  assumes "whichComponent g c = Inl e"
  shows "\<exists>s. e = StsAssert s"
proof -
  from assms have "forLoopE 0 componentsCount
             (\<lambda>ci (k, mx). case GMM_operator_ci g ci c of
                               Inl e \<Rightarrow> Inl e
                             | Inr p \<Rightarrow> if p > mx then Inr (ci, p) else Inr (k, mx))
             (0, 0) = Inl e"
    by (auto simp: whichComponent_def split: sum.splits)
  from forLoopE_err[where P = "\<lambda>_. True", OF this]
  obtain j t where "(case t of (k, mx) \<Rightarrow> (case GMM_operator_ci g j c of
                               Inl e \<Rightarrow> Inl e
                             | Inr p \<Rightarrow> if p > mx then Inr (j, p) else Inr (k, mx))) = Inl e"
    by auto
  then show ?thesis by (auto split: prod.splits sum.splits if_splits dest: op_ci_err)
qed

lemma assignGMMsComponents_err:
  assumes "assignGMMsComponents img msk b f ci = Inl e"
  shows "\<exists>s. e = StsAssert s"
proof -
  from forPixelsE_err[OF assms[unfolded assignGMMsComponents_def]]
  obtain p t where bd: "(let color = toVec3d (Mat_atP img p) in
          case (if isBgdLabel (Mat_atP msk p)
                then whichComponent b color else whichComponent f color) of
            Inl e \<Rightarrow> Inl e
          | Inr k \<Rightarrow> Inr (setAtP t p k)) = Inl e" by blast
  show ?thesis
  proof (cases "isBgdLabel (Mat_atP msk p)")
    case True
    with bd have "whichComponent b (toVec3d (Mat_atP img p)) = Inl e"
      by (cases "whichComponent b (toVec3d (Mat_atP img p))") (simp_all add: Let_def)
    then show ?thesis by (rule whichComponent_err)
  next
    case False
    with bd have "whichComponent f (toVec3d (Mat_atP img p)) = Inl e"
      by (cases "whichComponent f (toVec3d (Mat_atP img p))") (simp_all add: Let_def)
    then show ?thesis by (rule whichComponent_err)
  qed
qed

lemma endLearning_ci_err:
  assumes "endLearning_ci ci g = Inl e"
  shows "\<exists>s. e = StsAssert s"
proof -
  from assms obtain g' where "calcInverseCovAndDeterm ci g' = Inl e"
    unfolding endLearning_ci_def Let_def by (auto split: if_splits)
  then show ?thesis by (rule calc_error)
qed

lemma endLearning_err:
  assumes "endLearning g = Inl e"
  shows "\<exists>s. e = StsAssert s"
proof -
  from forLoopE_err[where P = "\<lambda>_. True", OF assms[unfolded endLearning_def]]
  show ?thesis by (auto dest: endLearning_ci_err)
qed

lemma learnGMMs_err:
  assumes "learnGMMs img msk ci b f = Inl e"
  shows "\<exists>s. e = StsAssert s"
  using assms unfolding learnGMMs_def
  by (auto split: prod.splits sum.splits dest: endLearning_err)

lemma constructGCGraph_slim_err:
  assumes "constructGCGraph_slim img msk b f l nw p2v = Inl e"
  shows "\<exists>s. e = StsAssert s"
  using assms unfolding constructGCGraph_slim_def
  by (auto split: sum.splits dest: initSigmaW_err slim_scan(1))

lemma constructGCGraph_err:
  assumes "constructGCGraph img msk b f l nw = Inl e"
  shows "\<exists>s. e = StsAssert s"
  using forPixelsE_err[OF assms[unfolded constructGCGraph_def Let_def]]
  apply (elim exE)
  subgoal for p t
    apply (cases "tWeights img msk b f l p")
     apply (auto split: prod.splits dest: tWeights_err)
    done
  done

lemma slimIteration_err:
  assumes "slimIteration iss img l nw st = Inl e"
  shows "\<exists>s. e = StsAssert s"
  using assms unfolding slimIteration_def
  by (auto split: sum.splits prod.splits
      dest: assignGMMsComponents_err learnGMMs_err constructGCGraph_slim_err constructGCGraph_err)

lemma iterations_err:
  assumes "forLoopE 0 n (\<lambda>i. slimIteration iss img l nw) st = Inl e"
  shows "\<exists>s. e = StsAssert s"
proof -
  from forLoopE_err[where P = "\<lambda>_. True", OF assms]
  show ?thesis by (auto dest: slimIteration_err)
qed


lemma checkMask_err:
  assumes "checkMask img msk = Inl e"
  shows "e = StsBadArg ''mask is empty'' \<or> e = StsBadArg ''mask must have CV_8UC1 type''
       \<or> e = StsBadArg ''mask must have as many rows and cols as img''
       \<or> e = StsBadArg ''mask element value must be equelGC_BGD or GC_FGD or GC_PR_BGD or GC_PR_FGD''"
proof (cases "empty_Mat msk \<or> mtype msk \<noteq> CV_8UC1 \<or> cols msk \<noteq> cols img \<or> rows msk \<noteq> rows img")
  case True
  with assms show ?thesis by (auto simp: checkMask_def split: if_splits)
next
  case False
  with assms have "forPixelsE (rows msk) (cols msk)
        (\<lambda>p u. let val = Mat_atP msk p in
           if val \<noteq> GC_BGD \<and> val \<noteq> GC_FGD \<and> val \<noteq> GC_PR_BGD \<and> val \<noteq> GC_PR_FGD
           then Inl (StsBadArg ''mask element value must be equelGC_BGD or GC_FGD or GC_PR_BGD or GC_PR_FGD'')
           else Inr u) () = Inl e"
    by (simp add: checkMask_def)
  from forPixelsE_err[OF this] show ?thesis
    by (auto simp: Let_def split: if_splits)
qed

lemma grabCut_slim_zero:
  assumes "\<not> empty_Mat img" and "mtype img = CV_8UC3"
    and "mode \<noteq> GC_INIT_WITH_RECT" and "mode \<noteq> GC_INIT_WITH_MASK"
    and "GMM_ctor bgdModel = Inr b" and "GMM_ctor fgdModel = Inr f"
    and "iterCount \<le> 0"
  shows "grabCut_slim kmeans iss img msk rect bgdModel fgdModel iterCount mode
           = Inr (msk, model b, model f)"
  using assms by (simp add: grabCut_slim_def)

lemma grabCut_slim_eval_err:
  assumes "\<not> empty_Mat img" and "mtype img = CV_8UC3"
    and "mode \<noteq> GC_INIT_WITH_RECT" and "mode \<noteq> GC_INIT_WITH_MASK"
    and "GMM_ctor bgdModel = Inr b" and "GMM_ctor fgdModel = Inr f"
    and "grabCut_slim kmeans iss img msk rect bgdModel fgdModel iterCount mode = Inl e"
  shows "0 < iterCount \<and> ((mode = GC_EVAL \<and> checkMask img msk = Inl e) \<or> (\<exists>s. e = StsAssert s))"
proof (cases "iterCount \<le> 0")
  case True
  from grabCut_slim_zero[OF assms(1-6) True] assms(7) show ?thesis by simp
next
  case False
  show ?thesis
  proof (cases "mode = GC_EVAL \<and> (\<exists>e'. checkMask img msk = Inl e')")
    case True
    with assms False show ?thesis by (auto simp: grabCut_slim_def)
  next
    case ok: False
    then have c: "(if mode = GC_EVAL then checkMask img msk else Inr ()) = Inr ()"
      by (cases "checkMask img msk") auto
    from assms False
    have "forLoopE 0 iterCount
            (\<lambda>i. slimIteration iss img (9 * 50) (calcNWeights img (calcBeta img) 50))
            \<lparr>i_mask = msk, i_bgdGMM = b, i_fgdGMM = f,
             i_compIdxs = create (rows img) (cols img) CV_32SC1 0,
             i_pxl2Vtx = create (rows img) (cols img) CV_32SC1 0\<rparr> = Inl e"
      by (simp add: grabCut_slim_def c Let_def split: sum.splits)
    from iterations_err[OF this] False show ?thesis by simp
  qed
qed

text \<open>
  Claim C6 (amended).  The constructor of a GMM accepts an empty parameter buffer: it
  allocates a buffer of one row and 65 columns filled with 0 (no active component) and
  raises nothing.  The argument error on the model is raised exactly for a buffer that is
  not empty and has another type, another number of rows or another number of columns.
  So a call of the entry point with two empty buffers and a mode that does not initialise
  the models (on an image that is accepted) is not rejected: with \<open>iterCount \<le> 0\<close> it
  returns, the buffers being the zero-filled ones; with \<open>iterCount > 0\<close> every error that
  it raises is the rejection of the mask by \<^verbatim>\<open>checkMask\<close> (mode \<^verbatim>\<open>GC_EVAL\<close>) or a failed
  assertion, never the argument error on the model.
\<close>

theorem empty_model_accepted:
  "(empty_Mat m \<longrightarrow> GMM_ctor m = Inr (GMM_init (create 1 65 CV_64FC1 0)))
   \<and> ((\<exists>s. GMM_ctor m = Inl (StsBadArg s))
        = (\<not> empty_Mat m \<and> (mtype m \<noteq> CV_64FC1 \<or> rows m \<noteq> 1 \<or> cols m \<noteq> 65)))
   \<and> (empty_Mat bgdModel \<and> empty_Mat fgdModel
        \<and> mode \<noteq> GC_INIT_WITH_RECT \<and> mode \<noteq> GC_INIT_WITH_MASK
        \<and> \<not> empty_Mat img \<and> mtype img = CV_8UC3 \<longrightarrow>
          (iterCount \<le> 0 \<longrightarrow>
             grabCut_slim kmeans iss img msk rect bgdModel fgdModel iterCount mode
               = Inr (msk, create 1 65 CV_64FC1 0, create 1 65 CV_64FC1 0))
        \<and> (\<forall>e. grabCut_slim kmeans iss img msk rect bgdModel fgdModel iterCount mode = Inl e \<longrightarrow>
               0 < iterCount
               \<and> ((mode = GC_EVAL \<and> checkMask img msk = Inl e) \<or> (\<exists>s. e = StsAssert s)))
        \<and> grabCut_slim kmeans iss img msk rect bgdModel fgdModel iterCount mode
             \<noteq> Inl (StsBadArg ''_model must have CV_64FC1 type, rows == 1 and cols == 13*componentsCount''))"
proof (intro conjI impI allI)
  assume "empty_Mat m"
  then show "GMM_ctor m = Inr (GMM_init (create 1 65 CV_64FC1 0))" by (rule GMM_ctor_empty)
next
  show "(\<exists>s. GMM_ctor m = Inl (StsBadArg s))
        = (\<not> empty_Mat m \<and> (mtype m \<noteq> CV_64FC1 \<or> rows m \<noteq> 1 \<or> cols m \<noteq> 65))"
    by (auto simp: GMM_ctor_badarg)
next
  assume a: "empty_Mat bgdModel \<and> empty_Mat fgdModel
        \<and> mode \<noteq> GC_INIT_WITH_RECT \<and> mode \<noteq> GC_INIT_WITH_MASK
        \<and> \<not> empty_Mat img \<and> mtype img = CV_8UC3"
  assume "iterCount \<le> 0"
  with a show "grabCut_slim kmeans iss img msk rect bgdModel fgdModel iterCount mode
               = Inr (msk, create 1 65 CV_64FC1 0, create 1 65 CV_64FC1 0)"
    using grabCut_slim_zero[of img mode bgdModel "GMM_init (create 1 65 CV_64FC1 0)" fgdModel
        "GMM_init (create 1 65 CV_64FC1 0)" iterCount kmeans iss msk rect]
    by (simp add: GMM_ctor_empty GMM_init_def)
next
  fix e
  assume a: "empty_Mat bgdModel \<and> empty_Mat fgdModel
        \<and> mode \<noteq> GC_INIT_WITH_RECT \<and> mode \<noteq> GC_INIT_WITH_MASK
        \<and> \<not> empty_Mat img \<and> mtype img = CV_8UC3"
  assume e: "grabCut_slim kmeans iss img msk rect bgdModel fgdModel iterCount mode = Inl e"
  from a have b: "GMM_ctor bgdModel = Inr (GMM_init (create 1 65 CV_64FC1 0))"
    and f: "GMM_ctor fgdModel = Inr (GMM_init (create 1 65 CV_64FC1 0))"
    by (simp_all add: GMM_ctor_empty)
  from a have i: "\<not> empty_Mat img" "mtype img = CV_8UC3" "mode \<noteq> GC_INIT_WITH_RECT"
      "mode \<noteq> GC_INIT_WITH_MASK" by simp_all
  from grabCut_slim_eval_err[OF i b f e]
  show "0 < iterCount" and "(mode = GC_EVAL \<and> checkMask img msk = Inl e) \<or> (\<exists>s. e = StsAssert s)"
    by simp_all
next
  assume a: "empty_Mat bgdModel \<and> empty_Mat fgdModel
        \<and> mode \<noteq> GC_INIT_WITH_RECT \<and> mode \<noteq> GC_INIT_WITH_MASK
        \<and> \<not> empty_Mat img \<and> mtype img = CV_8UC3"
  from a have b: "GMM_ctor bgdModel = Inr (GMM_init (create 1 65 CV_64FC1 0))"
    and f: "GMM_ctor fgdModel = Inr (GMM_init (create 1 65 CV_64FC1 0))"
    by (simp_all add: GMM_ctor_empty)
  from a have i: "\<not> empty_Mat img" "mtype img = CV_8UC3" "mode \<noteq> GC_INIT_WITH_RECT"
      "mode \<noteq> GC_INIT_WITH_MASK" by simp_all
  show "grabCut_slim kmeans iss img msk rect bgdModel fgdModel iterCount mode
             \<noteq> Inl (StsBadArg ''_model must have CV_64FC1 type, rows == 1 and cols == 13*componentsCount'')"
  proof
    assume e: "grabCut_slim kmeans iss img msk rect bgdModel fgdModel iterCount mode
             = Inl (StsBadArg ''_model must have CV_64FC1 type, rows == 1 and cols == 13*componentsCount'')"
    from grabCut_slim_eval_err[OF i b f e]
    have "checkMask img msk
            = Inl (StsBadArg ''_model must have CV_64FC1 type, rows == 1 and cols == 13*componentsCount'')"
      by simp
    from checkMask_err[OF this] show False by simp
  qed
qed

text \<open>
  An instance of the amended claim C6: a black image of one pixel, two empty buffers, mode
  \<^verbatim>\<open>GC_EVAL\<close>, no iteration.
\<close>

theorem empty_model_accepted_witness:
  "empty_Mat (create 0 0 CV_64FC1 (0::real))
   \<and> GMM_ctor (create 0 0 CV_64FC1 0) = Inr (GMM_init (create 1 65 CV_64FC1 0))
   \<and> GC_EVAL \<noteq> GC_INIT_WITH_RECT \<and> GC_EVAL \<noteq> GC_INIT_WITH_MASK
   \<and> \<not> empty_Mat (ex_img 1 1) \<and> mtype (ex_img 1 1) = CV_8UC3
   \<and> grabCut_slim (\<lambda>s i. 0) (\<lambda>g v. False) (ex_img 1 1) (create 1 1 CV_8UC1 GC_PR_FGD) (Rect 0 0 1 1)
        (create 0 0 CV_64FC1 0) (create 0 0 CV_64FC1 0) 0 GC_EVAL
      = Inr (create 1 1 CV_8UC1 GC_PR_FGD, create 1 65 CV_64FC1 0, create 1 65 CV_64FC1 0)"
  using empty_model_accepted[of "create 0 0 CV_64FC1 0" "create 0 0 CV_64FC1 0" "create 0 0 CV_64FC1 0"
      GC_EVAL "ex_img 1 1" 0 "\<lambda>s i. 0" "\<lambda>g v. False" "create 1 1 CV_8UC1 GC_PR_FGD" "Rect 0 0 1 1"]
  by (simp add: empty_Mat_def create_sel ex_img_def GC_EVAL_def GC_INIT_WITH_RECT_def
      GC_INIT_WITH_MASK_def)

text \<open>
  The claim as stated fails: on the black image of three pixels with the mask BG, PR_FG,
  FG, two empty model buffers and mode \<^verbatim>\<open>GC_EVAL\<close>, the call with \<open>iterCount = 0\<close> returns
  (the mask unchanged, the buffers allocated and zero-filled), and the call with
  \<open>iterCount = 1\<close> does not raise the argument error on the model.
\<close>

theorem empty_model_eval_counterexample:
  "empty_Mat (create 0 0 CV_64FC1 (0::real))
   \<and> GC_EVAL \<noteq> GC_INIT_WITH_RECT \<and> GC_EVAL \<noteq> GC_INIT_WITH_MASK
   \<and> grabCut_slim (\<lambda>s i. 0) (\<lambda>g v. False) (ex_img 1 3) ex_mask (Rect 0 0 0 0)
        (create 0 0 CV_64FC1 0) (create 0 0 CV_64FC1 0) 0 GC_EVAL
      = Inr (ex_mask, create 1 65 CV_64FC1 0, create 1 65 CV_64FC1 0)
   \<and> grabCut_slim (\<lambda>s i. 0) (\<lambda>g v. False) (ex_img 1 3) ex_mask (Rect 0 0 0 0)
        (create 0 0 CV_64FC1 0) (create 0 0 CV_64FC1 0) 1 GC_EVAL
      \<noteq> Inl (StsBadArg ''_model must have CV_64FC1 type, rows == 1 and cols == 13*componentsCount'')"
proof -
  have e: "empty_Mat (create 0 0 CV_64FC1 (0::real))"
    by (simp add: empty_Mat_def create_sel)
  have c: "GMM_ctor (create 0 0 CV_64FC1 0) = Inr (GMM_init (create 1 65 CV_64FC1 0))"
    by (rule GMM_ctor_empty[OF e])
  have i: "\<not> empty_Mat (ex_img 1 3)" "mtype (ex_img 1 3) = CV_8UC3"
    "GC_EVAL \<noteq> GC_INIT_WITH_RECT" "GC_EVAL \<noteq> GC_INIT_WITH_MASK"
    by (simp_all add: empty_Mat_def ex_img_def create_sel GC_EVAL_def GC_INIT_WITH_RECT_def
        GC_INIT_WITH_MASK_def)
  have z: "grabCut_slim (\<lambda>s i. 0) (\<lambda>g v. False) (ex_img 1 3) ex_mask (Rect 0 0 0 0)
        (create 0 0 CV_64FC1 0) (create 0 0 CV_64FC1 0) 0 GC_EVAL
      = Inr (ex_mask, create 1 65 CV_64FC1 0, create 1 65 CV_64FC1 0)"
    using grabCut_slim_zero[OF i c c, of 0 "\<lambda>s i. 0" "\<lambda>g v. False" ex_mask "Rect 0 0 0 0"]
    by (simp add: GMM_init_def)
  have n: "grabCut_slim (\<lambda>s i. 0) (\<lambda>g v. False) (ex_img 1 3) ex_mask (Rect 0 0 0 0)
        (create 0 0 CV_64FC1 0) (create 0 0 CV_64FC1 0) 1 GC_EVAL
      \<noteq> Inl (StsBadArg ''_model must have CV_64FC1 type, rows == 1 and cols == 13*componentsCount'')"
  proof
    assume a: "grabCut_slim (\<lambda>s i. 0) (\<lambda>g v. False) (ex_img 1 3) ex_mask (Rect 0 0 0 0)
        (create 0 0 CV_64FC1 0) (create 0 0 CV_64FC1 0) 1 GC_EVAL
      = Inl (StsBadArg ''_model must have CV_64FC1 type, rows == 1 and cols == 13*componentsCount'')"
    from grabCut_slim_eval_err[OF i c c a]
    have "checkMask (ex_img 1 3) ex_mask
            = Inl (StsBadArg ''_model must have CV_64FC1 type, rows == 1 and cols == 13*componentsCount'')"
      by simp
    from checkMask_err[OF this] show False by simp
  qed
  show ?thesis using e i z n by simp
qed































end
